theory Spec2Isabelle
  imports Complex_Main "HOL-Library.Multiset"
begin

section \<open>JavaScript numbers\<close>

text \<open>
  A JavaScript \<^verbatim>\<open>number\<close> is a finite value, one of the two infinities, or NaN.
  Finite values are idealised as exact rationals: rounding to 53 bits and the sign of
  zero are not modelled (a zero divisor counts as \<open>+0\<close>). The operations below are the
  ones \<^verbatim>\<open>processAudio\<close> and the comparator of \<^verbatim>\<open>getRecordingsFromDB\<close> apply.
\<close>

datatype jsnum = Num rat | PosInf | NegInf | NaN

text \<open>\<^verbatim>\<open>a <= b\<close>: false as soon as one side is NaN.\<close>

fun js_le :: "jsnum \<Rightarrow> jsnum \<Rightarrow> bool" where
  "js_le NaN b = False"
| "js_le a NaN = False"
| "js_le NegInf b = True"
| "js_le a PosInf = True"
| "js_le (Num a) (Num b) = (a \<le> b)"
| "js_le PosInf b = False"
| "js_le a NegInf = False"

text \<open>\<^verbatim>\<open>a < b\<close>.\<close>

fun js_lt :: "jsnum \<Rightarrow> jsnum \<Rightarrow> bool" where
  "js_lt NaN b = False"
| "js_lt a NaN = False"
| "js_lt PosInf b = False"
| "js_lt a NegInf = False"
| "js_lt (Num a) (Num b) = (a < b)"
| "js_lt NegInf b = True"
| "js_lt a PosInf = True"

text \<open>\<^verbatim>\<open>a + b\<close>.\<close>

fun js_add :: "jsnum \<Rightarrow> jsnum \<Rightarrow> jsnum" where
  "js_add NaN b = NaN"
| "js_add a NaN = NaN"
| "js_add (Num a) (Num b) = Num (a + b)"
| "js_add PosInf NegInf = NaN"
| "js_add NegInf PosInf = NaN"
| "js_add PosInf b = PosInf"
| "js_add NegInf b = NegInf"
| "js_add a PosInf = PosInf"
| "js_add a NegInf = NegInf"

text \<open>Unary minus, and \<^verbatim>\<open>a - b\<close> as \<open>a + (-b)\<close>.\<close>

fun js_neg :: "jsnum \<Rightarrow> jsnum" where
  "js_neg (Num a) = Num (- a)"
| "js_neg PosInf = NegInf"
| "js_neg NegInf = PosInf"
| "js_neg NaN = NaN"

definition js_sub :: "jsnum \<Rightarrow> jsnum \<Rightarrow> jsnum" where
  "js_sub a b = js_add a (js_neg b)"

text \<open>The infinity with the sign of a rational (zero counts as positive).\<close>

definition signed_inf :: "rat \<Rightarrow> jsnum" where
  "signed_inf s = (if 0 \<le> s then PosInf else NegInf)"

text \<open>\<^verbatim>\<open>a * b\<close>: zero times an infinity is NaN.\<close>

fun js_mul :: "jsnum \<Rightarrow> jsnum \<Rightarrow> jsnum" where
  "js_mul NaN b = NaN"
| "js_mul a NaN = NaN"
| "js_mul (Num a) (Num b) = Num (a * b)"
| "js_mul (Num a) PosInf = (if a = 0 then NaN else signed_inf a)"
| "js_mul (Num a) NegInf = (if a = 0 then NaN else signed_inf (- a))"
| "js_mul PosInf (Num b) = (if b = 0 then NaN else signed_inf b)"
| "js_mul NegInf (Num b) = (if b = 0 then NaN else signed_inf (- b))"
| "js_mul PosInf PosInf = PosInf"
| "js_mul NegInf NegInf = PosInf"
| "js_mul PosInf NegInf = NegInf"
| "js_mul NegInf PosInf = NegInf"

text \<open>
  \<^verbatim>\<open>a / b\<close>: a finite value over an infinity is zero, a non-zero value over zero
  is an infinity, and \<open>0 / 0\<close> and \<open>\<infinity> / \<infinity>\<close> are NaN.
\<close>

fun js_div :: "jsnum \<Rightarrow> jsnum \<Rightarrow> jsnum" where
  "js_div NaN b = NaN"
| "js_div a NaN = NaN"
| "js_div (Num a) (Num b) =
     (if b = 0 then (if a = 0 then NaN else signed_inf a) else Num (a / b))"
| "js_div (Num a) b = Num 0"
| "js_div PosInf (Num b) = (if 0 \<le> b then PosInf else NegInf)"
| "js_div NegInf (Num b) = (if 0 \<le> b then NegInf else PosInf)"
| "js_div a b = NaN"

text \<open>\<^verbatim>\<open>Math.ceil\<close> and \<^verbatim>\<open>Math.round\<close> (\<open>floor (x + 1/2)\<close>).\<close>

fun js_ceil :: "jsnum \<Rightarrow> jsnum" where
  "js_ceil (Num a) = Num (of_int \<lceil>a\<rceil>)"
| "js_ceil a = a"

fun js_round :: "jsnum \<Rightarrow> jsnum" where
  "js_round (Num a) = Num (of_int \<lfloor>a + 1 / 2\<rfloor>)"
| "js_round a = a"

text \<open>A loop counter or a byte count as a number.\<close>

abbreviation js_nat :: "nat \<Rightarrow> jsnum" where
  "js_nat n \<equiv> Num (of_nat n)"

section \<open>Blobs\<close>

text \<open>
  A \<^verbatim>\<open>Blob\<close> is an immutable byte sequence with a MIME type; \<^verbatim>\<open>blob.size\<close> is
  the number of bytes.
\<close>

record blob =
  bytes :: "char list"
  blob_type :: string

definition blob_size :: "blob \<Rightarrow> nat" where
  "blob_size b = length (bytes b)"

text \<open>Rounding to the nearest integer, ties to the even one.\<close>

definition round_half_even :: "rat \<Rightarrow> int" where
  "round_half_even q =
     (let f = \<lfloor>q\<rfloor>; r = q - of_int f
      in if r < 1 / 2 then f else if 1 / 2 < r then f + 1
         else if even f then f else f + 1)"

text \<open>
  An argument of \<^verbatim>\<open>Blob.slice\<close> as a position in a blob of \<open>sz\<close> bytes: the
  number is converted to an integer (NaN is 0, an infinity saturates, a fraction is
  rounded), a negative position counts from the end, and the result is clamped to
  \<open>0 .. sz\<close>. Sizes are taken to be below the saturation bound of the conversion.
\<close>

fun relative_pos :: "nat \<Rightarrow> jsnum \<Rightarrow> nat" where
  "relative_pos sz NaN = 0"
| "relative_pos sz PosInf = sz"
| "relative_pos sz NegInf = 0"
| "relative_pos sz (Num q) =
     (let k = round_half_even q
      in if k < 0 then nat (max (int sz + k) 0) else min (nat k) sz)"

text \<open>
  The byte range \<open>[lo, hi)\<close> that \<^verbatim>\<open>blob.slice(start, end)\<close> selects: it begins at
  the relative start and has \<open>max (relativeEnd - relativeStart) 0\<close> bytes.
\<close>

definition slice_range :: "blob \<Rightarrow> jsnum \<Rightarrow> jsnum \<Rightarrow> nat \<times> nat" where
  "slice_range b start end =
     (let relativeStart = relative_pos (blob_size b) start;
          relativeEnd = relative_pos (blob_size b) end;
          span = relativeEnd - relativeStart
      in (relativeStart, relativeStart + span))"

text \<open>
  \<^verbatim>\<open>blob.slice(start, end, contentType)\<close>: the bytes of that range, tagged with the
  content type given.
\<close>

definition slice :: "blob \<Rightarrow> jsnum \<Rightarrow> jsnum \<Rightarrow> string \<Rightarrow> blob" where
  "slice b start end contentType =
     (let (lo, hi) = slice_range b start end
      in \<lparr>bytes = take (hi - lo) (drop lo (bytes b)), blob_type = contentType\<rparr>)"

section \<open>Strings\<close>

text \<open>
  Strings are lists of code units, here the code units below 256. The white space that
  \<^verbatim>\<open>String.prototype.trim\<close> strips in that range is TAB, LF, VT, FF, CR, SPACE and the
  no-break space.
\<close>

definition is_white_space :: "char \<Rightarrow> bool" where
  "is_white_space ch =
     (ch \<in> set [CHR 0x09, CHR 0x0A, CHR 0x0B, CHR 0x0C, CHR 0x0D, CHR 0x20, CHR 0xA0])"

definition trim :: "string \<Rightarrow> string" where
  "trim s = rev (dropWhile is_white_space (rev (dropWhile is_white_space s)))"

text \<open>\<^verbatim>\<open>parts.join(sep)\<close>.\<close>

fun join :: "string \<Rightarrow> string list \<Rightarrow> string" where
  "join sep [] = []"
| "join sep [x] = x"
| "join sep (x # y # ys) = x @ sep @ join sep (y # ys)"

text \<open>\<^verbatim>\<open>s.split(sep)\<close> for a one-character separator.\<close>

fun split_on :: "char \<Rightarrow> string \<Rightarrow> string list" where
  "split_on sep [] = [[]]"
| "split_on sep (ch # s) =
     (if ch = sep then [] # split_on sep s
      else (case split_on sep s of
              [] \<Rightarrow> [[ch]]
            | piece # pieces \<Rightarrow> (ch # piece) # pieces))"

text \<open>\<^verbatim>\<open>xs[1]\<close>; \<open>None\<close> is \<^verbatim>\<open>undefined\<close>.\<close>

fun at_index_1 :: "'a list \<Rightarrow> 'a option" where
  "at_index_1 (x # y # ys) = Some y"
| "at_index_1 xs = None"

text \<open>
  The decimal numeral of a loop index, as a template literal formats it (below
  \<open>10\<^sup>2\<^sup>1\<close>, where JavaScript switches to exponent notation).
\<close>

definition digit_char :: "nat \<Rightarrow> char" where
  "digit_char d = char_of (48 + d)"

function string_of_nat :: "nat \<Rightarrow> string" where
  "string_of_nat n =
     (if n < 10 then [digit_char n]
      else string_of_nat (n div 10) @ [digit_char (n mod 10)])"
  by pat_completeness auto
termination
  by (relation "measure id") auto

declare string_of_nat.simps [simp del]

text \<open>Reading a decimal numeral: the digits and the number they denote.\<close>

definition is_digit :: "char \<Rightarrow> bool" where
  "is_digit ch = (48 \<le> (of_char ch :: nat) \<and> (of_char ch :: nat) \<le> 57)"

definition digit_value :: "char \<Rightarrow> nat" where
  "digit_value ch = of_char ch - 48"

definition digits_value :: "string \<Rightarrow> nat" where
  "digits_value ds = foldl (\<lambda>a ch. 10 * a + digit_value ch) 0 ds"

section \<open>Errors and promises\<close>

text \<open>
  What a promise can be rejected with: an \<^verbatim>\<open>Error\<close> carrying a message, the event
  a failing \<^verbatim>\<open>FileReader\<close> passes on, whatever the remote call throws, the
  \<^verbatim>\<open>SyntaxError\<close> of \<^verbatim>\<open>JSON.parse\<close>, and a \<^verbatim>\<open>DOMException\<close> of the database,
  by name.
\<close>

datatype error =
    Error string
  | ReaderErrorEvent
  | RemoteCallError string
  | SyntaxError
  | DOMException string

datatype 'a promise = Pending | Fulfilled 'a | Rejected error

text \<open>Settling a promise that is already settled has no effect.\<close>

definition resolve :: "'a \<Rightarrow> 'a promise \<Rightarrow> 'a promise" where
  "resolve v p = (case p of Pending \<Rightarrow> Fulfilled v | _ \<Rightarrow> p)"

definition reject :: "error \<Rightarrow> 'a promise \<Rightarrow> 'a promise" where
  "reject e p = (case p of Pending \<Rightarrow> Rejected e | _ \<Rightarrow> p)"

section \<open>getAudioDuration\<close>

text \<open>
  The audio element created for the clip fires events: \<^verbatim>\<open>loadedmetadata\<close> (at which
  \<^verbatim>\<open>audio.duration\<close> is read), \<^verbatim>\<open>error\<close>, or others no listener is registered for.
  Both listeners are registered with \<^verbatim>\<open>once: true\<close>. The promise has no reject path.
  (The object URL created and revoked around the probe is not modelled.)
\<close>

datatype media_event = LoadedMetadata jsnum | MediaError | OtherMediaEvent

record audio_probe =
  settled :: "jsnum promise"
  on_loadedmetadata :: bool
  on_error :: bool

fun dispatch_media :: "media_event \<Rightarrow> audio_probe \<Rightarrow> audio_probe" where
  "dispatch_media (LoadedMetadata duration) p =
     (if on_loadedmetadata p
      then p\<lparr>settled := resolve duration (settled p), on_loadedmetadata := False\<rparr>
      else p)"
| "dispatch_media MediaError p =
     (if on_error p
      then p\<lparr>settled := resolve (Num 0) (settled p), on_error := False\<rparr>
      else p)"
| "dispatch_media OtherMediaEvent p = p"

definition getAudioDuration :: "media_event list \<Rightarrow> jsnum promise" where
  "getAudioDuration events =
     settled (fold dispatch_media events
       \<lparr>settled = Pending, on_loadedmetadata = True, on_error = True\<rparr>)"

section \<open>blobToBase64\<close>

text \<open>
  The \<^verbatim>\<open>FileReader\<close> fires \<^verbatim>\<open>loadend\<close> with its result (a data URL string, or
  something that is not a string) or \<^verbatim>\<open>error\<close>. The promise is fulfilled with
  \<^verbatim>\<open>result.split(',')[1]\<close>, which is \<^verbatim>\<open>undefined\<close> (\<open>None\<close>) when the result has no comma.
\<close>

datatype reader_result = ResultString string | ResultNotString

datatype reader_event = LoadEnd reader_result | ReadError

fun dispatch_reader :: "reader_event \<Rightarrow> string option promise \<Rightarrow> string option promise" where
  "dispatch_reader (LoadEnd (ResultString result)) p =
     resolve (at_index_1 (split_on CHR '','' result)) p"
| "dispatch_reader (LoadEnd ResultNotString) p =
     reject (Error ''FileReader result is not a string.'') p"
| "dispatch_reader ReadError p = reject ReaderErrorEvent p"

definition blobToBase64 :: "reader_event list \<Rightarrow> string option promise" where
  "blobToBase64 events = fold dispatch_reader events Pending"

section \<open>The remote model and the environment of a run\<close>

text \<open>The argument of \<^verbatim>\<open>ai.models.generateContent\<close>.\<close>

datatype part = InlineData string "string option" | TextPart string

datatype contents = Parts "part list" | Prompt string

datatype schema =
    StringSchema "string option"
  | ArraySchema "string option" schema
  | ObjectSchema "(string \<times> schema) list" "string list"

record generation_config =
  responseMimeType :: string
  responseSchema :: schema

record request =
  model :: string
  contents :: contents
  config :: "generation_config option"

definition analysisSchema :: schema where
  "analysisSchema =
     ObjectSchema
       [(''summary'', StringSchema (Some
           ''A concise, professional summary of the entire transcription, capturing the key points and overall sentiment.'')),
        (''actionItems'', ArraySchema (Some
           ''A list of specific, actionable tasks mentioned in the transcript. Each item should be a clear to-do.'')
           (StringSchema None)),
        (''highlights'', ArraySchema (Some
           ''A list of the most important quotes, decisions, or key takeaways from the conversation.'')
           (StringSchema None))]
       [''summary'', ''actionItems'', ''highlights'']"

text \<open>Values that \<^verbatim>\<open>JSON.parse\<close> returns; an object is its list of properties.\<close>

datatype json =
    JNull
  | JBool bool
  | JNumber jsnum
  | JString string
  | JArray "json list"
  | JObject "(string \<times> json) list"

text \<open>
  What one run of the pipeline meets outside the program: the events the audio element
  of the clip fires, the events the \<open>k\<close>-th \<^verbatim>\<open>FileReader\<close> fires for the blob it
  reads, and how the promise of the \<open>k\<close>-th \<^verbatim>\<open>generateContent\<close> call settles
  (fulfilled with the \<^verbatim>\<open>text\<close> of the response, rejected, or never). The \<^verbatim>\<open>text\<close> of
  a response is taken to be a string, as the program takes it; a getter that throws
  counts as a rejected call.
\<close>

record env =
  media_events :: "blob \<Rightarrow> media_event list"
  file_reader :: "nat \<Rightarrow> blob \<Rightarrow> reader_event list"
  generateContent :: "nat \<Rightarrow> request \<Rightarrow> string promise"

text \<open>
  The status messages, with the values their template literals interpolate:
  \<^verbatim>\<open>'Analyzing audio file...'\<close>, \<^verbatim>\<open>'Transcribing audio...'\<close>,
  \<^verbatim>\<open>`Transcribing chunk ${i + 1} of ${numChunks}...`\<close>,
  \<^verbatim>\<open>'Analyzing full transcript...'\<close> and \<^verbatim>\<open>'Finalizing...'\<close>.
\<close>

datatype message =
    AnalyzingAudioFile
  | TranscribingAudio
  | TranscribingChunk jsnum jsnum
  | AnalyzingFullTranscript
  | Finalizing

text \<open>
  What a run does to the outside, in order: the calls of \<^verbatim>\<open>onProgress\<close>, the blobs
  handed to \<^verbatim>\<open>blobToBase64\<close>, and the requests sent to the model.
\<close>

record trace =
  progress_log :: "(message \<times> jsnum) list"
  reads :: "blob list"
  calls :: "request list"

definition onProgress :: "message \<Rightarrow> jsnum \<Rightarrow> trace \<Rightarrow> trace" where
  "onProgress msg progress st = st\<lparr>progress_log := progress_log st @ [(msg, progress)]\<rparr>"

definition read_blob :: "env \<Rightarrow> blob \<Rightarrow> trace \<Rightarrow> string option promise \<times> trace" where
  "read_blob env b st =
     (blobToBase64 (file_reader env (length (reads st)) b), st\<lparr>reads := reads st @ [b]\<rparr>)"

definition call_model :: "env \<Rightarrow> request \<Rightarrow> trace \<Rightarrow> string promise \<times> trace" where
  "call_model env req st =
     (generateContent env (length (calls st)) req, st\<lparr>calls := calls st @ [req]\<rparr>)"

text \<open>How an \<^verbatim>\<open>async\<close> function ends: it returns, it throws, or an awaited promise never settles.\<close>

datatype 'a outcome = Returned 'a | Threw error | Hung

section \<open>JSON.parse\<close>

text \<open>Defining a property: an existing one keeps its place and takes the new value.\<close>

fun set_prop :: "string \<Rightarrow> json \<Rightarrow> (string \<times> json) list \<Rightarrow> (string \<times> json) list" where
  "set_prop k v [] = [(k, v)]"
| "set_prop k v ((k', v') # props) =
     (if k' = k then (k, v) # props else (k', v') # set_prop k v props)"

text \<open>
  \<^verbatim>\<open>JSON.parse\<close> is the platform's. It is modelled after the JSON grammar: white space
  is space, tab, line feed and carriage return; a value is an object, an array, a
  string, a number, \<^verbatim>\<open>true\<close>, \<^verbatim>\<open>false\<close> or \<^verbatim>\<open>null\<close>; nothing but white space may
  follow the value. \<open>None\<close> is the \<^verbatim>\<open>SyntaxError\<close>. A number is its exact decimal
  value. A \<^verbatim>\<open>\u\<close> escape of a code unit that the strings of the model do not have (256 and
  above) is refused, which the platform does not do. A repeated key keeps its first
  place and takes its last value; the platform also moves keys that are array indices to
  the front, which is not modelled.
\<close>

definition is_json_space :: "char \<Rightarrow> bool" where
  "is_json_space ch = (ch \<in> set [CHR 0x20, CHR 0x09, CHR 0x0A, CHR 0x0D])"

definition skip_space :: "string \<Rightarrow> string" where
  "skip_space s = dropWhile is_json_space s"

definition strip_prefix :: "string \<Rightarrow> string \<Rightarrow> string option" where
  "strip_prefix p s = (if take (length p) s = p then Some (drop (length p) s) else None)"

definition hex_value :: "char \<Rightarrow> nat option" where
  "hex_value ch =
     (let n = (of_char ch :: nat)
      in if 48 \<le> n \<and> n \<le> 57 then Some (n - 48)
         else if 65 \<le> n \<and> n \<le> 70 then Some (n - 55)
         else if 97 \<le> n \<and> n \<le> 102 then Some (n - 87)
         else None)"

definition hex4_value :: "char \<Rightarrow> char \<Rightarrow> char \<Rightarrow> char \<Rightarrow> nat option" where
  "hex4_value a b c d =
     (case (hex_value a, hex_value b, hex_value c, hex_value d) of
        (Some w, Some x, Some y, Some z) \<Rightarrow> Some (((w * 16 + x) * 16 + y) * 16 + z)
      | _ \<Rightarrow> None)"

text \<open>The character after a backslash, for the escapes of one letter.\<close>

definition escaped :: "char \<Rightarrow> char option" where
  "escaped ch =
     (if ch = CHR 0x22 then Some (CHR 0x22)
      else if ch = CHR 0x5C then Some (CHR 0x5C)
      else if ch = CHR ''/'' then Some (CHR ''/'')
      else if ch = CHR ''b'' then Some (CHR 0x08)
      else if ch = CHR ''f'' then Some (CHR 0x0C)
      else if ch = CHR ''n'' then Some (CHR 0x0A)
      else if ch = CHR ''r'' then Some (CHR 0x0D)
      else if ch = CHR ''t'' then Some (CHR 0x09)
      else None)"

definition with_char :: "char \<Rightarrow> (string \<times> string) option \<Rightarrow> (string \<times> string) option" where
  "with_char ch r = (case r of None \<Rightarrow> None | Some (str, rest) \<Rightarrow> Some (ch # str, rest))"

text \<open>
  The characters of a string after its opening quote, up to the closing quote, and what
  follows it. A control character must be escaped.
\<close>

fun parse_chars :: "string \<Rightarrow> (string \<times> string) option" where
  "parse_chars [] = None"
| "parse_chars (ch # s) =
     (if ch = CHR 0x22 then Some ([], s)
      else if ch = CHR 0x5C then
        (case s of
           [] \<Rightarrow> None
         | e # s1 \<Rightarrow>
             if e = CHR ''u'' then
               (case s1 of
                  a # b # c # d # s2 \<Rightarrow>
                    (case hex4_value a b c d of
                       None \<Rightarrow> None
                     | Some v \<Rightarrow> if v < 256 then with_char (char_of v) (parse_chars s2) else None)
                | _ \<Rightarrow> None)
             else (case escaped e of
                     None \<Rightarrow> None
                   | Some x \<Rightarrow> with_char x (parse_chars s1)))
      else if (of_char ch :: nat) < 32 then None
      else with_char ch (parse_chars s))"

text \<open>
  A number: an optional minus, an integer part with no superfluous leading zero, an
  optional fraction and an optional exponent, each with at least one digit.
\<close>

definition parse_number :: "string \<Rightarrow> (json \<times> string) option" where
  "parse_number s =
     (let negative = (take 1 s = ''-'');
          s1 = (if negative then drop 1 s else s);
          int_digits = takeWhile is_digit s1;
          s2 = dropWhile is_digit s1;
          has_fraction = (take 1 s2 = ''.'');
          fraction_digits = (if has_fraction then takeWhile is_digit (drop 1 s2) else []);
          s3 = (if has_fraction then dropWhile is_digit (drop 1 s2) else s2);
          has_exponent = (take 1 s3 = ''e'' \<or> take 1 s3 = ''E'');
          s4 = (if has_exponent then drop 1 s3 else s3);
          exponent_negative = (has_exponent \<and> take 1 s4 = ''-'');
          s5 = (if has_exponent \<and> (take 1 s4 = ''-'' \<or> take 1 s4 = ''+'') then drop 1 s4 else s4);
          exponent_digits = (if has_exponent then takeWhile is_digit s5 else []);
          s6 = (if has_exponent then dropWhile is_digit s5 else s5);
          mantissa = (of_nat (digits_value int_digits) :: rat)
                       + of_nat (digits_value fraction_digits) / 10 ^ length fraction_digits;
          scaled = (if exponent_negative then mantissa / 10 ^ digits_value exponent_digits
                    else mantissa * 10 ^ digits_value exponent_digits)
      in if int_digits = [] \<or> (1 < length int_digits \<and> hd int_digits = CHR ''0'')
            \<or> (has_fraction \<and> fraction_digits = [])
            \<or> (has_exponent \<and> exponent_digits = [])
         then None
         else Some (JNumber (Num (if negative then - scaled else scaled)), s6))"

text \<open>
  A value, the elements of an array after its bracket, and the members of an object after
  its brace, each with what follows. The first argument bounds the depth of the calls.
\<close>

fun parse_value :: "nat \<Rightarrow> string \<Rightarrow> (json \<times> string) option"
  and parse_elements :: "nat \<Rightarrow> string \<Rightarrow> (json list \<times> string) option"
  and parse_members :: "nat \<Rightarrow> string \<Rightarrow> ((string \<times> json) list \<times> string) option" where
  "parse_value 0 s = None"
| "parse_value (Suc n) s =
     (case skip_space s of
        [] \<Rightarrow> None
      | ch # r \<Rightarrow>
          if ch = CHR ''{'' then
            (if take 1 (skip_space r) = ''}'' then Some (JObject [], drop 1 (skip_space r))
             else (case parse_members n r of
                     None \<Rightarrow> None
                   | Some (members, rest) \<Rightarrow>
                       Some (JObject (foldl (\<lambda>props (k, v). set_prop k v props) [] members), rest)))
          else if ch = CHR ''['' then
            (if take 1 (skip_space r) = '']'' then Some (JArray [], drop 1 (skip_space r))
             else (case parse_elements n r of
                     None \<Rightarrow> None
                   | Some (elements, rest) \<Rightarrow> Some (JArray elements, rest)))
          else if ch = CHR 0x22 then
            (case parse_chars r of
               None \<Rightarrow> None
             | Some (str, rest) \<Rightarrow> Some (JString str, rest))
          else if ch = CHR ''t'' then map_option (Pair (JBool True)) (strip_prefix ''true'' (ch # r))
          else if ch = CHR ''f'' then map_option (Pair (JBool False)) (strip_prefix ''false'' (ch # r))
          else if ch = CHR ''n'' then map_option (Pair JNull) (strip_prefix ''null'' (ch # r))
          else parse_number (ch # r))"
| "parse_elements 0 s = None"
| "parse_elements (Suc n) s =
     (case parse_value n s of
        None \<Rightarrow> None
      | Some (v, r) \<Rightarrow>
          (case skip_space r of
             [] \<Rightarrow> None
           | ch # r1 \<Rightarrow>
               if ch = CHR '','' then
                 (case parse_elements n r1 of
                    None \<Rightarrow> None
                  | Some (vs, rest) \<Rightarrow> Some (v # vs, rest))
               else if ch = CHR '']'' then Some ([v], r1)
               else None))"
| "parse_members 0 s = None"
| "parse_members (Suc n) s =
     (case skip_space s of
        [] \<Rightarrow> None
      | q # r \<Rightarrow>
          if q \<noteq> CHR 0x22 then None
          else
            (case parse_chars r of
               None \<Rightarrow> None
             | Some (k, r1) \<Rightarrow>
                 (case skip_space r1 of
                    [] \<Rightarrow> None
                  | colon # r2 \<Rightarrow>
                      if colon \<noteq> CHR '':'' then None
                      else
                        (case parse_value n r2 of
                           None \<Rightarrow> None
                         | Some (v, r3) \<Rightarrow>
                             (case skip_space r3 of
                                [] \<Rightarrow> None
                              | ch # r4 \<Rightarrow>
                                  if ch = CHR '','' then
                                    (case parse_members n r4 of
                                       None \<Rightarrow> None
                                     | Some (ms, rest) \<Rightarrow> Some ((k, v) # ms, rest))
                                  else if ch = CHR ''}'' then Some ([(k, v)], r4)
                                  else None)))))"

text \<open>
  The whole text. A level of nesting costs two calls and a further element or member
  one, each for at least one character of its own, so twice the length of the text is
  depth enough for every text.
\<close>

definition JSON_parse :: "string \<Rightarrow> json option" where
  "JSON_parse text =
     (case parse_value (2 * length text + 2) text of
        None \<Rightarrow> None
      | Some (v, rest) \<Rightarrow> if skip_space rest = [] then Some v else None)"

section \<open>processAudio\<close>

definition transcription_request :: "string \<Rightarrow> string option \<Rightarrow> string \<Rightarrow> request" where
  "transcription_request audioMimeType base64Audio instruction =
     \<lparr>model = ''gemini-2.5-flash'',
      contents = Parts [InlineData audioMimeType base64Audio, TextPart instruction],
      config = None\<rparr>"

text \<open>The request for a whole clip.\<close>

definition clip_request :: "string \<Rightarrow> string option \<Rightarrow> request" where
  "clip_request audioMimeType base64Audio =
     transcription_request audioMimeType base64Audio
       ''Provide a clean, accurate, and detailed transcription of this audio. Do not add any commentary, just the text.''"

text \<open>
  The branch for a clip that is short enough: one read of the whole clip and one call,
  neither of them guarded.
\<close>

definition single_pass :: "env \<Rightarrow> blob \<Rightarrow> string \<Rightarrow> trace \<Rightarrow> (json outcome + string) \<times> trace" where
  "single_pass env audioBlob audioMimeType st =
     (let st1 = onProgress TranscribingAudio (Num 20) st;
          (base64, st2) = read_blob env audioBlob st1
      in case base64 of
           Pending \<Rightarrow> (Inl Hung, st2)
         | Rejected e \<Rightarrow> (Inl (Threw e), st2)
         | Fulfilled base64Audio \<Rightarrow>
             (let (transcriptResponse, st3) =
                    call_model env (clip_request audioMimeType base64Audio) st2
              in case transcriptResponse of
                   Pending \<Rightarrow> (Inl Hung, st3)
                 | Rejected e \<Rightarrow> (Inl (Threw e), st3)
                 | Fulfilled text \<Rightarrow> (Inr text, st3)))"

text \<open>The marker pushed in place of the text of a chunk whose call failed.\<close>

definition chunk_error_marker :: "nat \<Rightarrow> string" where
  "chunk_error_marker i =
     [CHR 0x0A] @ ''[-- Error transcribing chunk '' @ string_of_nat (i + 1)
       @ ''. The audio segment might have been too long or corrupted. --]'' @ [CHR 0x0A]"

text \<open>
  One iteration of the loop over the chunks. The read of the chunk is outside the
  \<^verbatim>\<open>try\<close>: its rejection ends the run. Only the call (and the read of its
  \<^verbatim>\<open>text\<close>) is inside: its rejection pushes the marker. (The line written to the
  console is not modelled.)
\<close>

datatype step = Continue "string list" trace | Abort "json outcome" trace

definition chunk_progress :: "jsnum \<Rightarrow> nat \<Rightarrow> jsnum" where
  "chunk_progress numChunks i =
     js_add (Num 20) (js_round (js_mul (js_div (js_nat i) numChunks) (Num 60)))"

definition chunk_bounds :: "jsnum \<Rightarrow> nat \<Rightarrow> jsnum \<times> jsnum" where
  "chunk_bounds chunkSize i =
     (let start = js_mul (js_nat i) chunkSize;
          end = js_add start chunkSize
      in (start, end))"

definition chunk_at :: "blob \<Rightarrow> string \<Rightarrow> jsnum \<Rightarrow> nat \<Rightarrow> blob" where
  "chunk_at audioBlob audioMimeType chunkSize i =
     (let (start, end) = chunk_bounds chunkSize i
      in slice audioBlob start end audioMimeType)"

definition chunk_request :: "string \<Rightarrow> string option \<Rightarrow> request" where
  "chunk_request audioMimeType base64Audio =
     transcription_request audioMimeType base64Audio
       ''Provide a clean, accurate, and detailed transcription of this audio chunk. Do not add any commentary, just the text.''"

definition chunk_iteration ::
  "env \<Rightarrow> blob \<Rightarrow> string \<Rightarrow> jsnum \<Rightarrow> jsnum \<Rightarrow> nat \<Rightarrow> string list \<Rightarrow> trace \<Rightarrow> step" where
  "chunk_iteration env audioBlob audioMimeType numChunks chunkSize i transcriptionParts st =
     (let progress = chunk_progress numChunks i;
          st1 = onProgress (TranscribingChunk (js_nat (i + 1)) numChunks) progress st;
          chunk = chunk_at audioBlob audioMimeType chunkSize i;
          (base64, st2) = read_blob env chunk st1
      in case base64 of
           Pending \<Rightarrow> Abort Hung st2
         | Rejected e \<Rightarrow> Abort (Threw e) st2
         | Fulfilled base64Audio \<Rightarrow>
             (let (transcriptResponse, st3) =
                    call_model env (chunk_request audioMimeType base64Audio) st2
              in case transcriptResponse of
                   Pending \<Rightarrow> Abort Hung st3
                 | Fulfilled text \<Rightarrow> Continue (transcriptionParts @ [text]) st3
                 | Rejected e \<Rightarrow>
                     Continue (transcriptionParts @ [chunk_error_marker i]) st3))"

text \<open>
  \<^verbatim>\<open>for (let i = 0; i < numChunks; i++)\<close>. With \<open>numChunks\<close> infinite the loop has
  no exit but a failing read, so the function is partial: \<open>None\<close> is a run that never
  ends.
\<close>

partial_function (option) chunk_loop ::
  "env \<Rightarrow> blob \<Rightarrow> string \<Rightarrow> jsnum \<Rightarrow> jsnum \<Rightarrow> nat \<Rightarrow> string list \<Rightarrow> trace
     \<Rightarrow> ((json outcome + string list) \<times> trace) option" where
  "chunk_loop env audioBlob audioMimeType numChunks chunkSize i transcriptionParts st =
     (if js_lt (js_nat i) numChunks
      then (case chunk_iteration env audioBlob audioMimeType numChunks chunkSize i
                   transcriptionParts st of
              Abort failure st' \<Rightarrow> Some (Inl failure, st')
            | Continue transcriptionParts' st' \<Rightarrow>
                chunk_loop env audioBlob audioMimeType numChunks chunkSize (i + 1)
                  transcriptionParts' st')
      else Some (Inr transcriptionParts, st))"

declare chunk_loop.simps [code]

text \<open>The transcription phase: the choice between the two branches, up to the raw transcript.\<close>

definition num_chunks :: "jsnum \<Rightarrow> jsnum \<Rightarrow> jsnum" where
  "num_chunks duration MAX_CHUNK_SECONDS = js_ceil (js_div duration MAX_CHUNK_SECONDS)"

definition chunk_size :: "blob \<Rightarrow> jsnum \<Rightarrow> jsnum" where
  "chunk_size audioBlob numChunks = js_ceil (js_div (js_nat (blob_size audioBlob)) numChunks)"

definition transcribe ::
  "env \<Rightarrow> blob \<Rightarrow> string \<Rightarrow> jsnum \<Rightarrow> jsnum \<Rightarrow> trace
     \<Rightarrow> ((json outcome + string) \<times> trace) option" where
  "transcribe env audioBlob audioMimeType duration MAX_CHUNK_SECONDS st =
     (if js_le duration MAX_CHUNK_SECONDS
      then Some (single_pass env audioBlob audioMimeType st)
      else
        (let numChunks = num_chunks duration MAX_CHUNK_SECONDS;
             chunkSize = chunk_size audioBlob numChunks
         in case chunk_loop env audioBlob audioMimeType numChunks chunkSize 0 [] st of
              None \<Rightarrow> None
            | Some (Inl failure, st') \<Rightarrow> Some (Inl failure, st')
            | Some (Inr transcriptionParts, st') \<Rightarrow>
                Some (Inr (join '' '' transcriptionParts), st')))"

text \<open>
  Object spread \<^verbatim>\<open>{...v}\<close>: the own enumerable properties of an object, the indexed
  elements of an array or string, nothing for the other values.
\<close>

fun spread :: "json \<Rightarrow> (string \<times> json) list" where
  "spread (JObject props) = props"
| "spread (JArray xs) = zip (map string_of_nat [0..<length xs]) xs"
| "spread (JString s) = zip (map string_of_nat [0..<length s]) (map (\<lambda>ch. JString [ch]) s)"
| "spread v = []"

definition analysis_prompt :: "string \<Rightarrow> string" where
  "analysis_prompt rawTranscript =
     [CHR 0x0A] @ ''    Based on the following transcription, please generate a structured analysis.''
     @ [CHR 0x0A] @ ''    ''
     @ [CHR 0x0A] @ ''    Transcription:''
     @ [CHR 0x0A] @ ''    ---''
     @ [CHR 0x0A] @ ''    '' @ rawTranscript
     @ [CHR 0x0A] @ ''    ---''
     @ [CHR 0x0A] @ ''    ''
     @ [CHR 0x0A] @ ''    Please provide the analysis in the requested JSON format.''
     @ [CHR 0x0A] @ ''  ''"

definition analysis_request :: "string \<Rightarrow> request" where
  "analysis_request rawTranscript =
     \<lparr>model = ''gemini-2.5-flash'',
      contents = Prompt (analysis_prompt rawTranscript),
      config = Some \<lparr>responseMimeType = ''application/json'',
                     responseSchema = analysisSchema\<rparr>\<rparr>"

text \<open>From the blank check to the result.\<close>

definition analyse :: "env \<Rightarrow> string \<Rightarrow> trace \<Rightarrow> json outcome \<times> trace" where
  "analyse env rawTranscript st =
     (if trim rawTranscript = []
      then (Threw (Error ''Failed to transcribe audio. The response was empty.''), st)
      else
        (let st1 = onProgress AnalyzingFullTranscript (Num 85) st;
             (analysisResponse, st2) = call_model env (analysis_request rawTranscript) st1
         in case analysisResponse of
              Pending \<Rightarrow> (Hung, st2)
            | Rejected e \<Rightarrow> (Threw e, st2)
            | Fulfilled text \<Rightarrow>
                (case JSON_parse text of
                   None \<Rightarrow> (Threw SyntaxError, st2)
                 | Some analysisJson \<Rightarrow>
                     (let st3 = onProgress Finalizing (Num 100) st2
                      in (Returned (JObject (set_prop ''rawTranscript'' (JString rawTranscript)
                                      (spread analysisJson))), st3)))))"

definition initial_trace :: trace where
  "initial_trace = \<lparr>progress_log = [], reads = [], calls = []\<rparr>"

definition mime_type_of :: "blob \<Rightarrow> string" where
  "mime_type_of audioBlob =
     (if blob_type audioBlob = [] then ''audio/webm'' else blob_type audioBlob)"

definition MAX_CHUNK_SECONDS :: jsnum where
  "MAX_CHUNK_SECONDS = (let MAX_CHUNK_MINUTES = Num 9 in js_mul MAX_CHUNK_MINUTES (Num 60))"

definition processAudio :: "env \<Rightarrow> blob \<Rightarrow> (json outcome \<times> trace) option" where
  "processAudio env audioBlob =
     (let st0 = onProgress AnalyzingAudioFile (Num 5) initial_trace
      in case getAudioDuration (media_events env audioBlob) of
           Pending \<Rightarrow> Some (Hung, st0)
         | Rejected e \<Rightarrow> Some (Threw e, st0)
         | Fulfilled duration \<Rightarrow>
             (let audioMimeType = mime_type_of audioBlob
              in case transcribe env audioBlob audioMimeType duration MAX_CHUNK_SECONDS st0 of
                   None \<Rightarrow> None
                 | Some (Inl failure, st) \<Rightarrow> Some (failure, st)
                 | Some (Inr rawTranscript, st) \<Rightarrow> Some (analyse env rawTranscript st)))"

section \<open>Notions used to state the properties of processAudio\<close>

text \<open>
  The text that takes the place of chunk \<open>i\<close> in the transcript, given how its call
  settled.
\<close>

definition segment_text :: "string promise \<Rightarrow> nat \<Rightarrow> string" where
  "segment_text reply i = (case reply of Fulfilled text \<Rightarrow> text | _ \<Rightarrow> chunk_error_marker i)"

text \<open>The trace once the first progress report is made, where the transcription phase starts.\<close>

definition started :: trace where
  "started = onProgress AnalyzingAudioFile (Num 5) initial_trace"

text \<open>The trace after the progress report and the read of iteration \<open>i\<close>.\<close>

definition after_chunk_read :: "blob \<Rightarrow> string \<Rightarrow> jsnum \<Rightarrow> jsnum \<Rightarrow> nat \<Rightarrow> trace \<Rightarrow> trace" where
  "after_chunk_read b m n c i st =
     st\<lparr>progress_log := progress_log st
          @ [(TranscribingChunk (js_nat (i + 1)) n, chunk_progress n i)],
        reads := reads st @ [chunk_at b m c i]\<rparr>"

text \<open>
  In a run whose iteration \<open>j\<close> makes the \<open>j\<close>-th read and the \<open>j\<close>-th call: how the
  read of chunk \<open>j\<close> settles, and how its call settles (pending also when the read is
  not fulfilled, when there is no call).
\<close>

definition chunk_base64 :: "env \<Rightarrow> blob \<Rightarrow> string \<Rightarrow> jsnum \<Rightarrow> nat \<Rightarrow> string option promise" where
  "chunk_base64 env b m c j = blobToBase64 (file_reader env j (chunk_at b m c j))"

definition chunk_reply :: "env \<Rightarrow> blob \<Rightarrow> string \<Rightarrow> jsnum \<Rightarrow> nat \<Rightarrow> string promise" where
  "chunk_reply env b m c j =
     (case chunk_base64 env b m c j of
        Fulfilled base64Audio \<Rightarrow> generateContent env j (chunk_request m base64Audio)
      | _ \<Rightarrow> Pending)"

text \<open>The data of chunk \<open>j\<close> that goes into its request, once the read is fulfilled.\<close>

definition chunk_data :: "env \<Rightarrow> blob \<Rightarrow> string \<Rightarrow> jsnum \<Rightarrow> nat \<Rightarrow> string option" where
  "chunk_data env b m c j =
     (case chunk_base64 env b m c j of Fulfilled base64Audio \<Rightarrow> base64Audio | _ \<Rightarrow> None)"

text \<open>The trace after \<open>N\<close> complete iterations.\<close>

definition after_chunks :: "env \<Rightarrow> blob \<Rightarrow> string \<Rightarrow> jsnum \<Rightarrow> jsnum \<Rightarrow> nat \<Rightarrow> trace \<Rightarrow> trace" where
  "after_chunks env b m n c N st =
     st\<lparr>progress_log := progress_log st
          @ map (\<lambda>j. (TranscribingChunk (js_nat (j + 1)) n, chunk_progress n j)) [0..<N],
        reads := reads st @ map (chunk_at b m c) [0..<N],
        calls := calls st @ map (\<lambda>j. chunk_request m (chunk_data env b m c j)) [0..<N]\<rparr>"

text \<open>Every one of the first \<open>N\<close> chunks is read and its call settles, one way or the other.\<close>

definition all_chunks_answered :: "env \<Rightarrow> blob \<Rightarrow> string \<Rightarrow> jsnum \<Rightarrow> nat \<Rightarrow> bool" where
  "all_chunks_answered env b m c N = list_all (\<lambda>j. chunk_reply env b m c j \<noteq> Pending) [0..<N]"

text \<open>The segments of the transcript in such a run, in chunk order.\<close>

definition segments :: "env \<Rightarrow> blob \<Rightarrow> string \<Rightarrow> jsnum \<Rightarrow> nat \<Rightarrow> string list" where
  "segments env b m c N = map (\<lambda>j. segment_text (chunk_reply env b m c j) j) [0..<N]"

text \<open>The rounded share of the 60 points that chunk \<open>i\<close> of \<open>N\<close> adds to the progress.\<close>

definition progress_step :: "nat \<Rightarrow> nat \<Rightarrow> int" where
  "progress_step N i = \<lfloor>(of_nat i :: rat) / of_nat N * 60 + 1 / 2\<rfloor>"

text \<open>The byte range of chunk \<open>i\<close>: the range its \<^verbatim>\<open>slice\<close> selects.\<close>

definition chunk_range :: "blob \<Rightarrow> jsnum \<Rightarrow> nat \<Rightarrow> nat \<times> nat" where
  "chunk_range audioBlob chunkSize i =
     (let (start, end) = chunk_bounds chunkSize i in slice_range audioBlob start end)"

text \<open>A request that carries audio, as opposed to the analysis request.\<close>

definition is_transcription_call :: "request \<Rightarrow> bool" where
  "is_transcription_call req = (case contents req of Parts ps \<Rightarrow> True | Prompt s \<Rightarrow> False)"

text \<open>
  What a response schema demands of a value: a string, an array of conforming elements,
  or an object that has every required property and whose listed properties conform.
  The remote service is asked for this; the program does not check it.
\<close>

fun conforms :: "schema \<Rightarrow> json \<Rightarrow> bool" where
  "conforms (StringSchema d) v = (case v of JString s \<Rightarrow> True | _ \<Rightarrow> False)"
| "conforms (ArraySchema d items) v =
     (case v of JArray xs \<Rightarrow> list_all (conforms items) xs | _ \<Rightarrow> False)"
| "conforms (ObjectSchema properties required) v =
     (case v of
        JObject props \<Rightarrow>
          list_all (\<lambda>k. k \<in> fst ` set props) required
          \<and> list_all (\<lambda>(k, sch). case map_of props k of
                                    None \<Rightarrow> True
                                  | Some x \<Rightarrow> conforms sch x) properties
      | _ \<Rightarrow> False)"

section \<open>The recordings store\<close>

text \<open>
  The interface \<^verbatim>\<open>Recording\<close>, and the same without \<^verbatim>\<open>audioBlob\<close>
  (\<^verbatim>\<open>Omit<Recording, 'audioBlob'>\<close>). An optional property is an option; so is
  \<^verbatim>\<open>TranscriptionData | null\<close>. The fields carry the prefix \<open>rec_\<close>.
\<close>

record recording_meta =
  rec_id :: string
  rec_name :: string
  rec_date :: string
  rec_audioUrl :: "string option"
  rec_transcription :: "json option"

record recording = recording_meta +
  rec_audioBlob :: "blob option"

text \<open>\<^verbatim>\<open>const { audioBlob, ...rest } = rec; return rest;\<close>\<close>

definition omit_audioBlob :: "recording \<Rightarrow> recording_meta" where
  "omit_audioBlob r =
     \<lparr>rec_id = rec_id r, rec_name = rec_name r, rec_date = rec_date r,
      rec_audioUrl = rec_audioUrl r,
      rec_transcription = rec_transcription r\<rparr>"

text \<open>
  The database: its version (0 when it does not exist yet), the records of the object
  store \<^verbatim>\<open>recordings\<close> in key order (\<open>None\<close> when the store does not exist), and
  whether the module variable \<^verbatim>\<open>db\<close> holds a connection.
\<close>

record database =
  version :: nat
  object_store :: "recording list option"
  db :: bool

definition DB_VERSION :: nat where
  "DB_VERSION = 1"

text \<open>How a request to the database ends: success, an error with its message if any, or never.\<close>

datatype request_outcome = Succeeds | Fails "string option" | NeverSettles

text \<open>
  What a read meets outside the program: the outcome of the open request, the outcome
  of \<^verbatim>\<open>getAll\<close>, and \<^verbatim>\<open>new Date(s).getTime()\<close> (a time value, or NaN for a
  string that is no date).
\<close>

record db_env =
  open_request :: request_outcome
  getAll_request :: request_outcome
  date_getTime :: "string \<Rightarrow> jsnum"

text \<open>
  \<^verbatim>\<open>initDB\<close>: the connection is reused if there is one. Otherwise the database is
  opened at \<open>DB_VERSION\<close>; opening a database of a higher version is an error, and
  opening one of a lower version runs \<^verbatim>\<open>onupgradeneeded\<close>, which creates the object
  store unless it exists.
\<close>

definition initDB :: "db_env \<Rightarrow> database \<Rightarrow> unit promise \<times> database" where
  "initDB env s =
     (if db s then (Fulfilled (), s)
      else if DB_VERSION < version s then (Rejected (Error ''Error opening DB''), s)
      else (case open_request env of
              NeverSettles \<Rightarrow> (Pending, s)
            | Fails msg \<Rightarrow> (Rejected (Error ''Error opening DB''), s)
            | Succeeds \<Rightarrow>
                (let s1 = (if version s < DB_VERSION
                           then s\<lparr>version := DB_VERSION,
                                  object_store := (case object_store s of
                                                     None \<Rightarrow> Some []
                                                   | Some recs \<Rightarrow> Some recs)\<rparr>
                           else s)
                 in (Fulfilled (), s1\<lparr>db := True\<rparr>))))"

text \<open>
  \<^verbatim>\<open>Array.prototype.sort(comparefn)\<close> is the platform's. The language fixes its result
  only for a comparator that is consistent on the elements: it never yields NaN, the
  elements it yields 0 for are equivalent, and its \<open>< 0\<close> and \<open>> 0\<close> are transitive.
\<close>

definition consistent_comparator :: "('a \<Rightarrow> 'a \<Rightarrow> jsnum) \<Rightarrow> 'a list \<Rightarrow> bool" where
  "consistent_comparator comparefn xs =
     (list_all (\<lambda>a. list_all (\<lambda>b. comparefn a b \<noteq> NaN) xs) xs
      \<and> list_all (\<lambda>a. comparefn a a = Num 0) xs
      \<and> list_all (\<lambda>a. list_all (\<lambda>b. comparefn a b = Num 0 \<longrightarrow> comparefn b a = Num 0) xs) xs
      \<and> list_all (\<lambda>a. list_all (\<lambda>b. list_all (\<lambda>c.
            (comparefn a b = Num 0 \<and> comparefn b c = Num 0 \<longrightarrow> comparefn a c = Num 0)
          \<and> (js_lt (comparefn a b) (Num 0) \<and> js_lt (comparefn b c) (Num 0)
               \<longrightarrow> js_lt (comparefn a c) (Num 0))
          \<and> (js_lt (Num 0) (comparefn a b) \<and> js_lt (Num 0) (comparefn b c)
               \<longrightarrow> js_lt (Num 0) (comparefn a c))) xs) xs) xs)"

text \<open>
  With a consistent comparator the elements come in the one order that is sorted and
  stable: \<open>x\<close> is placed after \<open>y\<close> when \<open>comparefn(x, y) > 0\<close>, a NaN counting as \<open>+0\<close>.
  Otherwise the order is the implementation's, and all that is known of the result is
  which elements it has.
\<close>

datatype 'a sorted_array = InOrder "'a list" | InSomeOrder "'a multiset"

fun elements_of :: "'a sorted_array \<Rightarrow> 'a multiset" where
  "elements_of (InOrder xs) = mset xs"
| "elements_of (InSomeOrder M) = M"

definition sort_compare :: "('a \<Rightarrow> 'a \<Rightarrow> jsnum) \<Rightarrow> 'a \<Rightarrow> 'a \<Rightarrow> jsnum" where
  "sort_compare comparefn x y = (case comparefn x y of NaN \<Rightarrow> Num 0 | v \<Rightarrow> v)"

fun insert_sorted :: "('a \<Rightarrow> 'a \<Rightarrow> jsnum) \<Rightarrow> 'a \<Rightarrow> 'a list \<Rightarrow> 'a list" where
  "insert_sorted comparefn x [] = [x]"
| "insert_sorted comparefn x (y # ys) =
     (if js_lt (Num 0) (sort_compare comparefn x y)
      then y # insert_sorted comparefn x ys
      else x # y # ys)"

definition array_sort :: "('a \<Rightarrow> 'a \<Rightarrow> jsnum) \<Rightarrow> 'a list \<Rightarrow> 'a sorted_array" where
  "array_sort comparefn xs =
     (if consistent_comparator comparefn xs then InOrder (foldr (insert_sorted comparefn) xs [])
      else InSomeOrder (mset xs))"

text \<open>\<^verbatim>\<open>(a, b) => new Date(b.date).getTime() - new Date(a.date).getTime()\<close>\<close>

definition by_date_desc :: "db_env \<Rightarrow> recording_meta \<Rightarrow> recording_meta \<Rightarrow> jsnum" where
  "by_date_desc env a b =
     js_sub (date_getTime env (rec_date b)) (date_getTime env (rec_date a))"

text \<open>\<^verbatim>\<open>${x}\<close> for a message that may be \<^verbatim>\<open>undefined\<close>.\<close>

definition show_optional :: "string option \<Rightarrow> string" where
  "show_optional m = (case m of None \<Rightarrow> ''undefined'' | Some msg \<Rightarrow> msg)"

text \<open>
  \<^verbatim>\<open>getRecordingsFromDB\<close>: a read-only transaction on the store (a
  \<^verbatim>\<open>NotFoundError\<close> if the store does not exist), \<^verbatim>\<open>getAll\<close>, then the mapping
  and the sort.
\<close>

definition getRecordingsFromDB ::
  "db_env \<Rightarrow> database \<Rightarrow> recording_meta sorted_array promise \<times> database" where
  "getRecordingsFromDB env s =
     (case initDB env s of
        (Pending, s1) \<Rightarrow> (Pending, s1)
      | (Rejected e, s1) \<Rightarrow> (Rejected e, s1)
      | (Fulfilled u, s1) \<Rightarrow>
          (case object_store s1 of
             None \<Rightarrow> (Rejected (DOMException ''NotFoundError''), s1)
           | Some result \<Rightarrow>
               (case getAll_request env of
                  NeverSettles \<Rightarrow> (Pending, s1)
                | Fails msg \<Rightarrow>
                    (Rejected (Error (''Error fetching recordings: '' @ show_optional msg)), s1)
                | Succeeds \<Rightarrow>
                    (let recordingsWithoutBlobs = map omit_audioBlob result
                     in (Fulfilled (array_sort (by_date_desc env) recordingsWithoutBlobs), s1)))))"

text \<open>The records in the store; none when there is no store.\<close>

definition store_contents :: "database \<Rightarrow> recording list" where
  "store_contents s = (case object_store s of None \<Rightarrow> [] | Some recs \<Rightarrow> recs)"

text \<open>
  A record is dated when its \<^verbatim>\<open>date\<close> has a time value; \<open>a\<close> is not older than \<open>b\<close>
  when the time value of \<open>b\<close> is at most that of \<open>a\<close>.
\<close>

definition dated :: "db_env \<Rightarrow> 'a recording_meta_scheme \<Rightarrow> bool" where
  "dated env r = (\<exists>t. date_getTime env (rec_date r) = Num t)"

definition not_older :: "db_env \<Rightarrow> recording_meta \<Rightarrow> recording_meta \<Rightarrow> bool" where
  "not_older env a b = js_le (date_getTime env (rec_date b)) (date_getTime env (rec_date a))"

section \<open>Example clips and environments\<close>

text \<open>A clip of five bytes with no MIME type of its own.\<close>

definition example_clip :: blob where
  "example_clip = \<lparr>bytes = ''abcde'', blob_type = []\<rparr>"

text \<open>
  A reader that always succeeds. The real encoding is the platform's business; here the
  bytes of the blob stand for their own encoding in the data URL.
\<close>

definition data_url_reader :: "nat \<Rightarrow> blob \<Rightarrow> reader_event list" where
  "data_url_reader k b = [LoadEnd (ResultString (''data:audio/webm;base64,'' @ bytes b))]"

text \<open>The analysis payload of the round-trip property, and the object it denotes.\<close>

definition analysis_payload :: string where
  "analysis_payload =
     ''{'' @ [CHR 0x22] @ ''summary'' @ [CHR 0x22] @ '':'' @ [CHR 0x22] @ ''S'' @ [CHR 0x22]
     @ '','' @ [CHR 0x22] @ ''actionItems'' @ [CHR 0x22] @ '':['' @ [CHR 0x22] @ ''A1'' @ [CHR 0x22] @ '']''
     @ '','' @ [CHR 0x22] @ ''highlights'' @ [CHR 0x22] @ '':['' @ [CHR 0x22] @ ''H1'' @ [CHR 0x22] @ '']}''"

definition analysis_object :: json where
  "analysis_object =
     JObject [(''summary'', JString ''S''),
              (''actionItems'', JArray [JString ''A1'']),
              (''highlights'', JArray [JString ''H1''])]"

text \<open>The \<open>k\<close>-th call settles as the \<open>k\<close>-th entry of a list says, and never beyond the list.\<close>

definition replies_of :: "string promise list \<Rightarrow> nat \<Rightarrow> request \<Rightarrow> string promise" where
  "replies_of rs k req = (if k < length rs then rs ! k else Pending)"

definition example_env :: "media_event list \<Rightarrow> string promise list \<Rightarrow> env" where
  "example_env events rs =
     \<lparr>media_events = (\<lambda>b. events),
      file_reader = data_url_reader,
      generateContent = replies_of rs\<rparr>"

text \<open>A clip of 1200 seconds whose second chunk is refused and whose analysis succeeds.\<close>

definition long_clip_env :: env where
  "long_clip_env =
     example_env [LoadedMetadata (Num 1200)]
       [Fulfilled ''one'', Rejected (RemoteCallError ''503''), Fulfilled ''three'',
        Fulfilled analysis_payload]"

text \<open>A clip of 1000 seconds for which the model finds nothing to transcribe.\<close>

definition silent_clip_env :: env where
  "silent_clip_env = example_env [LoadedMetadata (Num 1000)] [Fulfilled [], Fulfilled []]"

text \<open>A clip of 2000 seconds: four chunks of two bytes planned over five bytes.\<close>

definition tiny_clip_env :: env where
  "tiny_clip_env =
     example_env [LoadedMetadata (Num 2000)]
       [Fulfilled ''a'', Fulfilled ''b'', Fulfilled ''c'', Fulfilled ''d'',
        Fulfilled analysis_payload]"

text \<open>An undecodable clip, transcribed and analysed in one pass.\<close>

definition short_clip_env :: env where
  "short_clip_env =
     example_env [MediaError] [Fulfilled ''hello'', Fulfilled analysis_payload]"

text \<open>A short clip whose one call is refused, and one whose transcription is blank.\<close>

definition refused_clip_env :: env where
  "refused_clip_env =
     example_env [LoadedMetadata (Num 100)] [Rejected (RemoteCallError ''503'')]"

definition blank_clip_env :: env where
  "blank_clip_env = example_env [LoadedMetadata (Num 100)] [Fulfilled ''  '']"

text \<open>A short clip that the reader fails to read.\<close>

definition unreadable_clip_env :: env where
  "unreadable_clip_env =
     \<lparr>media_events = (\<lambda>b. [LoadedMetadata (Num 100)]),
      file_reader = (\<lambda>k b. [ReadError, LoadEnd ResultNotString]),
      generateContent = (\<lambda>k req. Fulfilled ''hello'')\<rparr>"

text \<open>
  A clip whose duration is reported as infinite, as for a stream; every read succeeds
  and every call is refused.
\<close>

definition endless_clip_env :: env where
  "endless_clip_env =
     \<lparr>media_events = (\<lambda>b. [LoadedMetadata PosInf]),
      file_reader = data_url_reader,
      generateContent = (\<lambda>k req. Rejected (RemoteCallError ''400''))\<rparr>"

text \<open>What the run over the clip of 1200 seconds returns, and the trace it leaves.\<close>

definition long_clip_result :: json where
  "long_clip_result =
     JObject [(''summary'', JString ''S''),
              (''actionItems'', JArray [JString ''A1'']),
              (''highlights'', JArray [JString ''H1'']),
              (''rawTranscript'', JString (join '' '' [''one'', chunk_error_marker 1, ''three'']))]"

definition long_clip_trace :: trace where
  "long_clip_trace =
     \<lparr>progress_log =
        [(AnalyzingAudioFile, Num 5),
         (TranscribingChunk (Num 1) (Num 3), Num 20),
         (TranscribingChunk (Num 2) (Num 3), Num 40),
         (TranscribingChunk (Num 3) (Num 3), Num 60),
         (AnalyzingFullTranscript, Num 85),
         (Finalizing, Num 100)],
      reads =
        [\<lparr>bytes = ''ab'', blob_type = ''audio/webm''\<rparr>,
         \<lparr>bytes = ''cd'', blob_type = ''audio/webm''\<rparr>,
         \<lparr>bytes = ''e'', blob_type = ''audio/webm''\<rparr>],
      calls =
        [chunk_request ''audio/webm'' (Some ''ab''),
         chunk_request ''audio/webm'' (Some ''cd''),
         chunk_request ''audio/webm'' (Some ''e''),
         analysis_request (join '' '' [''one'', chunk_error_marker 1, ''three''])]\<rparr>"

text \<open>
  A store of three recordings in key order, with the time values of their dates, and
  the database that holds it, not yet connected.
\<close>

definition example_recording :: "string \<Rightarrow> string \<Rightarrow> recording" where
  "example_recording key day =
     \<lparr>rec_id = key, rec_name = ''Recording'', rec_date = day, rec_audioUrl = None,
      rec_transcription = None, rec_audioBlob = Some example_clip\<rparr>"

definition example_store :: "recording list" where
  "example_store =
     [example_recording ''1'' ''2024-01-02T00:00:00.000Z'',
      example_recording ''2'' ''2024-01-03T00:00:00.000Z'',
      example_recording ''3'' ''2024-01-01T00:00:00.000Z'']"

definition example_date_getTime :: "string \<Rightarrow> jsnum" where
  "example_date_getTime s =
     (if s = ''2024-01-01T00:00:00.000Z'' then Num 1704067200000
      else if s = ''2024-01-02T00:00:00.000Z'' then Num 1704153600000
      else if s = ''2024-01-03T00:00:00.000Z'' then Num 1704240000000
      else NaN)"

definition example_db_env :: db_env where
  "example_db_env =
     \<lparr>open_request = Succeeds, getAll_request = Succeeds,
      date_getTime = example_date_getTime\<rparr>"

definition example_database :: database where
  "example_database = \<lparr>version = 1, object_store = Some example_store, db = False\<rparr>"

text \<open>What is listed of a recording of the examples.\<close>

definition example_meta :: "string \<Rightarrow> string \<Rightarrow> recording_meta" where
  "example_meta key day =
     \<lparr>rec_id = key, rec_name = ''Recording'', rec_date = day, rec_audioUrl = None,
      rec_transcription = None\<rparr>"

definition example_listing :: "recording_meta list" where
  "example_listing =
     [example_meta ''2'' ''2024-01-03T00:00:00.000Z'',
      example_meta ''1'' ''2024-01-02T00:00:00.000Z'',
      example_meta ''3'' ''2024-01-01T00:00:00.000Z'']"

text \<open>A store in which the date of the second recording is no date.\<close>

definition undated_store :: "recording list" where
  "undated_store =
     [example_recording ''1'' ''2024-01-01T00:00:00.000Z'',
      example_recording ''2'' ''yesterday'',
      example_recording ''3'' ''2024-01-03T00:00:00.000Z'']"

definition undated_database :: database where
  "undated_database = \<lparr>version = 1, object_store = Some undated_store, db = False\<rparr>"

section \<open>Properties of the duration probe\<close>
lemma resolve_simps:
  "resolve v Pending = Fulfilled v" "resolve v (Fulfilled w) = Fulfilled w"
  "resolve v (Rejected e) = Rejected e"
  by (simp_all add: resolve_def)

lemma reject_simps:
  "reject e Pending = Rejected e" "reject e (Fulfilled w) = Fulfilled w"
  "reject e (Rejected e') = Rejected e'"
  by (simp_all add: reject_def)

lemma dispatch_media_not_rejected:
  "settled p \<noteq> Rejected e \<Longrightarrow> settled (dispatch_media ev p) \<noteq> Rejected e"
  by (cases ev; cases "settled p") (simp_all add: resolve_simps)

lemma fold_dispatch_media_not_rejected:
  "settled p \<noteq> Rejected e \<Longrightarrow> settled (fold dispatch_media events p) \<noteq> Rejected e"
  by (induction events arbitrary: p) (simp_all add: dispatch_media_not_rejected)

lemma fold_dispatch_media_fulfilled:
  "settled p = Fulfilled v \<Longrightarrow> settled (fold dispatch_media events p) = Fulfilled v"
proof (induction events arbitrary: p)
  case Nil
  then show ?case by simp
next
  case (Cons ev events)
  have "settled (dispatch_media ev p) = Fulfilled v"
    using Cons.prems by (cases ev) (simp_all add: resolve_simps)
  then show ?case using Cons.IH by simp
qed

lemma fold_dispatch_media_error:
  assumes "\<forall>d. LoadedMetadata d \<notin> set events" and "MediaError \<in> set events"
    and "settled p = Pending" and "on_error p"
  shows "settled (fold dispatch_media events p) = Fulfilled (Num 0)"
  using assms
proof (induction events arbitrary: p)
  case Nil
  then show ?case by simp
next
  case (Cons ev events)
  show ?case
  proof (cases ev)
    case (LoadedMetadata d)
    with Cons.prems show ?thesis by auto
  next
    case MediaError
    then have "settled (dispatch_media ev p) = Fulfilled (Num 0)"
      using Cons.prems by (simp add: resolve_simps)
    then show ?thesis by (simp add: fold_dispatch_media_fulfilled)
  next
    case OtherMediaEvent
    with Cons show ?thesis by auto
  qed
qed

text \<open>
  Claim C8. The promise of \<^verbatim>\<open>getAudioDuration\<close> is never rejected, whatever the audio
  element does; and for a clip that cannot be decoded, where the element fires
  \<^verbatim>\<open>error\<close> and never \<^verbatim>\<open>loadedmetadata\<close>, it is fulfilled with 0.
\<close>

theorem getAudioDuration_never_rejects:
  "(\<forall>e. getAudioDuration events \<noteq> Rejected e) \<and>
   ((\<forall>d. LoadedMetadata d \<notin> set events) \<and> MediaError \<in> set events
      \<longrightarrow> getAudioDuration events = Fulfilled (Num 0))"
  by (simp add: getAudioDuration_def fold_dispatch_media_not_rejected fold_dispatch_media_error)

theorem getAudioDuration_never_rejects_witness:
  "(\<forall>d. LoadedMetadata d \<notin> set [OtherMediaEvent, MediaError, MediaError])
   \<and> MediaError \<in> set [OtherMediaEvent, MediaError, MediaError]
   \<and> getAudioDuration [OtherMediaEvent, MediaError, MediaError] = Fulfilled (Num 0)
   \<and> (\<forall>e. getAudioDuration [OtherMediaEvent, MediaError, MediaError] \<noteq> Rejected e)"
  using getAudioDuration_never_rejects [of "[OtherMediaEvent, MediaError, MediaError]"]
  by simp

section \<open>Properties of the chunk plan\<close>
lemma MAX_CHUNK_SECONDS_eq: "MAX_CHUNK_SECONDS = Num 540"
  by (simp add: MAX_CHUNK_SECONDS_def)

lemma round_half_even_of_int: "round_half_even (of_int k) = k"
  by (simp add: round_half_even_def)

lemma relative_pos_nat: "relative_pos sz (js_nat k) = min k sz"
proof -
  have "round_half_even (of_nat k) = int k"
    using round_half_even_of_int [of "int k"] by simp
  then show ?thesis by simp
qed

lemma chunk_bounds_nat: "chunk_bounds (js_nat c) i = (js_nat (i * c), js_nat (i * c + c))"
  by (simp add: chunk_bounds_def)

lemma chunk_range_nat:
  "chunk_range b (js_nat c) i = (min (i * c) (blob_size b), min (i * c + c) (blob_size b))"
proof -
  have "chunk_range b (js_nat c) i
      = slice_range b (js_nat (i * c)) (js_nat (i * c + c))"
    by (simp only: chunk_range_def chunk_bounds_nat Let_def prod.case)
  also have "\<dots> = (min (i * c) (blob_size b), min (i * c + c) (blob_size b))"
    by (simp only: slice_range_def relative_pos_nat Let_def) (simp add: min_def)
  finally show ?thesis .
qed

lemma bytes_chunk_at:
  "bytes (chunk_at b m chunkSize i)
     = (let (lo, hi) = chunk_range b chunkSize i in take (hi - lo) (drop lo (bytes b)))"
  by (simp add: chunk_at_def chunk_range_def slice_def split: prod.splits)

lemma bytes_chunk_at_nat:
  "bytes (chunk_at b m (js_nat c) i)
     = take (min (i * c + c) (blob_size b) - min (i * c) (blob_size b))
         (drop (min (i * c) (blob_size b)) (bytes b))"
  by (simp only: bytes_chunk_at chunk_range_nat Let_def prod.case)

lemma bytes_chunk_at_take_drop:
  "bytes (chunk_at b m (js_nat c) i) = take c (drop (i * c) (bytes b))"
  unfolding bytes_chunk_at_nat blob_size_def
  by (cases "i * c \<le> length (bytes b)") (auto simp: min_def)

lemma concat_chunks:
  "concat (map (\<lambda>i. bytes (chunk_at b m (js_nat c) i)) [0..<n]) = take (n * c) (bytes b)"
proof (induction n)
  case 0
  then show ?case by simp
next
  case (Suc n)
  have "take (n * c) (bytes b) @ take c (drop (n * c) (bytes b)) = take (n * c + c) (bytes b)"
    by (simp add: take_add)
  then show ?case using Suc by (simp add: bytes_chunk_at_take_drop add.commute)
qed

lemma num_chunks_finite:
  "num_chunks (Num d) MAX_CHUNK_SECONDS = Num (of_int \<lceil>d / 540\<rceil>)"
  by (simp add: num_chunks_def MAX_CHUNK_SECONDS_eq)

lemma num_chunks_long:
  assumes "540 < d"
  shows "num_chunks (Num d) MAX_CHUNK_SECONDS = js_nat (nat \<lceil>d / 540\<rceil>)"
    and "2 \<le> nat \<lceil>d / 540\<rceil>"
proof -
  have "1 < d / 540" using assms by simp
  then have "2 \<le> \<lceil>d / 540\<rceil>" by linarith
  then show "2 \<le> nat \<lceil>d / 540\<rceil>" by linarith
  then show "num_chunks (Num d) MAX_CHUNK_SECONDS = js_nat (nat \<lceil>d / 540\<rceil>)"
    by (simp add: num_chunks_finite)
qed

lemma chunk_size_finite:
  assumes "0 < n"
  shows "chunk_size b (js_nat n) = js_nat (nat \<lceil>(of_nat (blob_size b) :: rat) / of_nat n\<rceil>)"
proof -
  have "0 \<le> (of_nat (blob_size b) :: rat) / of_nat n" by simp
  then have "0 \<le> \<lceil>(of_nat (blob_size b) :: rat) / of_nat n\<rceil>" by linarith
  then show ?thesis using assms by (simp add: chunk_size_def)
qed

lemma chunks_reach_end:
  assumes "0 < n"
  shows "blob_size b \<le> n * nat \<lceil>(of_nat (blob_size b) :: rat) / of_nat n\<rceil>"
proof -
  let ?S = "blob_size b"
  let ?c = "nat \<lceil>(of_nat ?S :: rat) / of_nat n\<rceil>"
  have "(of_nat ?S :: rat) / of_nat n \<le> of_int \<lceil>(of_nat ?S :: rat) / of_nat n\<rceil>"
    by (rule le_of_int_ceiling)
  also have "\<dots> \<le> of_nat ?c" by simp
  finally have "(of_nat ?S :: rat) / of_nat n \<le> of_nat ?c" .
  moreover have "(0 :: rat) < of_nat n" using assms by simp
  ultimately have "(of_nat ?S :: rat) \<le> of_nat ?c * of_nat n"
    by (simp only: pos_divide_le_eq)
  then have "(of_nat ?S :: rat) \<le> of_nat (n * ?c)" by (simp add: mult.commute)
  then show ?thesis using of_nat_le_iff by blast
qed

section \<open>Properties of the loop over the chunks\<close>
lemma chunk_iteration_unfold:
  "chunk_iteration env b m n c i parts st =
     (case blobToBase64 (file_reader env (length (reads st)) (chunk_at b m c i)) of
        Pending \<Rightarrow> Abort Hung (after_chunk_read b m n c i st)
      | Rejected e \<Rightarrow> Abort (Threw e) (after_chunk_read b m n c i st)
      | Fulfilled enc \<Rightarrow>
          (case generateContent env (length (calls st)) (chunk_request m enc) of
             Pending \<Rightarrow> Abort Hung ((after_chunk_read b m n c i st)\<lparr>calls := calls st @ [chunk_request m enc]\<rparr>)
           | reply \<Rightarrow> Continue (parts @ [segment_text reply i])
                       ((after_chunk_read b m n c i st)\<lparr>calls := calls st @ [chunk_request m enc]\<rparr>)))"
  by (simp add: chunk_iteration_def after_chunk_read_def onProgress_def read_blob_def
      call_model_def segment_text_def Let_def split: promise.splits)

lemma chunk_loop_exit: "\<not> js_lt (js_nat i) n \<Longrightarrow> chunk_loop env b m n c i parts st = Some (Inr parts, st)"
  by (subst chunk_loop.simps) simp

lemma chunk_loop_step:
  "js_lt (js_nat i) n \<Longrightarrow>
   chunk_loop env b m n c i parts st =
     (case chunk_iteration env b m n c i parts st of
        Abort failure st' \<Rightarrow> Some (Inl failure, st')
      | Continue parts' st' \<Rightarrow> chunk_loop env b m n c (i + 1) parts' st')"
  by (subst chunk_loop.simps) simp

lemma chunk_loop_completes:
  assumes "length (reads st) = i" and "length (calls st) = i" and "i \<le> N"
    and "\<And>j. i \<le> j \<Longrightarrow> j < N \<Longrightarrow>
            blobToBase64 (file_reader env j (chunk_at b m c j)) = Fulfilled (enc j)"
    and "\<And>j. i \<le> j \<Longrightarrow> j < N \<Longrightarrow>
            generateContent env j (chunk_request m (enc j)) \<noteq> Pending"
  shows "chunk_loop env b m (js_nat N) c i parts st =
     Some (Inr (parts @ map (\<lambda>j. segment_text (generateContent env j (chunk_request m (enc j))) j) [i..<N]),
           st\<lparr>progress_log := progress_log st
                  @ map (\<lambda>j. (TranscribingChunk (js_nat (j + 1)) (js_nat N), chunk_progress (js_nat N) j)) [i..<N],
              reads := reads st @ map (chunk_at b m c) [i..<N],
              calls := calls st @ map (\<lambda>j. chunk_request m (enc j)) [i..<N]\<rparr>)"
  using assms
proof (induction "N - i" arbitrary: i parts st)
  case 0
  then have "i = N" by simp
  then show ?case by (simp add: chunk_loop_exit)
next
  case (Suc k)
  then have lt: "i < N" by simp
  let ?st' = "(after_chunk_read b m (js_nat N) c i st)\<lparr>calls := calls st @ [chunk_request m (enc i)]\<rparr>"
  let ?seg = "segment_text (generateContent env i (chunk_request m (enc i))) i"
  have rd: "blobToBase64 (file_reader env (length (reads st)) (chunk_at b m c i)) = Fulfilled (enc i)"
    using Suc.prems(1) Suc.prems(4) [of i] lt by simp
  have np: "generateContent env (length (calls st)) (chunk_request m (enc i)) \<noteq> Pending"
    using Suc.prems(2) Suc.prems(5) [of i] lt by simp
  have it: "chunk_iteration env b m (js_nat N) c i parts st = Continue (parts @ [?seg]) ?st'"
    using rd np Suc.prems(2) by (simp add: chunk_iteration_unfold split: promise.splits)
  have step: "chunk_loop env b m (js_nat N) c i parts st
                = chunk_loop env b m (js_nat N) c (i + 1) (parts @ [?seg]) ?st'"
    using lt by (simp add: chunk_loop_step it)
  have IH: "chunk_loop env b m (js_nat N) c (i + 1) (parts @ [?seg]) ?st' =
     Some (Inr ((parts @ [?seg]) @ map (\<lambda>j. segment_text (generateContent env j (chunk_request m (enc j))) j) [i + 1..<N]),
           ?st'\<lparr>progress_log := progress_log ?st'
                  @ map (\<lambda>j. (TranscribingChunk (js_nat (j + 1)) (js_nat N), chunk_progress (js_nat N) j)) [i + 1..<N],
              reads := reads ?st' @ map (chunk_at b m c) [i + 1..<N],
              calls := calls ?st' @ map (\<lambda>j. chunk_request m (enc j)) [i + 1..<N]\<rparr>)"
  proof (rule Suc.hyps(1))
    show "k = N - (i + 1)" using Suc.hyps(2) by simp
    show "length (reads ?st') = i + 1" using Suc.prems(1) by (simp add: after_chunk_read_def)
    show "length (calls ?st') = i + 1" using Suc.prems(2) by (simp add: after_chunk_read_def)
    show "i + 1 \<le> N" using lt by simp
    show "\<And>j. i + 1 \<le> j \<Longrightarrow> j < N \<Longrightarrow>
            blobToBase64 (file_reader env j (chunk_at b m c j)) = Fulfilled (enc j)"
      using Suc.prems(4) by simp
    show "\<And>j. i + 1 \<le> j \<Longrightarrow> j < N \<Longrightarrow>
            generateContent env j (chunk_request m (enc j)) \<noteq> Pending"
      using Suc.prems(5) by simp
  qed
  have upt: "[i..<N] = i # [i + 1..<N]" using lt by (simp add: upt_conv_Cons)
  show ?case
    unfolding step IH upt by (simp add: after_chunk_read_def)
qed

lemma chunk_iteration_Continue:
  assumes "chunk_iteration env b m n c i parts st = Continue parts' st'"
  shows "progress_log st' = progress_log st @ [(TranscribingChunk (js_nat (i + 1)) n, chunk_progress n i)]"
    and "\<exists>b64. calls st' = calls st @ [chunk_request m b64]"
    and "\<exists>seg. parts' = parts @ [seg]"
  using assms
  by (auto simp: chunk_iteration_unfold after_chunk_read_def split: promise.splits)

lemma chunk_iteration_Abort:
  assumes "chunk_iteration env b m n c i parts st = Abort failure st'"
  shows "(\<exists>b64. calls st' = calls st @ [chunk_request m b64]) \<or> calls st' = calls st"
  using assms
  by (auto simp: chunk_iteration_unfold after_chunk_read_def split: promise.splits)

lemma chunk_loop_progress:
  assumes "chunk_loop env b m (js_nat N) c i parts st = Some (Inr parts', st')" and "i \<le> N"
  shows "progress_log st' = progress_log st
           @ map (\<lambda>j. (TranscribingChunk (js_nat (j + 1)) (js_nat N), chunk_progress (js_nat N) j)) [i..<N]"
  using assms
proof (induction "N - i" arbitrary: i parts st)
  case 0
  then have "i = N" by simp
  with "0.prems" show ?case by (simp add: chunk_loop_exit)
next
  case (Suc k)
  then have lt: "i < N" by simp
  have upt: "[i..<N] = i # [i + 1..<N]" using lt by (simp add: upt_conv_Cons)
  show ?case
  proof (cases "chunk_iteration env b m (js_nat N) c i parts st")
    case (Abort failure st1)
    with Suc.prems lt show ?thesis by (simp add: chunk_loop_step)
  next
    case (Continue parts1 st1)
    then have loop: "chunk_loop env b m (js_nat N) c (i + 1) parts1 st1 = Some (Inr parts', st')"
      using Suc.prems lt by (simp add: chunk_loop_step)
    have "progress_log st' = progress_log st1
           @ map (\<lambda>j. (TranscribingChunk (js_nat (j + 1)) (js_nat N), chunk_progress (js_nat N) j)) [i + 1..<N]"
      using Suc.hyps(2) lt by (intro Suc.hyps(1) [OF _ loop]) simp_all
    then show ?thesis
      unfolding upt using chunk_iteration_Continue(1) [OF Continue] by simp
  qed
qed

lemma chunk_loop_infinite:
  assumes "chunk_loop env b m n c i parts st = Some y"
  shows "n = PosInf \<longrightarrow> (\<exists>failure. fst y = Inl failure)"
proof (rule chunk_loop.raw_induct
    [where P = "\<lambda>env b m n c i parts st y. n = PosInf \<longrightarrow> (\<exists>failure. fst y = Inl failure)",
      OF _ assms], goal_cases)
  case (1 loop env b m n c i parts st y)
  show ?case
  proof
    assume inf: "n = PosInf"
    show "\<exists>failure. fst y = Inl failure"
    proof (cases "chunk_iteration env b m n c i parts st")
      case (Abort failure st1)
      with 1(2) inf show ?thesis by auto
    next
      case (Continue parts1 st1)
      with 1(2) inf have "loop env b m n c (i + 1) parts1 st1 = Some y" by simp
      from 1(1) [OF this] inf show ?thesis by simp
    qed
  qed
qed

lemma chunk_loop_calls:
  assumes "chunk_loop env b m n c i parts st = Some y"
  shows "list_all is_transcription_call (calls st) \<longrightarrow> list_all is_transcription_call (calls (snd y))"
proof (rule chunk_loop.raw_induct
    [where P = "\<lambda>env b m n c i parts st y.
        list_all is_transcription_call (calls st) \<longrightarrow> list_all is_transcription_call (calls (snd y))",
      OF _ assms], goal_cases)
  case (1 loop env b m n c i parts st y)
  have req: "\<And>b64. is_transcription_call (chunk_request m b64)"
    by (simp add: is_transcription_call_def chunk_request_def transcription_request_def)
  show ?case
  proof (cases "js_lt (js_nat i) n")
    case False
    with 1(2) show ?thesis by auto
  next
    case True
    show ?thesis
    proof (cases "chunk_iteration env b m n c i parts st")
      case (Abort failure st1)
      with 1(2) True have y: "y = (Inl failure, st1)" by simp
      from chunk_iteration_Abort [OF Abort] show ?thesis
        unfolding y using req by auto
    next
      case (Continue parts1 st1)
      with 1(2) True have "loop env b m n c (i + 1) parts1 st1 = Some y" by simp
      from 1(1) [OF this] chunk_iteration_Continue(2) [OF Continue] req
      show ?thesis by auto
    qed
  qed
qed

section \<open>Runs in single-pass mode\<close>
lemma started_simps:
  "progress_log started = [(AnalyzingAudioFile, Num 5)]" "reads started = []" "calls started = []"
  by (simp_all add: started_def onProgress_def initial_trace_def)

lemma processAudio_probed:
  assumes "getAudioDuration (media_events env b) = Fulfilled duration"
  shows "processAudio env b =
     (case transcribe env b (mime_type_of b) duration MAX_CHUNK_SECONDS started of
        None \<Rightarrow> None
      | Some (Inl failure, st) \<Rightarrow> Some (failure, st)
      | Some (Inr rawTranscript, st) \<Rightarrow> Some (analyse env rawTranscript st))"
  using assms by (simp add: processAudio_def started_def Let_def)

lemma single_pass_unfold:
  "single_pass env b m st =
     (let st2 = st\<lparr>progress_log := progress_log st @ [(TranscribingAudio, Num 20)],
                   reads := reads st @ [b]\<rparr>
      in case blobToBase64 (file_reader env (length (reads st)) b) of
           Pending \<Rightarrow> (Inl Hung, st2)
         | Rejected e \<Rightarrow> (Inl (Threw e), st2)
         | Fulfilled b64 \<Rightarrow>
             (let st3 = st2\<lparr>calls := calls st @ [clip_request m b64]\<rparr>
              in case generateContent env (length (calls st)) (clip_request m b64) of
                   Pending \<Rightarrow> (Inl Hung, st3)
                 | Rejected e \<Rightarrow> (Inl (Threw e), st3)
                 | Fulfilled text \<Rightarrow> (Inr text, st3)))"
  by (simp add: single_pass_def onProgress_def read_blob_def call_model_def Let_def
      split: promise.splits)

lemma analyse_blank:
  "trim raw = [] \<Longrightarrow>
   analyse env raw st = (Threw (Error ''Failed to transcribe audio. The response was empty.''), st)"
  by (simp add: analyse_def)

lemma analyse_unfold:
  "trim raw \<noteq> [] \<Longrightarrow>
   analyse env raw st =
     (let st2 = st\<lparr>progress_log := progress_log st @ [(AnalyzingFullTranscript, Num 85)],
                   calls := calls st @ [analysis_request raw]\<rparr>
      in case generateContent env (length (calls st)) (analysis_request raw) of
           Pending \<Rightarrow> (Hung, st2)
         | Rejected e \<Rightarrow> (Threw e, st2)
         | Fulfilled text \<Rightarrow>
             (case JSON_parse text of
                None \<Rightarrow> (Threw SyntaxError, st2)
              | Some analysisJson \<Rightarrow>
                  (Returned (JObject (set_prop ''rawTranscript'' (JString raw) (spread analysisJson))),
                   st2\<lparr>progress_log := progress_log st2 @ [(Finalizing, Num 100)]\<rparr>)))"
  by (simp add: analyse_def onProgress_def call_model_def Let_def
      split: promise.splits option.splits)

lemma analysis_request_not_transcription: "\<not> is_transcription_call (analysis_request raw)"
  by (simp add: is_transcription_call_def analysis_request_def)

lemma clip_request_transcription: "is_transcription_call (clip_request m b64)"
  by (simp add: is_transcription_call_def clip_request_def transcription_request_def)

lemma analyse_calls:
  "analyse env raw st = (oc, st') \<Longrightarrow>
   filter is_transcription_call (calls st') = filter is_transcription_call (calls st)"
  by (cases "trim raw = []")
     (auto simp: analyse_blank analyse_unfold Let_def analysis_request_not_transcription
           split: promise.splits option.splits)

lemma analyse_reads: "analyse env raw st = (oc, st') \<Longrightarrow> reads st' = reads st"
  by (cases "trim raw = []")
     (auto simp: analyse_blank analyse_unfold Let_def split: promise.splits option.splits)

lemma analyse_attempts_call:
  assumes "trim raw \<noteq> []"
  shows "\<exists>result st'. analyse env raw st = (result, st')
           \<and> calls st' = calls st @ [analysis_request raw]"
  using assms by (simp add: analyse_unfold Let_def split: promise.splits option.splits)

lemma analyse_calls_cases:
  assumes "analyse env raw st = (oc, st')"
  shows "calls st' = calls st \<or> calls st' = calls st @ [analysis_request raw]"
  using assms
  by (cases "trim raw = []")
     (auto simp: analyse_blank analyse_unfold Let_def split: promise.splits option.splits)

text \<open>
  Claim C2, amended. When the probed duration is at most 540 seconds (the sentinel 0 of
  an undecodable clip included), the run ends, and the one blob it hands to the reader is
  the clip itself, with its whole byte range. When that read is fulfilled, the first
  request of the run is the transcription request that carries the MIME type of the clip
  (\<^verbatim>\<open>audio/webm\<close> when the clip has none) and the data read from the whole clip; at most
  one request follows it, and that one carries a prompt and no audio: there is exactly one
  transcription call. When the read is not fulfilled, the run makes no call at all.
\<close>

theorem short_clip_single_pass:
  assumes "getAudioDuration (media_events env audioBlob) = Fulfilled duration"
    and "js_le duration (Num 540)"
  shows "\<exists>result st. processAudio env audioBlob = Some (result, st)
           \<and> reads st = [audioBlob]
           \<and> (\<forall>base64Audio.
                 blobToBase64 (file_reader env 0 audioBlob) = Fulfilled base64Audio
                 \<longrightarrow> (\<exists>rest.
                        calls st =
                          \<lparr>model = ''gemini-2.5-flash'',
                           contents = Parts
                             [InlineData (if blob_type audioBlob = [] then ''audio/webm''
                                          else blob_type audioBlob) base64Audio,
                              TextPart ''Provide a clean, accurate, and detailed transcription of this audio. Do not add any commentary, just the text.''],
                           config = None\<rparr> # rest
                        \<and> length rest \<le> 1
                        \<and> (\<forall>req \<in> set rest. \<exists>prompt. contents req = Prompt prompt)))
           \<and> ((\<forall>base64Audio.
                  blobToBase64 (file_reader env 0 audioBlob) \<noteq> Fulfilled base64Audio)
                 \<longrightarrow> calls st = [])"
proof -
  let ?m = "mime_type_of audioBlob"
  let ?req = "\<lambda>base64Audio.
     \<lparr>model = ''gemini-2.5-flash'',
      contents = Parts
        [InlineData (if blob_type audioBlob = [] then ''audio/webm'' else blob_type audioBlob)
           base64Audio,
         TextPart ''Provide a clean, accurate, and detailed transcription of this audio. Do not add any commentary, just the text.''],
      config = None\<rparr>"
  have req: "clip_request ?m base64Audio = ?req base64Audio" for base64Audio
    by (simp add: clip_request_def transcription_request_def mime_type_of_def)
  have tr: "transcribe env audioBlob ?m duration MAX_CHUNK_SECONDS started
              = Some (single_pass env audioBlob ?m started)"
    using assms(2) by (simp add: transcribe_def MAX_CHUNK_SECONDS_eq)
  obtain r st1 where sp: "single_pass env audioBlob ?m started = (r, st1)"
    by (cases "single_pass env audioBlob ?m started")
  have rd: "reads st1 = [audioBlob]"
    using sp by (auto simp: single_pass_unfold started_simps Let_def split: promise.splits)
  have one: "calls st1 = [?req base64Audio]"
    if "blobToBase64 (file_reader env 0 audioBlob) = Fulfilled base64Audio" for base64Audio
    using sp that unfolding req [symmetric]
    by (auto simp: single_pass_unfold started_simps Let_def split: promise.splits)
  have none: "calls st1 = [] \<and> (\<exists>failure. r = Inl failure)"
    if "\<forall>base64Audio. blobToBase64 (file_reader env 0 audioBlob) \<noteq> Fulfilled base64Audio"
    using sp that
    by (auto simp: single_pass_unfold started_simps Let_def split: promise.splits)
  obtain result st where res: "processAudio env audioBlob = Some (result, st)"
    and same: "reads st = reads st1"
    and more: "calls st = calls st1 \<or> (\<exists>raw. r = Inr raw \<and> calls st = calls st1 @ [analysis_request raw])"
  proof (cases r)
    case (Inl failure)
    then have "processAudio env audioBlob = Some (failure, st1)"
      by (simp add: processAudio_probed [OF assms(1)] tr sp)
    with that show ?thesis by blast
  next
    case (Inr raw)
    obtain oc st where an: "analyse env raw st1 = (oc, st)"
      by (cases "analyse env raw st1")
    have "processAudio env audioBlob = Some (oc, st)"
      using Inr by (simp add: processAudio_probed [OF assms(1)] tr sp an)
    with that analyse_calls_cases [OF an] analyse_reads [OF an] Inr show ?thesis by blast
  qed
  have fulfilled: "\<exists>rest. calls st = ?req base64Audio # rest \<and> length rest \<le> 1
                     \<and> (\<forall>req \<in> set rest. \<exists>prompt. contents req = Prompt prompt)"
    if fulfilled_read: "blobToBase64 (file_reader env 0 audioBlob) = Fulfilled base64Audio"
    for base64Audio
  proof -
    have first: "calls st1 = [?req base64Audio]"
      by (rule one [OF fulfilled_read])
    from more show ?thesis
    proof
      assume "calls st = calls st1"
      then have "calls st = ?req base64Audio # []" using first by simp
      then show ?thesis by (intro exI [of _ "[]"]) simp
    next
      assume "\<exists>raw. r = Inr raw \<and> calls st = calls st1 @ [analysis_request raw]"
      then obtain raw where "calls st = ?req base64Audio # [analysis_request raw]"
        using first by auto
      then show ?thesis
        by (intro exI [of _ "[analysis_request raw]"]) (simp add: analysis_request_def)
    qed
  qed
  have unread: "calls st = []"
    if "\<forall>base64Audio. blobToBase64 (file_reader env 0 audioBlob) \<noteq> Fulfilled base64Audio"
    using none [OF that] more by auto
  show ?thesis
    using res same rd fulfilled unread by (intro exI [of _ result] exI [of _ st]) simp
qed

theorem short_clip_single_pass_witness:
  "getAudioDuration (media_events short_clip_env example_clip) = Fulfilled (Num 0)
   \<and> js_le (Num 0) (Num 540)
   \<and> blobToBase64 (file_reader short_clip_env 0 example_clip) = Fulfilled (Some ''abcde'')
   \<and> (\<exists>result st rest. processAudio short_clip_env example_clip = Some (result, st)
           \<and> reads st = [\<lparr>bytes = ''abcde'', blob_type = []\<rparr>]
           \<and> calls st =
                \<lparr>model = ''gemini-2.5-flash'',
                 contents = Parts
                   [InlineData ''audio/webm'' (Some ''abcde''),
                    TextPart ''Provide a clean, accurate, and detailed transcription of this audio. Do not add any commentary, just the text.''],
                 config = None\<rparr> # rest
           \<and> length rest \<le> 1
           \<and> list_all (\<lambda>req. \<exists>prompt. contents req = Prompt prompt) rest)"
proof -
  have a1: "getAudioDuration (media_events short_clip_env example_clip) = Fulfilled (Num 0)"
    by code_simp
  have a2: "js_le (Num 0) (Num 540)" by simp
  have a3: "blobToBase64 (file_reader short_clip_env 0 example_clip) = Fulfilled (Some ''abcde'')"
    by code_simp
  have clip: "example_clip = \<lparr>bytes = ''abcde'', blob_type = []\<rparr>"
    by (simp add: example_clip_def)
  from short_clip_single_pass [OF a1 a2]
  obtain result st where run: "processAudio short_clip_env example_clip = Some (result, st)"
    and rd: "reads st = [example_clip]"
    and fulfilled: "\<And>base64Audio.
           blobToBase64 (file_reader short_clip_env 0 example_clip) = Fulfilled base64Audio
           \<Longrightarrow> \<exists>rest.
                  calls st =
                    \<lparr>model = ''gemini-2.5-flash'',
                     contents = Parts
                       [InlineData (if blob_type example_clip = [] then ''audio/webm''
                                    else blob_type example_clip) base64Audio,
                        TextPart ''Provide a clean, accurate, and detailed transcription of this audio. Do not add any commentary, just the text.''],
                     config = None\<rparr> # rest
                  \<and> length rest \<le> 1
                  \<and> (\<forall>req \<in> set rest. \<exists>prompt. contents req = Prompt prompt)"
    by blast
  from fulfilled [OF a3] obtain rest where
    cs: "calls st =
           \<lparr>model = ''gemini-2.5-flash'',
            contents = Parts
              [InlineData (if blob_type example_clip = [] then ''audio/webm''
                           else blob_type example_clip) (Some ''abcde''),
               TextPart ''Provide a clean, accurate, and detailed transcription of this audio. Do not add any commentary, just the text.''],
            config = None\<rparr> # rest"
    and len: "length rest \<le> 1"
    and prompts: "\<forall>req \<in> set rest. \<exists>prompt. contents req = Prompt prompt"
    by blast
  have rd': "reads st = [\<lparr>bytes = ''abcde'', blob_type = []\<rparr>]"
    using rd by (simp add: clip)
  have cs': "calls st =
           \<lparr>model = ''gemini-2.5-flash'',
            contents = Parts
              [InlineData ''audio/webm'' (Some ''abcde''),
               TextPart ''Provide a clean, accurate, and detailed transcription of this audio. Do not add any commentary, just the text.''],
            config = None\<rparr> # rest"
    using cs by (simp add: clip)
  have prompts': "list_all (\<lambda>req. \<exists>prompt. contents req = Prompt prompt) rest"
    using prompts by (simp add: list_all_iff)
  have "\<exists>result st rest. processAudio short_clip_env example_clip = Some (result, st)
           \<and> reads st = [\<lparr>bytes = ''abcde'', blob_type = []\<rparr>]
           \<and> calls st =
                \<lparr>model = ''gemini-2.5-flash'',
                 contents = Parts
                   [InlineData ''audio/webm'' (Some ''abcde''),
                    TextPart ''Provide a clean, accurate, and detailed transcription of this audio. Do not add any commentary, just the text.''],
                 config = None\<rparr> # rest
           \<and> length rest \<le> 1
           \<and> list_all (\<lambda>req. \<exists>prompt. contents req = Prompt prompt) rest"
    using run rd' cs' len prompts' by (intro exI [of _ result] exI [of _ st] exI [of _ rest] conjI)
  with a1 a2 a3 show ?thesis by (intro conjI)
qed

text \<open>
  Claim C2 as it was stated: exactly one transcription call for every clip of at most 540
  seconds. A clip of 100 seconds that the reader fails to read is a counterexample: the run
  throws what the reader reported and has made no call.
\<close>

theorem unread_clip_makes_no_call:
  "getAudioDuration (media_events unreadable_clip_env example_clip) = Fulfilled (Num 100)
   \<and> js_le (Num 100) (Num 540)
   \<and> processAudio unreadable_clip_env example_clip
       = Some (Threw ReaderErrorEvent,
               \<lparr>progress_log = [(AnalyzingAudioFile, Num 5), (TranscribingAudio, Num 20)],
                reads = [\<lparr>bytes = ''abcde'', blob_type = []\<rparr>],
                calls = []\<rparr>)"
  by code_simp

section \<open>Runs in chunked mode\<close>
lemma chunk_reply_answered:
  assumes "chunk_reply env b m c j \<noteq> Pending"
  shows "chunk_base64 env b m c j = Fulfilled (chunk_data env b m c j)"
    and "generateContent env j (chunk_request m (chunk_data env b m c j)) = chunk_reply env b m c j"
  using assms by (auto simp: chunk_reply_def chunk_data_def split: promise.splits)

lemma chunk_loop_run:
  assumes "all_chunks_answered env b m c N" and "reads st = []" and "calls st = []"
  shows "chunk_loop env b m (js_nat N) c 0 [] st
           = Some (Inr (segments env b m c N), after_chunks env b m (js_nat N) c N st)"
proof -
  have ans: "\<And>j. j < N \<Longrightarrow> chunk_reply env b m c j \<noteq> Pending"
    using assms(1) by (simp add: all_chunks_answered_def list_all_iff)
  have rd: "\<And>j. 0 \<le> j \<Longrightarrow> j < N \<Longrightarrow>
      blobToBase64 (file_reader env j (chunk_at b m c j)) = Fulfilled (chunk_data env b m c j)"
    using chunk_reply_answered(1) [OF ans] by (simp add: chunk_base64_def)
  have cl: "\<And>j. 0 \<le> j \<Longrightarrow> j < N \<Longrightarrow>
      generateContent env j (chunk_request m (chunk_data env b m c j)) \<noteq> Pending"
    using chunk_reply_answered(2) [OF ans] ans by simp
  have seg: "map (\<lambda>j. segment_text (generateContent env j (chunk_request m (chunk_data env b m c j))) j) [0..<N]
           = segments env b m c N"
    unfolding segments_def using chunk_reply_answered(2) [OF ans] by simp
  have "chunk_loop env b m (js_nat N) c 0 [] st =
     Some (Inr ([] @ map (\<lambda>j. segment_text (generateContent env j (chunk_request m (chunk_data env b m c j))) j) [0..<N]),
           st\<lparr>progress_log := progress_log st
                  @ map (\<lambda>j. (TranscribingChunk (js_nat (j + 1)) (js_nat N), chunk_progress (js_nat N) j)) [0..<N],
              reads := reads st @ map (chunk_at b m c) [0..<N],
              calls := calls st @ map (\<lambda>j. chunk_request m (chunk_data env b m c j)) [0..<N]\<rparr>)"
    by (rule chunk_loop_completes [where enc = "chunk_data env b m c"])
       (simp_all add: assms(2,3) rd cl)
  then show ?thesis by (simp add: seg after_chunks_def)
qed

lemma transcribe_chunked:
  assumes "540 < d" and "all_chunks_answered env b m (chunk_size b (js_nat (nat \<lceil>d / 540\<rceil>))) (nat \<lceil>d / 540\<rceil>)"
    and "reads st = []" and "calls st = []"
  shows "transcribe env b m (Num d) MAX_CHUNK_SECONDS st
     = Some (Inr (join '' '' (segments env b m (chunk_size b (js_nat (nat \<lceil>d / 540\<rceil>))) (nat \<lceil>d / 540\<rceil>))),
             after_chunks env b m (js_nat (nat \<lceil>d / 540\<rceil>)) (chunk_size b (js_nat (nat \<lceil>d / 540\<rceil>)))
               (nat \<lceil>d / 540\<rceil>) st)"
proof -
  have nle: "\<not> js_le (Num d) MAX_CHUNK_SECONDS"
    using assms(1) by (simp add: MAX_CHUNK_SECONDS_eq)
  show ?thesis
    unfolding transcribe_def Let_def num_chunks_long(1) [OF assms(1)]
    using nle by (simp add: chunk_loop_run [OF assms(2,3,4)])
qed

lemma processAudio_chunked:
  assumes "getAudioDuration (media_events env b) = Fulfilled (Num d)" and "540 < d"
    and "all_chunks_answered env b (mime_type_of b) (chunk_size b (js_nat (nat \<lceil>d / 540\<rceil>))) (nat \<lceil>d / 540\<rceil>)"
  shows "processAudio env b
     = Some (analyse env
         (join '' '' (segments env b (mime_type_of b) (chunk_size b (js_nat (nat \<lceil>d / 540\<rceil>))) (nat \<lceil>d / 540\<rceil>)))
         (after_chunks env b (mime_type_of b) (js_nat (nat \<lceil>d / 540\<rceil>))
            (chunk_size b (js_nat (nat \<lceil>d / 540\<rceil>))) (nat \<lceil>d / 540\<rceil>) started))"
  by (simp add: processAudio_probed [OF assms(1)]
      transcribe_chunked [OF assms(2) assms(3) started_simps(2) started_simps(3)])

lemma trim_blank_iff: "trim s = [] \<longleftrightarrow> (\<forall>ch \<in> set s. is_white_space ch)"
proof -
  have "dropWhile is_white_space s = [] \<longleftrightarrow> (\<forall>ch \<in> set s. is_white_space ch)"
    by (simp add: dropWhile_eq_Nil_conv)
  moreover have "(\<forall>ch \<in> set (dropWhile is_white_space s). is_white_space ch)
                  \<longleftrightarrow> dropWhile is_white_space s = []"
    using hd_dropWhile [of is_white_space s]
    by (cases "dropWhile is_white_space s") (auto dest: set_dropWhileD)
  moreover have "trim s = [] \<longleftrightarrow> (\<forall>ch \<in> set (dropWhile is_white_space s). is_white_space ch)"
    by (simp add: trim_def dropWhile_eq_Nil_conv)
  ultimately show ?thesis by simp
qed

lemma set_join: "x \<in> set xs \<Longrightarrow> set x \<subseteq> set (join sep xs)"
  by (induction sep xs rule: join.induct) auto

lemma bracket_in_marker: "CHR ''['' \<in> set (chunk_error_marker i)"
  by (simp add: chunk_error_marker_def)

lemma bracket_not_white_space: "\<not> is_white_space CHR ''[''"
  by (simp add: is_white_space_def)

lemma join_with_marker_not_blank:
  assumes "chunk_error_marker i \<in> set xs"
  shows "trim (join sep xs) \<noteq> []"
  using set_join [OF assms, of sep] bracket_in_marker [of i] bracket_not_white_space
  by (auto simp: trim_blank_iff)

lemma segments_nth: "j < N \<Longrightarrow> segments env b m c N ! j = segment_text (chunk_reply env b m c j) j"
  by (simp add: segments_def)

lemma length_segments: "length (segments env b m c N) = N"
  by (simp add: segments_def)

lemma chunked_finite:
  assumes "\<not> js_le duration MAX_CHUNK_SECONDS"
    and "num_chunks duration MAX_CHUNK_SECONDS = js_nat N"
  obtains d where "duration = Num d" and "540 < d" and "N = nat \<lceil>d / 540\<rceil>"
proof (cases duration)
  case (Num d)
  with assms(1) have long: "540 < d" by (simp add: MAX_CHUNK_SECONDS_eq)
  have "js_nat N = js_nat (nat \<lceil>d / 540\<rceil>)"
    using assms(2) num_chunks_long(1) [OF long] Num by simp
  then have "N = nat \<lceil>d / 540\<rceil>" by simp
  with Num long that show ?thesis by blast
next
  case PosInf
  with assms(2) show ?thesis by (simp add: num_chunks_def MAX_CHUNK_SECONDS_eq signed_inf_def)
next
  case NegInf
  with assms(1) show ?thesis by (simp add: MAX_CHUNK_SECONDS_eq)
next
  case NaN
  with assms(2) show ?thesis by (simp add: num_chunks_def)
qed

lemma processAudio_chunked_run:
  assumes "getAudioDuration (media_events env b) = Fulfilled duration"
    and "\<not> js_le duration MAX_CHUNK_SECONDS"
    and "num_chunks duration MAX_CHUNK_SECONDS = js_nat N"
    and "all_chunks_answered env b (mime_type_of b) (chunk_size b (js_nat N)) N"
  shows "transcribe env b (mime_type_of b) duration MAX_CHUNK_SECONDS started
           = Some (Inr (join '' '' (segments env b (mime_type_of b) (chunk_size b (js_nat N)) N)),
                   after_chunks env b (mime_type_of b) (js_nat N) (chunk_size b (js_nat N)) N started)"
    and "processAudio env b
           = Some (analyse env (join '' '' (segments env b (mime_type_of b) (chunk_size b (js_nat N)) N))
                    (after_chunks env b (mime_type_of b) (js_nat N) (chunk_size b (js_nat N)) N started))"
proof -
  obtain d where d: "duration = Num d" "540 < d" "N = nat \<lceil>d / 540\<rceil>"
    using chunked_finite [OF assms(2,3)] by blast
  show "transcribe env b (mime_type_of b) duration MAX_CHUNK_SECONDS started
           = Some (Inr (join '' '' (segments env b (mime_type_of b) (chunk_size b (js_nat N)) N)),
                   after_chunks env b (mime_type_of b) (js_nat N) (chunk_size b (js_nat N)) N started)"
    using transcribe_chunked [OF d(2) _ started_simps(2,3), of env b "mime_type_of b"] assms(4)
    unfolding d(1) d(3) by simp
  then show "processAudio env b
           = Some (analyse env (join '' '' (segments env b (mime_type_of b) (chunk_size b (js_nat N)) N))
                    (after_chunks env b (mime_type_of b) (js_nat N) (chunk_size b (js_nat N)) N started))"
    by (simp add: processAudio_probed [OF assms(1)])
qed

lemma marker_in_segments:
  assumes "i < N" and "chunk_reply env b m c i = Rejected e"
  shows "chunk_error_marker i \<in> set (segments env b m c N)"
proof -
  have "segments env b m c N ! i = chunk_error_marker i"
    using assms by (simp add: segments_nth segment_text_def)
  then show ?thesis
    using assms(1) nth_mem [of i "segments env b m c N"] by (simp add: length_segments)
qed

lemma digit_char_digit: "d < 10 \<Longrightarrow> is_digit (digit_char d)"
  by (simp add: is_digit_def digit_char_def)

lemma digit_value_digit_char: "d < 10 \<Longrightarrow> digit_value (digit_char d) = d"
  by (simp add: digit_value_def digit_char_def)

lemma digit_char_not_zero:
  assumes "0 < d" and "d < 10"
  shows "digit_char d \<noteq> CHR ''0''"
proof
  assume "digit_char d = CHR ''0''"
  then have "digit_value (digit_char d) = digit_value CHR ''0''" by simp
  then have "d = 0"
    using assms(2) by (simp add: digit_value_digit_char) (simp add: digit_value_def)
  with assms(1) show False by simp
qed

lemma digits_value_snoc: "digits_value (ds @ [ch]) = 10 * digits_value ds + digit_value ch"
  by (simp add: digits_value_def)

lemma string_of_nat_decimal:
  "string_of_nat n \<noteq> []
   \<and> list_all is_digit (string_of_nat n)
   \<and> digits_value (string_of_nat n) = n
   \<and> (0 < n \<longrightarrow> hd (string_of_nat n) \<noteq> CHR ''0'')"
proof (induction n rule: string_of_nat.induct)
  case (1 n)
  show ?case
  proof (cases "n < 10")
    case True
    then have s: "string_of_nat n = [digit_char n]"
      by (subst string_of_nat.simps) simp
    show ?thesis
      using True unfolding s
      by (simp add: digit_char_digit digit_char_not_zero)
         (simp add: digits_value_def digit_value_digit_char)
  next
    case False
    then have s: "string_of_nat n = string_of_nat (n div 10) @ [digit_char (n mod 10)]"
      by (subst string_of_nat.simps) simp
    have pos: "0 < n div 10" using False by simp
    note ih = 1 [OF False]
    have "hd (string_of_nat n) = hd (string_of_nat (n div 10))"
      unfolding s using ih by simp
    then show ?thesis
      using ih pos unfolding s
      by (simp add: digit_char_digit digits_value_snoc digit_value_digit_char)
  qed
qed

text \<open>
  Claim C3. In chunked mode, with every chunk read and every call settled, a rejected
  call for chunk \<open>i\<close> puts at position \<open>i\<close> of the segments the text
  \<^verbatim>\<open>[-- Error transcribing chunk K. The audio segment might have been too long or corrupted. --]\<close>
  between two line feeds, where \<open>K\<close> is the decimal numeral of \<open>i + 1\<close> (digits only, of
  value \<open>i + 1\<close>, no leading zero); the fulfilled calls keep their text at their
  positions, the transcription phase ends with the joined segments, which are not blank,
  and the run goes on to the analysis step. In single-pass mode a rejected call ends the
  run: \<^verbatim>\<open>processAudio\<close> throws what the call threw, and no further request is made. The
  last part is the step itself, for any number of chunks, finite or not: an iteration
  whose read is fulfilled and whose call is rejected appends that text and the loop goes
  on with the next chunk. The call for a chunk and the call for a whole clip are the
  requests that carry the MIME type, the data read and the instruction to transcribe.
\<close>

theorem chunk_failure_is_local:
  assumes "getAudioDuration (media_events env audioBlob) = Fulfilled duration"
    and "m = mime_type_of audioBlob"
    and "c = chunk_size audioBlob (js_nat N)"
  shows "(\<not> js_le duration MAX_CHUNK_SECONDS
            \<and> num_chunks duration MAX_CHUNK_SECONDS = js_nat N
            \<and> all_chunks_answered env audioBlob m c N
            \<and> i < N \<and> chunk_reply env audioBlob m c i = Rejected e
          \<longrightarrow> length (segments env audioBlob m c N) = N
              \<and> segments env audioBlob m c N ! i
                  = [CHR 0x0A] @ ''[-- Error transcribing chunk '' @ string_of_nat (i + 1)
                    @ ''. The audio segment might have been too long or corrupted. --]''
                    @ [CHR 0x0A]
              \<and> (\<forall>j < N. \<forall>text. chunk_reply env audioBlob m c j = Fulfilled text
                    \<longrightarrow> segments env audioBlob m c N ! j = text)
              \<and> transcribe env audioBlob m duration MAX_CHUNK_SECONDS started
                   = Some (Inr (join '' '' (segments env audioBlob m c N)),
                           after_chunks env audioBlob m (js_nat N) c N started)
              \<and> trim (join '' '' (segments env audioBlob m c N)) \<noteq> []
              \<and> processAudio env audioBlob
                   = Some (analyse env (join '' '' (segments env audioBlob m c N))
                            (after_chunks env audioBlob m (js_nat N) c N started))
              \<and> (\<exists>result st. processAudio env audioBlob = Some (result, st)
                     \<and> analysis_request (join '' '' (segments env audioBlob m c N))
                           \<in> set (calls st)))
       \<and> (js_le duration MAX_CHUNK_SECONDS
            \<and> blobToBase64 (file_reader env 0 audioBlob) = Fulfilled base64Audio
            \<and> generateContent env 0 (clip_request m base64Audio) = Rejected e
          \<longrightarrow> (\<exists>st. processAudio env audioBlob = Some (Threw e, st)
                     \<and> calls st = [clip_request m base64Audio]))
       \<and> (js_lt (js_nat i) numChunks
            \<and> blobToBase64 (file_reader env (length (reads tr)) (chunk_at audioBlob m chunkSize i))
                  = Fulfilled base64Audio
            \<and> generateContent env (length (calls tr)) (chunk_request m base64Audio) = Rejected e
          \<longrightarrow> chunk_loop env audioBlob m numChunks chunkSize i parts tr
                = chunk_loop env audioBlob m numChunks chunkSize (i + 1)
                    (parts @ [[CHR 0x0A] @ ''[-- Error transcribing chunk '' @ string_of_nat (i + 1)
                       @ ''. The audio segment might have been too long or corrupted. --]''
                       @ [CHR 0x0A]])
                    ((after_chunk_read audioBlob m numChunks chunkSize i tr)
                       \<lparr>calls := calls tr @ [chunk_request m base64Audio]\<rparr>))
       \<and> string_of_nat (i + 1) \<noteq> []
       \<and> list_all is_digit (string_of_nat (i + 1))
       \<and> digits_value (string_of_nat (i + 1)) = i + 1
       \<and> hd (string_of_nat (i + 1)) \<noteq> CHR ''0''
       \<and> chunk_request m base64Audio
           = \<lparr>model = ''gemini-2.5-flash'',
              contents = Parts
                [InlineData m base64Audio,
                 TextPart ''Provide a clean, accurate, and detailed transcription of this audio chunk. Do not add any commentary, just the text.''],
              config = None\<rparr>
       \<and> clip_request m base64Audio
           = \<lparr>model = ''gemini-2.5-flash'',
              contents = Parts
                [InlineData m base64Audio,
                 TextPart ''Provide a clean, accurate, and detailed transcription of this audio. Do not add any commentary, just the text.''],
              config = None\<rparr>"
proof (intro conjI impI)
  assume h: "\<not> js_le duration MAX_CHUNK_SECONDS
            \<and> num_chunks duration MAX_CHUNK_SECONDS = js_nat N
            \<and> all_chunks_answered env audioBlob m c N
            \<and> i < N \<and> chunk_reply env audioBlob m c i = Rejected e"
  show "length (segments env audioBlob m c N) = N" by (rule length_segments)
  show "segments env audioBlob m c N ! i
          = [CHR 0x0A] @ ''[-- Error transcribing chunk '' @ string_of_nat (i + 1)
            @ ''. The audio segment might have been too long or corrupted. --]'' @ [CHR 0x0A]"
    using h by (simp add: segments_nth segment_text_def chunk_error_marker_def)
  show "\<forall>j < N. \<forall>text. chunk_reply env audioBlob m c j = Fulfilled text
                    \<longrightarrow> segments env audioBlob m c N ! j = text"
    by (simp add: segments_nth segment_text_def)
  show "transcribe env audioBlob m duration MAX_CHUNK_SECONDS started
                   = Some (Inr (join '' '' (segments env audioBlob m c N)),
                           after_chunks env audioBlob m (js_nat N) c N started)"
    using processAudio_chunked_run(1) [OF assms(1), of N] h unfolding assms(2,3) by simp
  show "trim (join '' '' (segments env audioBlob m c N)) \<noteq> []"
    using h by (intro join_with_marker_not_blank [of i] marker_in_segments [of i N _ _ _ _ e]) simp_all
  show run: "processAudio env audioBlob
                   = Some (analyse env (join '' '' (segments env audioBlob m c N))
                            (after_chunks env audioBlob m (js_nat N) c N started))"
    using processAudio_chunked_run(2) [OF assms(1), of N] h unfolding assms(2,3) by simp
  have "trim (join '' '' (segments env audioBlob m c N)) \<noteq> []"
    using h by (intro join_with_marker_not_blank [of i] marker_in_segments [of i N _ _ _ _ e]) simp_all
  from analyse_attempts_call [OF this, of env "after_chunks env audioBlob m (js_nat N) c N started"]
  show "\<exists>result st. processAudio env audioBlob = Some (result, st)
                     \<and> analysis_request (join '' '' (segments env audioBlob m c N))
                           \<in> set (calls st)"
    unfolding run by auto
next
  assume h: "js_le duration MAX_CHUNK_SECONDS
            \<and> blobToBase64 (file_reader env 0 audioBlob) = Fulfilled base64Audio
            \<and> generateContent env 0 (clip_request m base64Audio) = Rejected e"
  have "transcribe env audioBlob m duration MAX_CHUNK_SECONDS started
          = Some (single_pass env audioBlob m started)"
    using h by (simp add: transcribe_def)
  moreover have "\<exists>st. single_pass env audioBlob m started = (Inl (Threw e), st)
                   \<and> calls st = [clip_request m base64Audio]"
    using h by (simp add: single_pass_unfold started_simps Let_def)
  ultimately show "\<exists>st. processAudio env audioBlob = Some (Threw e, st)
                     \<and> calls st = [clip_request m base64Audio]"
    using assms(2) by (auto simp: processAudio_probed [OF assms(1)])
next
  assume h: "js_lt (js_nat i) numChunks
            \<and> blobToBase64 (file_reader env (length (reads tr)) (chunk_at audioBlob m chunkSize i))
                  = Fulfilled base64Audio
            \<and> generateContent env (length (calls tr)) (chunk_request m base64Audio) = Rejected e"
  then have "chunk_iteration env audioBlob m numChunks chunkSize i parts tr
               = Continue (parts @ [chunk_error_marker i])
                   ((after_chunk_read audioBlob m numChunks chunkSize i tr)
                       \<lparr>calls := calls tr @ [chunk_request m base64Audio]\<rparr>)"
    by (simp add: chunk_iteration_unfold segment_text_def)
  then have "chunk_loop env audioBlob m numChunks chunkSize i parts tr
                = chunk_loop env audioBlob m numChunks chunkSize (i + 1)
                    (parts @ [chunk_error_marker i])
                    ((after_chunk_read audioBlob m numChunks chunkSize i tr)
                       \<lparr>calls := calls tr @ [chunk_request m base64Audio]\<rparr>)"
    using h by (simp add: chunk_loop_step)
  then show "chunk_loop env audioBlob m numChunks chunkSize i parts tr
                = chunk_loop env audioBlob m numChunks chunkSize (i + 1)
                    (parts @ [[CHR 0x0A] @ ''[-- Error transcribing chunk '' @ string_of_nat (i + 1)
                       @ ''. The audio segment might have been too long or corrupted. --]''
                       @ [CHR 0x0A]])
                    ((after_chunk_read audioBlob m numChunks chunkSize i tr)
                       \<lparr>calls := calls tr @ [chunk_request m base64Audio]\<rparr>)"
    by (simp add: chunk_error_marker_def)
next
  show "string_of_nat (i + 1) \<noteq> []" using string_of_nat_decimal [of "i + 1"] by blast
  show "list_all is_digit (string_of_nat (i + 1))" using string_of_nat_decimal [of "i + 1"] by blast
  show "digits_value (string_of_nat (i + 1)) = i + 1" using string_of_nat_decimal [of "i + 1"] by blast
  show "hd (string_of_nat (i + 1)) \<noteq> CHR ''0''" using string_of_nat_decimal [of "i + 1"] by simp
  show "chunk_request m base64Audio
           = \<lparr>model = ''gemini-2.5-flash'',
              contents = Parts
                [InlineData m base64Audio,
                 TextPart ''Provide a clean, accurate, and detailed transcription of this audio chunk. Do not add any commentary, just the text.''],
              config = None\<rparr>"
    by (simp add: chunk_request_def transcription_request_def)
  show "clip_request m base64Audio
           = \<lparr>model = ''gemini-2.5-flash'',
              contents = Parts
                [InlineData m base64Audio,
                 TextPart ''Provide a clean, accurate, and detailed transcription of this audio. Do not add any commentary, just the text.''],
              config = None\<rparr>"
    by (simp add: clip_request_def transcription_request_def)
qed

theorem chunk_failure_is_local_witness:
  "(getAudioDuration (media_events long_clip_env example_clip) = Fulfilled (Num 1200)
    \<and> \<not> js_le (Num 1200) MAX_CHUNK_SECONDS
    \<and> num_chunks (Num 1200) MAX_CHUNK_SECONDS = js_nat 3
    \<and> all_chunks_answered long_clip_env example_clip (mime_type_of example_clip)
         (chunk_size example_clip (js_nat 3)) 3
    \<and> (1 :: nat) < 3
    \<and> chunk_reply long_clip_env example_clip (mime_type_of example_clip)
         (chunk_size example_clip (js_nat 3)) 1 = Rejected (RemoteCallError ''503''))
   \<and> segments long_clip_env example_clip (mime_type_of example_clip)
         (chunk_size example_clip (js_nat 3)) 3 ! 1
       = [CHR 0x0A] @ ''[-- Error transcribing chunk 2. The audio segment might have been too long or corrupted. --]'' @ [CHR 0x0A]
   \<and> segments long_clip_env example_clip (mime_type_of example_clip)
         (chunk_size example_clip (js_nat 3)) 3
       = [''one'',
          [CHR 0x0A] @ ''[-- Error transcribing chunk 2. The audio segment might have been too long or corrupted. --]'' @ [CHR 0x0A],
          ''three'']
   \<and> string_of_nat (1 + 1) = ''2''
   \<and> trim (join '' '' (segments long_clip_env example_clip (mime_type_of example_clip)
         (chunk_size example_clip (js_nat 3)) 3)) \<noteq> []
   \<and> (getAudioDuration (media_events refused_clip_env example_clip) = Fulfilled (Num 100)
    \<and> js_le (Num 100) MAX_CHUNK_SECONDS
    \<and> blobToBase64 (file_reader refused_clip_env 0 example_clip) = Fulfilled (Some ''abcde'')
    \<and> generateContent refused_clip_env 0 (clip_request (mime_type_of example_clip) (Some ''abcde''))
         = Rejected (RemoteCallError ''503''))
   \<and> (\<exists>st. processAudio refused_clip_env example_clip = Some (Threw (RemoteCallError ''503''), st)
          \<and> calls st = [clip_request (mime_type_of example_clip) (Some ''abcde'')])
   \<and> (js_lt (js_nat 1) (Num 3)
    \<and> blobToBase64 (file_reader long_clip_env
           (length (reads (after_chunks long_clip_env example_clip ''audio/webm'' (Num 3) (Num 2) 1 started)))
           (chunk_at example_clip ''audio/webm'' (Num 2) 1)) = Fulfilled (Some ''cd'')
    \<and> generateContent long_clip_env
           (length (calls (after_chunks long_clip_env example_clip ''audio/webm'' (Num 3) (Num 2) 1 started)))
           (chunk_request ''audio/webm'' (Some ''cd'')) = Rejected (RemoteCallError ''503''))
   \<and> chunk_loop long_clip_env example_clip ''audio/webm'' (Num 3) (Num 2) 1 [''one'']
         (after_chunks long_clip_env example_clip ''audio/webm'' (Num 3) (Num 2) 1 started)
       = chunk_loop long_clip_env example_clip ''audio/webm'' (Num 3) (Num 2) (1 + 1)
           ([''one''] @ [[CHR 0x0A] @ ''[-- Error transcribing chunk 2. The audio segment might have been too long or corrupted. --]'' @ [CHR 0x0A]])
           ((after_chunk_read example_clip ''audio/webm'' (Num 3) (Num 2) 1
               (after_chunks long_clip_env example_clip ''audio/webm'' (Num 3) (Num 2) 1 started))
              \<lparr>calls := calls (after_chunks long_clip_env example_clip ''audio/webm'' (Num 3) (Num 2) 1 started)
                         @ [chunk_request ''audio/webm'' (Some ''cd'')]\<rparr>)"
proof -
  let ?tr = "after_chunks long_clip_env example_clip ''audio/webm'' (Num 3) (Num 2) 1 started"
  have two: "string_of_nat (1 + 1) = ''2''" by code_simp
  have c1: "js_lt (js_nat 1) (Num 3)" by simp
  have c2: "blobToBase64 (file_reader long_clip_env (length (reads ?tr))
           (chunk_at example_clip ''audio/webm'' (Num 2) 1)) = Fulfilled (Some ''cd'')"
    by code_simp
  have c3: "generateContent long_clip_env (length (calls ?tr))
           (chunk_request ''audio/webm'' (Some ''cd'')) = Rejected (RemoteCallError ''503'')"
    by code_simp
  have a0: "getAudioDuration (media_events long_clip_env example_clip) = Fulfilled (Num 1200)"
    by code_simp
  note step = chunk_failure_is_local [OF a0 refl refl, where i = 1 and numChunks = "Num 3"
      and chunkSize = "Num 2" and tr = ?tr and base64Audio = "Some ''cd''"
      and e = "RemoteCallError ''503''" and parts = "[''one'']",
      THEN conjunct2, THEN conjunct2, THEN conjunct1, rule_format]
  have st: "chunk_loop long_clip_env example_clip ''audio/webm'' (Num 3) (Num 2) 1 [''one''] ?tr
       = chunk_loop long_clip_env example_clip ''audio/webm'' (Num 3) (Num 2) (1 + 1)
           ([''one''] @ [[CHR 0x0A] @ ''[-- Error transcribing chunk 2. The audio segment might have been too long or corrupted. --]'' @ [CHR 0x0A]])
           ((after_chunk_read example_clip ''audio/webm'' (Num 3) (Num 2) 1 ?tr)
              \<lparr>calls := calls ?tr @ [chunk_request ''audio/webm'' (Some ''cd'')]\<rparr>)"
  proof -
    have m: "mime_type_of example_clip = ''audio/webm''" by code_simp
    have "chunk_loop long_clip_env example_clip ''audio/webm'' (Num 3) (Num 2) 1 [''one''] ?tr
       = chunk_loop long_clip_env example_clip ''audio/webm'' (Num 3) (Num 2) (1 + 1)
           ([''one''] @ [[CHR 0x0A] @ ''[-- Error transcribing chunk '' @ string_of_nat (1 + 1)
                       @ ''. The audio segment might have been too long or corrupted. --]''
                       @ [CHR 0x0A]])
           ((after_chunk_read example_clip ''audio/webm'' (Num 3) (Num 2) 1 ?tr)
              \<lparr>calls := calls ?tr @ [chunk_request ''audio/webm'' (Some ''cd'')]\<rparr>)"
      using step c1 c2 c3 unfolding m by simp
    then show ?thesis unfolding two by simp
  qed
  have a1: "getAudioDuration (media_events long_clip_env example_clip) = Fulfilled (Num 1200)"
    by code_simp
  have a2: "\<not> js_le (Num 1200) MAX_CHUNK_SECONDS" by code_simp
  have a3: "num_chunks (Num 1200) MAX_CHUNK_SECONDS = js_nat 3" by code_simp
  have a4: "all_chunks_answered long_clip_env example_clip (mime_type_of example_clip)
         (chunk_size example_clip (js_nat 3)) 3" by code_simp
  have a5: "chunk_reply long_clip_env example_clip (mime_type_of example_clip)
         (chunk_size example_clip (js_nat 3)) 1 = Rejected (RemoteCallError ''503'')"
    by code_simp
  have b1: "getAudioDuration (media_events refused_clip_env example_clip) = Fulfilled (Num 100)"
    by code_simp
  have b2: "js_le (Num 100) MAX_CHUNK_SECONDS" by code_simp
  have b3: "blobToBase64 (file_reader refused_clip_env 0 example_clip) = Fulfilled (Some ''abcde'')"
    by code_simp
  have b4: "generateContent refused_clip_env 0 (clip_request (mime_type_of example_clip) (Some ''abcde''))
         = Rejected (RemoteCallError ''503'')"
    by code_simp
  note long = chunk_failure_is_local [OF a1 refl refl, where N = 3 and i = 1
      and e = "RemoteCallError ''503''", THEN conjunct1, rule_format]
  note short = chunk_failure_is_local [OF b1 refl refl, where base64Audio = "Some ''abcde''"
      and e = "RemoteCallError ''503''", THEN conjunct2, THEN conjunct1, rule_format]
  have l0: "segments long_clip_env example_clip (mime_type_of example_clip)
         (chunk_size example_clip (js_nat 3)) 3 ! 1
       = [CHR 0x0A] @ ''[-- Error transcribing chunk '' @ string_of_nat (1 + 1)
         @ ''. The audio segment might have been too long or corrupted. --]'' @ [CHR 0x0A]"
    using long a2 a3 a4 a5 by simp
  have l1: "segments long_clip_env example_clip (mime_type_of example_clip)
         (chunk_size example_clip (js_nat 3)) 3 ! 1
       = [CHR 0x0A] @ ''[-- Error transcribing chunk 2. The audio segment might have been too long or corrupted. --]'' @ [CHR 0x0A]"
    using l0 unfolding two by simp
  have l2: "trim (join '' '' (segments long_clip_env example_clip (mime_type_of example_clip)
         (chunk_size example_clip (js_nat 3)) 3)) \<noteq> []"
    using long a2 a3 a4 a5 by simp
  have l3: "segments long_clip_env example_clip (mime_type_of example_clip)
         (chunk_size example_clip (js_nat 3)) 3
       = [''one'',
          [CHR 0x0A] @ ''[-- Error transcribing chunk 2. The audio segment might have been too long or corrupted. --]'' @ [CHR 0x0A],
          ''three'']"
    by code_simp
  have s: "\<exists>st. processAudio refused_clip_env example_clip = Some (Threw (RemoteCallError ''503''), st)
          \<and> calls st = [clip_request (mime_type_of example_clip) (Some ''abcde'')]"
    using short b2 b3 b4 by simp
  have lt: "(1 :: nat) < 3" by simp
  show ?thesis
    using a1 a2 a3 a4 a5 lt b1 b2 b3 b4 l1 l2 l3 two s c1 c2 c3 st by blast
qed

text \<open>
  Claim C4. When the transcription phase ends with a raw transcript that is empty or
  consists of white space, \<^verbatim>\<open>processAudio\<close> throws the error of the empty response
  with the trace the transcription phase left: every request made is a transcription
  request, the analysis request is not among them, and nothing is returned.
\<close>

lemma single_pass_calls:
  "single_pass env b m st = (r, st') \<Longrightarrow> list_all is_transcription_call (calls st)
     \<Longrightarrow> list_all is_transcription_call (calls st')"
  by (auto simp: single_pass_unfold Let_def clip_request_transcription split: promise.splits)

lemma transcribe_calls:
  assumes "transcribe env b m duration limit st = Some (r, st')"
    and "list_all is_transcription_call (calls st)"
  shows "list_all is_transcription_call (calls st')"
proof (cases "js_le duration limit")
  case True
  with assms show ?thesis by (auto simp: transcribe_def dest: single_pass_calls)
next
  case False
  then obtain y where loop: "chunk_loop env b m (num_chunks duration limit)
      (chunk_size b (num_chunks duration limit)) 0 [] st = Some y" and "snd y = st'"
    using assms(1)
    by (auto simp: transcribe_def Let_def split: option.splits prod.splits sum.splits)
  with chunk_loop_calls [OF loop] assms(2) show ?thesis by simp
qed

theorem blank_transcript_is_failure:
  assumes "getAudioDuration (media_events env audioBlob) = Fulfilled duration"
    and "transcribe env audioBlob (mime_type_of audioBlob) duration MAX_CHUNK_SECONDS started
           = Some (Inr rawTranscript, st)"
    and "trim rawTranscript = []"
  shows "processAudio env audioBlob
           = Some (Threw (Error ''Failed to transcribe audio. The response was empty.''), st)
         \<and> list_all is_transcription_call (calls st)
         \<and> analysis_request rawTranscript \<notin> set (calls st)"
proof -
  have 1: "processAudio env audioBlob
           = Some (Threw (Error ''Failed to transcribe audio. The response was empty.''), st)"
    using assms(2,3) by (simp add: processAudio_probed [OF assms(1)] analyse_blank)
  have 2: "list_all is_transcription_call (calls st)"
    using transcribe_calls [OF assms(2)] by (simp add: started_simps)
  then have 3: "analysis_request rawTranscript \<notin> set (calls st)"
    using analysis_request_not_transcription by (auto simp: list_all_iff)
  from 1 2 3 show ?thesis by simp
qed

theorem blank_transcript_is_failure_witness:
  "getAudioDuration (media_events blank_clip_env example_clip) = Fulfilled (Num 100)
   \<and> transcribe blank_clip_env example_clip (mime_type_of example_clip) (Num 100)
        MAX_CHUNK_SECONDS started
      = Some (Inr ''  '',
              \<lparr>progress_log = [(AnalyzingAudioFile, Num 5), (TranscribingAudio, Num 20)],
               reads = [example_clip],
               calls = [clip_request ''audio/webm'' (Some ''abcde'')]\<rparr>)
   \<and> trim ''  '' = []
   \<and> processAudio blank_clip_env example_clip
      = Some (Threw (Error ''Failed to transcribe audio. The response was empty.''),
              \<lparr>progress_log = [(AnalyzingAudioFile, Num 5), (TranscribingAudio, Num 20)],
               reads = [example_clip],
               calls = [clip_request ''audio/webm'' (Some ''abcde'')]\<rparr>)"
proof -
  have a1: "getAudioDuration (media_events blank_clip_env example_clip) = Fulfilled (Num 100)"
    by code_simp
  have a2: "transcribe blank_clip_env example_clip (mime_type_of example_clip) (Num 100)
        MAX_CHUNK_SECONDS started
      = Some (Inr ''  '',
              \<lparr>progress_log = [(AnalyzingAudioFile, Num 5), (TranscribingAudio, Num 20)],
               reads = [example_clip],
               calls = [clip_request ''audio/webm'' (Some ''abcde'')]\<rparr>)"
    by code_simp
  have a3: "trim ''  '' = []" by code_simp
  from blank_transcript_is_failure [OF a1 a2 a3] a1 a2 a3 show ?thesis by blast
qed

lemma join_snoc: "xs \<noteq> [] \<Longrightarrow> join sep (xs @ [y]) = join sep xs @ sep @ y"
  by (induction sep xs rule: join.induct) simp_all

lemma join_foldl: "join sep (x # rest) = foldl (\<lambda>r next. r @ sep @ next) x rest"
proof (induction rest rule: rev_induct)
  case Nil
  show ?case by simp
next
  case (snoc y rest)
  have "join sep (x # rest @ [y]) = join sep (x # rest) @ sep @ y"
    using join_snoc [of "x # rest" sep y] by simp
  then show ?case using snoc by simp
qed

text \<open>
  Claim C6. The join puts the separator between each two neighbours and nowhere else:
  it is the first segment followed, for each further segment in order, by the separator
  and that segment; \<open>[a, b, c]\<close> joined with one space gives \<open>a b c\<close>, and a sole segment
  is itself. In chunked mode, with every chunk read and every call settled, the raw
  transcript that goes to the analysis step is the join with one space of as many
  segments as there are chunks, and segment \<open>j\<close> is the text of the response to the
  \<open>j\<close>-th call, the one made for chunk \<open>j\<close>, whenever that call is fulfilled. In
  single-pass mode the raw transcript that goes to the analysis step is the text of the
  one response, as it is. The call for a chunk and the call for a whole clip are the
  requests that carry the MIME type, the data read and the instruction to transcribe.
\<close>

theorem transcript_joins_segments:
  "join '' '' [''a'', ''b'', ''c''] = ''a b c''
   \<and> join sep [] = []
   \<and> join sep [x] = x
   \<and> join sep (x # rest) = foldl (\<lambda>r next. r @ sep @ next) x rest
   \<and> chunk_request m base64Audio
       = \<lparr>model = ''gemini-2.5-flash'',
          contents = Parts
            [InlineData m base64Audio,
             TextPart ''Provide a clean, accurate, and detailed transcription of this audio chunk. Do not add any commentary, just the text.''],
          config = None\<rparr>
   \<and> clip_request m base64Audio
       = \<lparr>model = ''gemini-2.5-flash'',
          contents = Parts
            [InlineData m base64Audio,
             TextPart ''Provide a clean, accurate, and detailed transcription of this audio. Do not add any commentary, just the text.''],
          config = None\<rparr>
   \<and> (getAudioDuration (media_events env audioBlob) = Fulfilled duration
        \<and> \<not> js_le duration (Num 540)
        \<and> num_chunks duration (Num 540) = js_nat N
        \<and> c = chunk_size audioBlob (js_nat N)
        \<and> m = mime_type_of audioBlob
        \<and> all_chunks_answered env audioBlob m c N
        \<longrightarrow> (\<exists>transcriptionParts st.
               transcribe env audioBlob m duration (Num 540) started
                 = Some (Inr (join '' '' transcriptionParts), st)
               \<and> processAudio env audioBlob
                   = Some (analyse env (join '' '' transcriptionParts) st)
               \<and> length transcriptionParts = N
               \<and> (\<forall>j < N. \<forall>base64Audio text.
                     blobToBase64 (file_reader env j (chunk_at audioBlob m c j))
                        = Fulfilled base64Audio
                     \<and> generateContent env j (chunk_request m base64Audio) = Fulfilled text
                     \<longrightarrow> transcriptionParts ! j = text)))
   \<and> (getAudioDuration (media_events env audioBlob) = Fulfilled duration
        \<and> js_le duration (Num 540)
        \<and> m = mime_type_of audioBlob
        \<and> blobToBase64 (file_reader env 0 audioBlob) = Fulfilled base64Audio
        \<and> generateContent env 0 (clip_request m base64Audio) = Fulfilled response
        \<longrightarrow> (\<exists>st. transcribe env audioBlob m duration (Num 540) started
                       = Some (Inr response, st)
                  \<and> processAudio env audioBlob = Some (analyse env response st)))"
proof (intro conjI impI)
  show "join '' '' [''a'', ''b'', ''c''] = ''a b c''" by simp
  show "join sep [] = []" by simp
  show "join sep [x] = x" by simp
  show "join sep (x # rest) = foldl (\<lambda>r next. r @ sep @ next) x rest" by (rule join_foldl)
  show "chunk_request m base64Audio
           = \<lparr>model = ''gemini-2.5-flash'',
              contents = Parts
                [InlineData m base64Audio,
                 TextPart ''Provide a clean, accurate, and detailed transcription of this audio chunk. Do not add any commentary, just the text.''],
              config = None\<rparr>"
    by (simp add: chunk_request_def transcription_request_def)
  show "clip_request m base64Audio
           = \<lparr>model = ''gemini-2.5-flash'',
              contents = Parts
                [InlineData m base64Audio,
                 TextPart ''Provide a clean, accurate, and detailed transcription of this audio. Do not add any commentary, just the text.''],
              config = None\<rparr>"
    by (simp add: clip_request_def transcription_request_def)
next
  assume h: "getAudioDuration (media_events env audioBlob) = Fulfilled duration
        \<and> \<not> js_le duration (Num 540)
        \<and> num_chunks duration (Num 540) = js_nat N
        \<and> c = chunk_size audioBlob (js_nat N)
        \<and> m = mime_type_of audioBlob
        \<and> all_chunks_answered env audioBlob m c N"
  let ?parts = "segments env audioBlob m c N"
  let ?st = "after_chunks env audioBlob m (js_nat N) c N started"
  have c: "c = chunk_size audioBlob (js_nat N)" and m: "m = mime_type_of audioBlob"
    using h by blast+
  have probe: "getAudioDuration (media_events env audioBlob) = Fulfilled duration"
    and long: "\<not> js_le duration MAX_CHUNK_SECONDS"
    and n: "num_chunks duration MAX_CHUNK_SECONDS = js_nat N"
    using h unfolding MAX_CHUNK_SECONDS_eq by blast+
  have "all_chunks_answered env audioBlob m c N"
    using h by blast
  then have ans: "all_chunks_answered env audioBlob (mime_type_of audioBlob)
                (chunk_size audioBlob (js_nat N)) N"
    unfolding c m .
  have t: "transcribe env audioBlob m duration (Num 540) started
             = Some (Inr (join '' '' ?parts), ?st)"
    using processAudio_chunked_run(1) [OF probe long n ans]
    unfolding c m MAX_CHUNK_SECONDS_eq .
  have p: "processAudio env audioBlob = Some (analyse env (join '' '' ?parts) ?st)"
    using processAudio_chunked_run(2) [OF probe long n ans] unfolding c m .
  have nth: "?parts ! j = reply"
    if "j < N"
      and "blobToBase64 (file_reader env j (chunk_at audioBlob m c j)) = Fulfilled base64Audio
           \<and> generateContent env j (chunk_request m base64Audio) = Fulfilled reply"
    for j base64Audio reply
    using that by (simp add: segments_nth segment_text_def chunk_reply_def chunk_base64_def)
  show "\<exists>transcriptionParts st.
               transcribe env audioBlob m duration (Num 540) started
                 = Some (Inr (join '' '' transcriptionParts), st)
               \<and> processAudio env audioBlob
                   = Some (analyse env (join '' '' transcriptionParts) st)
               \<and> length transcriptionParts = N
               \<and> (\<forall>j < N. \<forall>base64Audio text.
                     blobToBase64 (file_reader env j (chunk_at audioBlob m c j))
                        = Fulfilled base64Audio
                     \<and> generateContent env j (chunk_request m base64Audio) = Fulfilled text
                     \<longrightarrow> transcriptionParts ! j = text)"
  proof (intro exI [of _ ?parts] exI [of _ ?st] conjI allI impI)
    show "transcribe env audioBlob m duration (Num 540) started
            = Some (Inr (join '' '' ?parts), ?st)" by (rule t)
    show "processAudio env audioBlob = Some (analyse env (join '' '' ?parts) ?st)" by (rule p)
    show "length ?parts = N" by (rule length_segments)
    show "?parts ! j = reply"
      if "j < N"
        and "blobToBase64 (file_reader env j (chunk_at audioBlob m c j)) = Fulfilled base64Audio
             \<and> generateContent env j (chunk_request m base64Audio) = Fulfilled reply"
      for j base64Audio reply
      using that by (rule nth)
  qed
next
  assume h: "getAudioDuration (media_events env audioBlob) = Fulfilled duration
        \<and> js_le duration (Num 540)
        \<and> m = mime_type_of audioBlob
        \<and> blobToBase64 (file_reader env 0 audioBlob) = Fulfilled base64Audio
        \<and> generateContent env 0 (clip_request m base64Audio) = Fulfilled response"
  then have probe: "getAudioDuration (media_events env audioBlob) = Fulfilled duration"
    and m: "m = mime_type_of audioBlob"
    and short: "js_le duration (Num 540)"
    and rd: "blobToBase64 (file_reader env 0 audioBlob) = Fulfilled base64Audio"
    and reply: "generateContent env 0 (clip_request m base64Audio) = Fulfilled response"
    by blast+
  have "\<exists>st. transcribe env audioBlob m duration (Num 540) started = Some (Inr response, st)"
    using short rd reply by (simp add: transcribe_def single_pass_unfold started_simps Let_def)
  then obtain st where
    t: "transcribe env audioBlob m duration (Num 540) started = Some (Inr response, st)"
    by blast
  then have "processAudio env audioBlob = Some (analyse env response st)"
    unfolding m by (simp add: processAudio_probed [OF probe] MAX_CHUNK_SECONDS_eq)
  with t show "\<exists>st. transcribe env audioBlob m duration (Num 540) started
                       = Some (Inr response, st)
                  \<and> processAudio env audioBlob = Some (analyse env response st)"
    by blast
qed

theorem transcript_joins_segments_witness:
  "(getAudioDuration (media_events long_clip_env example_clip) = Fulfilled (Num 1200)
    \<and> \<not> js_le (Num 1200) (Num 540)
    \<and> num_chunks (Num 1200) (Num 540) = js_nat 3
    \<and> Num 2 = chunk_size example_clip (js_nat 3)
    \<and> ''audio/webm'' = mime_type_of example_clip
    \<and> all_chunks_answered long_clip_env example_clip ''audio/webm'' (Num 2) 3)
   \<and> blobToBase64 (file_reader long_clip_env 0 (chunk_at example_clip ''audio/webm'' (Num 2) 0))
       = Fulfilled (Some ''ab'')
   \<and> generateContent long_clip_env 0 (chunk_request ''audio/webm'' (Some ''ab'')) = Fulfilled ''one''
   \<and> blobToBase64 (file_reader long_clip_env 2 (chunk_at example_clip ''audio/webm'' (Num 2) 2))
       = Fulfilled (Some ''e'')
   \<and> generateContent long_clip_env 2 (chunk_request ''audio/webm'' (Some ''e'')) = Fulfilled ''three''
   \<and> (\<exists>transcriptionParts st.
         transcribe long_clip_env example_clip ''audio/webm'' (Num 1200) (Num 540) started
           = Some (Inr (join '' '' transcriptionParts), st)
         \<and> processAudio long_clip_env example_clip
             = Some (analyse long_clip_env (join '' '' transcriptionParts) st)
         \<and> length transcriptionParts = 3
         \<and> transcriptionParts ! 0 = ''one''
         \<and> transcriptionParts ! 2 = ''three'')
   \<and> transcribe long_clip_env example_clip ''audio/webm'' (Num 1200) (Num 540) started
       = Some (Inr (''one '' @ [CHR 0x0A]
                    @ ''[-- Error transcribing chunk 2. The audio segment might have been too long or corrupted. --]''
                    @ [CHR 0x0A] @ '' three''),
               after_chunks long_clip_env example_clip ''audio/webm'' (Num 3) (Num 2) 3 started)
   \<and> (getAudioDuration (media_events short_clip_env example_clip) = Fulfilled (Num 0)
    \<and> js_le (Num 0) (Num 540)
    \<and> blobToBase64 (file_reader short_clip_env 0 example_clip) = Fulfilled (Some ''abcde'')
    \<and> generateContent short_clip_env 0 (clip_request ''audio/webm'' (Some ''abcde''))
        = Fulfilled ''hello'')
   \<and> (\<exists>st. transcribe short_clip_env example_clip ''audio/webm'' (Num 0) (Num 540) started
               = Some (Inr ''hello'', st)
           \<and> processAudio short_clip_env example_clip
               = Some (analyse short_clip_env ''hello'' st))"
proof -
  have a1: "getAudioDuration (media_events long_clip_env example_clip) = Fulfilled (Num 1200)"
    by code_simp
  have a2: "\<not> js_le (Num 1200) (Num 540)" by simp
  have a3: "num_chunks (Num 1200) (Num 540) = js_nat 3" by code_simp
  have a4: "Num 2 = chunk_size example_clip (js_nat 3)" by code_simp
  have a5: "''audio/webm'' = mime_type_of example_clip" by code_simp
  have a6: "all_chunks_answered long_clip_env example_clip ''audio/webm'' (Num 2) 3" by code_simp
  have r0: "blobToBase64 (file_reader long_clip_env 0 (chunk_at example_clip ''audio/webm'' (Num 2) 0))
       = Fulfilled (Some ''ab'')" by code_simp
  have g0: "generateContent long_clip_env 0 (chunk_request ''audio/webm'' (Some ''ab''))
       = Fulfilled ''one''" by code_simp
  have r2: "blobToBase64 (file_reader long_clip_env 2 (chunk_at example_clip ''audio/webm'' (Num 2) 2))
       = Fulfilled (Some ''e'')" by code_simp
  have g2: "generateContent long_clip_env 2 (chunk_request ''audio/webm'' (Some ''e''))
       = Fulfilled ''three''" by code_simp
  have b1: "getAudioDuration (media_events short_clip_env example_clip) = Fulfilled (Num 0)"
    by code_simp
  have b2: "js_le (Num 0) (Num 540)" by simp
  have b3: "blobToBase64 (file_reader short_clip_env 0 example_clip) = Fulfilled (Some ''abcde'')"
    by code_simp
  have b4: "generateContent short_clip_env 0 (clip_request ''audio/webm'' (Some ''abcde''))
        = Fulfilled ''hello''" by code_simp
  note chunked = transcript_joins_segments [where x = "[]" and rest = "[]" and sep = "[]"
      and env = long_clip_env and audioBlob = example_clip and duration = "Num 1200"
      and N = 3 and c = "Num 2" and m = "''audio/webm''",
      THEN conjunct2, THEN conjunct2, THEN conjunct2, THEN conjunct2, THEN conjunct2,
      THEN conjunct2, THEN conjunct1, rule_format]
  note single = transcript_joins_segments [where x = "[]" and rest = "[]" and sep = "[]"
      and env = short_clip_env and audioBlob = example_clip and duration = "Num 0"
      and m = "''audio/webm''" and base64Audio = "Some ''abcde''" and response = "''hello''",
      THEN conjunct2, THEN conjunct2, THEN conjunct2, THEN conjunct2, THEN conjunct2,
      THEN conjunct2, THEN conjunct2, rule_format]
  have "\<exists>transcriptionParts st.
         transcribe long_clip_env example_clip ''audio/webm'' (Num 1200) (Num 540) started
           = Some (Inr (join '' '' transcriptionParts), st)
         \<and> processAudio long_clip_env example_clip
             = Some (analyse long_clip_env (join '' '' transcriptionParts) st)
         \<and> length transcriptionParts = 3
         \<and> (\<forall>j < 3. \<forall>base64Audio text.
               blobToBase64 (file_reader long_clip_env j (chunk_at example_clip ''audio/webm'' (Num 2) j))
                  = Fulfilled base64Audio
               \<and> generateContent long_clip_env j (chunk_request ''audio/webm'' base64Audio)
                  = Fulfilled text
               \<longrightarrow> transcriptionParts ! j = text)"
    using chunked a1 a2 a3 a4 a5 a6 by blast
  then obtain ps st where
    l1: "transcribe long_clip_env example_clip ''audio/webm'' (Num 1200) (Num 540) started
           = Some (Inr (join '' '' ps), st)"
    and l2: "processAudio long_clip_env example_clip
             = Some (analyse long_clip_env (join '' '' ps) st)"
    and l3: "length ps = 3"
    and l4: "\<And>j base64Audio reply. j < 3 \<Longrightarrow>
               blobToBase64 (file_reader long_clip_env j (chunk_at example_clip ''audio/webm'' (Num 2) j))
                  = Fulfilled base64Audio \<Longrightarrow>
               generateContent long_clip_env j (chunk_request ''audio/webm'' base64Audio)
                  = Fulfilled reply \<Longrightarrow> ps ! j = reply"
    by blast
  have p0: "ps ! 0 = ''one''" using l4 [OF _ r0 g0] by simp
  have p2: "ps ! 2 = ''three''" using l4 [OF _ r2 g2] by simp
  have l: "\<exists>transcriptionParts st.
         transcribe long_clip_env example_clip ''audio/webm'' (Num 1200) (Num 540) started
           = Some (Inr (join '' '' transcriptionParts), st)
         \<and> processAudio long_clip_env example_clip
             = Some (analyse long_clip_env (join '' '' transcriptionParts) st)
         \<and> length transcriptionParts = 3
         \<and> transcriptionParts ! 0 = ''one''
         \<and> transcriptionParts ! 2 = ''three''"
    using l1 l2 l3 p0 p2 by blast
  have whole: "transcribe long_clip_env example_clip ''audio/webm'' (Num 1200) (Num 540) started
       = Some (Inr (''one '' @ [CHR 0x0A]
                    @ ''[-- Error transcribing chunk 2. The audio segment might have been too long or corrupted. --]''
                    @ [CHR 0x0A] @ '' three''),
               after_chunks long_clip_env example_clip ''audio/webm'' (Num 3) (Num 2) 3 started)"
    by code_simp
  have s: "\<exists>st. transcribe short_clip_env example_clip ''audio/webm'' (Num 0) (Num 540) started
               = Some (Inr ''hello'', st)
           \<and> processAudio short_clip_env example_clip
               = Some (analyse short_clip_env ''hello'' st)"
    using single b1 b2 b3 b4 a5 by blast
  from a1 a2 a3 a4 a5 a6 r0 g0 r2 g2 l whole b1 b2 b3 b4 s show ?thesis by (intro conjI)
qed

lemma blank_join:
  assumes "trim (join sep xs) = []" and "x \<in> set xs"
  shows "trim x = []"
  using assms set_join [of x xs sep] by (auto simp: trim_blank_iff)

lemma marker_not_blank: "trim (chunk_error_marker i) \<noteq> []"
  using bracket_in_marker [of i] bracket_not_white_space by (auto simp: trim_blank_iff)

lemma blank_segment:
  assumes "trim (segment_text reply j) = []"
  shows "\<exists>text. reply = Fulfilled text \<and> trim text = []"
  using assms marker_not_blank [of j] by (cases reply) (simp_all add: segment_text_def)

text \<open>
  Claim C9, amended. In chunked mode with a finite number \<open>N\<close> of chunks, every chunk read
  and every call settled, the joined transcript is blank only if every call was
  fulfilled with blank text. As soon as one call is rejected the transcript is not
  blank; and whenever it is not blank the blank check passes and the analysis request is
  sent next.
\<close>

theorem blank_only_if_every_chunk_blank:
  assumes "getAudioDuration (media_events env audioBlob) = Fulfilled duration"
    and "\<not> js_le duration MAX_CHUNK_SECONDS"
    and "num_chunks duration MAX_CHUNK_SECONDS = js_nat N"
    and "m = mime_type_of audioBlob"
    and "c = chunk_size audioBlob (js_nat N)"
    and "all_chunks_answered env audioBlob m c N"
    and "rawTranscript = join '' '' (segments env audioBlob m c N)"
    and "st = after_chunks env audioBlob m (js_nat N) c N started"
  shows "processAudio env audioBlob = Some (analyse env rawTranscript st)
       \<and> (trim rawTranscript = [] \<longrightarrow>
            (\<forall>j < N. \<exists>text. chunk_reply env audioBlob m c j = Fulfilled text \<and> trim text = []))
       \<and> ((\<exists>j < N. \<exists>e. chunk_reply env audioBlob m c j = Rejected e) \<longrightarrow> trim rawTranscript \<noteq> [])
       \<and> (trim rawTranscript \<noteq> [] \<longrightarrow>
            (\<exists>result st'. processAudio env audioBlob = Some (result, st')
                \<and> calls st' = calls st @ [analysis_request rawTranscript]))"
proof -
  have run: "processAudio env audioBlob = Some (analyse env rawTranscript st)"
    using processAudio_chunked_run(2) [OF assms(1,2,3)] assms(6)
    unfolding assms(4,5,7,8) by simp
  have blank: "\<forall>j < N. \<exists>text. chunk_reply env audioBlob m c j = Fulfilled text \<and> trim text = []"
    if "trim rawTranscript = []"
  proof (intro allI impI)
    fix j assume "j < N"
    then have "segment_text (chunk_reply env audioBlob m c j) j \<in> set (segments env audioBlob m c N)"
      by (simp add: segments_def)
    then have "trim (segment_text (chunk_reply env audioBlob m c j) j) = []"
      using that blank_join unfolding assms(7) by blast
    then show "\<exists>text. chunk_reply env audioBlob m c j = Fulfilled text \<and> trim text = []"
      by (rule blank_segment)
  qed
  have failed: "trim rawTranscript \<noteq> []" if "\<exists>j < N. \<exists>e. chunk_reply env audioBlob m c j = Rejected e"
    using that blank by fastforce
  have attempted: "\<exists>result st'. processAudio env audioBlob = Some (result, st')
                \<and> calls st' = calls st @ [analysis_request rawTranscript]"
    if "trim rawTranscript \<noteq> []"
    using analyse_attempts_call [OF that, of env st] run by auto
  from run blank failed attempted show ?thesis by blast
qed

theorem blank_only_if_every_chunk_blank_witness:
  "(getAudioDuration (media_events long_clip_env example_clip) = Fulfilled (Num 1200)
    \<and> \<not> js_le (Num 1200) MAX_CHUNK_SECONDS
    \<and> num_chunks (Num 1200) MAX_CHUNK_SECONDS = js_nat 3
    \<and> all_chunks_answered long_clip_env example_clip (mime_type_of example_clip)
         (chunk_size example_clip (js_nat 3)) 3
    \<and> (1 :: nat) < 3
    \<and> chunk_reply long_clip_env example_clip (mime_type_of example_clip)
         (chunk_size example_clip (js_nat 3)) 1 = Rejected (RemoteCallError ''503''))
   \<and> trim (join '' '' (segments long_clip_env example_clip (mime_type_of example_clip)
         (chunk_size example_clip (js_nat 3)) 3)) \<noteq> []
   \<and> (\<exists>result st'. processAudio long_clip_env example_clip = Some (result, st')
         \<and> calls st' = calls (after_chunks long_clip_env example_clip (mime_type_of example_clip)
                (js_nat 3) (chunk_size example_clip (js_nat 3)) 3 started)
            @ [analysis_request (join '' '' (segments long_clip_env example_clip
                 (mime_type_of example_clip) (chunk_size example_clip (js_nat 3)) 3))])
   \<and> (getAudioDuration (media_events silent_clip_env example_clip) = Fulfilled (Num 1000)
    \<and> \<not> js_le (Num 1000) MAX_CHUNK_SECONDS
    \<and> num_chunks (Num 1000) MAX_CHUNK_SECONDS = js_nat 2
    \<and> all_chunks_answered silent_clip_env example_clip (mime_type_of example_clip)
         (chunk_size example_clip (js_nat 2)) 2
    \<and> trim (join '' '' (segments silent_clip_env example_clip (mime_type_of example_clip)
         (chunk_size example_clip (js_nat 2)) 2)) = []
    \<and> (1 :: nat) < 2)
   \<and> (\<exists>text. chunk_reply silent_clip_env example_clip (mime_type_of example_clip)
         (chunk_size example_clip (js_nat 2)) 1 = Fulfilled text \<and> trim text = [])"
proof -
  have s1: "getAudioDuration (media_events silent_clip_env example_clip) = Fulfilled (Num 1000)"
    by code_simp
  have s2: "\<not> js_le (Num 1000) MAX_CHUNK_SECONDS" by code_simp
  have s3: "num_chunks (Num 1000) MAX_CHUNK_SECONDS = js_nat 2" by code_simp
  have s4: "all_chunks_answered silent_clip_env example_clip (mime_type_of example_clip)
         (chunk_size example_clip (js_nat 2)) 2" by code_simp
  have s5: "trim (join '' '' (segments silent_clip_env example_clip (mime_type_of example_clip)
         (chunk_size example_clip (js_nat 2)) 2)) = []" by code_simp
  have s6: "(1 :: nat) < 2" by simp
  note u = blank_only_if_every_chunk_blank [OF s1 s2 s3 refl refl s4 refl refl]
  have sb: "\<exists>text. chunk_reply silent_clip_env example_clip (mime_type_of example_clip)
         (chunk_size example_clip (js_nat 2)) 1 = Fulfilled text \<and> trim text = []"
    using u s5 s6 by blast
  have a1: "getAudioDuration (media_events long_clip_env example_clip) = Fulfilled (Num 1200)"
    by code_simp
  have a2: "\<not> js_le (Num 1200) MAX_CHUNK_SECONDS" by code_simp
  have a3: "num_chunks (Num 1200) MAX_CHUNK_SECONDS = js_nat 3" by code_simp
  have a4: "all_chunks_answered long_clip_env example_clip (mime_type_of example_clip)
         (chunk_size example_clip (js_nat 3)) 3" by code_simp
  have a5: "chunk_reply long_clip_env example_clip (mime_type_of example_clip)
         (chunk_size example_clip (js_nat 3)) 1 = Rejected (RemoteCallError ''503'')"
    by code_simp
  have lt: "(1 :: nat) < 3" by simp
  note t = blank_only_if_every_chunk_blank [OF a1 a2 a3 refl refl a4 refl refl]
  have ex: "\<exists>j < 3. \<exists>e. chunk_reply long_clip_env example_clip (mime_type_of example_clip)
         (chunk_size example_clip (js_nat 3)) j = Rejected e"
    using a5 lt by blast
  have nb: "trim (join '' '' (segments long_clip_env example_clip (mime_type_of example_clip)
         (chunk_size example_clip (js_nat 3)) 3)) \<noteq> []"
    using t ex by blast
  have att: "\<exists>result st'. processAudio long_clip_env example_clip = Some (result, st')
         \<and> calls st' = calls (after_chunks long_clip_env example_clip (mime_type_of example_clip)
                (js_nat 3) (chunk_size example_clip (js_nat 3)) 3 started)
            @ [analysis_request (join '' '' (segments long_clip_env example_clip
                 (mime_type_of example_clip) (chunk_size example_clip (js_nat 3)) 3))]"
    using t nb by blast
  from a1 a2 a3 a4 a5 lt nb att s1 s2 s3 s4 s5 s6 sb show ?thesis by blast
qed

text \<open>
  The claim as stated fails: a clip of 1000 seconds is processed in two chunks, both
  calls are fulfilled with the empty text, the joined transcript is one space, and the
  run throws the error of the empty response after the two chunk requests.
\<close>

theorem chunked_run_reaches_blank_error:
  "getAudioDuration (media_events silent_clip_env example_clip) = Fulfilled (Num 1000)
   \<and> \<not> js_le (Num 1000) MAX_CHUNK_SECONDS
   \<and> num_chunks (Num 1000) MAX_CHUNK_SECONDS = Num 2
   \<and> js_le (Num 1) (num_chunks (Num 1000) MAX_CHUNK_SECONDS)
   \<and> map_option fst (processAudio silent_clip_env example_clip)
        = Some (Threw (Error ''Failed to transcribe audio. The response was empty.''))
   \<and> map_option (calls \<circ> snd) (processAudio silent_clip_env example_clip)
        = Some [chunk_request ''audio/webm'' (Some ''abc''), chunk_request ''audio/webm'' (Some ''de'')]"
  by code_simp

section \<open>The result of the analysis\<close>
lemma analysis_object_conforms: "conforms analysisSchema analysis_object"
  by (simp add: analysisSchema_def analysis_object_def)

lemma JSON_parse_analysis_payload: "JSON_parse analysis_payload = Some analysis_object"
  by code_simp

text \<open>
  Claim C7. The payload \<^verbatim>\<open>{"summary":"S","actionItems":["A1"],"highlights":["H1"]}\<close>
  parses to the object with \<open>summary\<close> \<open>S\<close>, \<open>actionItems\<close> \<open>[A1]\<close> and \<open>highlights\<close>
  \<open>[H1]\<close>, which conforms to the schema sent with the analysis request. When the analysis
  call is answered with that payload, \<^verbatim>\<open>processAudio\<close> returns the object with these
  three properties and, after them, \<open>rawTranscript\<close>, which is the raw transcript of the
  transcription phase, unchanged.
\<close>

theorem analysis_round_trip:
  assumes "getAudioDuration (media_events env audioBlob) = Fulfilled duration"
    and "transcribe env audioBlob (mime_type_of audioBlob) duration MAX_CHUNK_SECONDS started
           = Some (Inr rawTranscript, st)"
    and "trim rawTranscript \<noteq> []"
    and "payload =
           ''{'' @ [CHR 0x22] @ ''summary'' @ [CHR 0x22] @ '':'' @ [CHR 0x22] @ ''S'' @ [CHR 0x22]
           @ '','' @ [CHR 0x22] @ ''actionItems'' @ [CHR 0x22] @ '':[''
           @ [CHR 0x22] @ ''A1'' @ [CHR 0x22] @ '']''
           @ '','' @ [CHR 0x22] @ ''highlights'' @ [CHR 0x22] @ '':[''
           @ [CHR 0x22] @ ''H1'' @ [CHR 0x22] @ '']}''"
    and "generateContent env (length (calls st))
           \<lparr>model = ''gemini-2.5-flash'',
            contents = Prompt (analysis_prompt rawTranscript),
            config = Some \<lparr>responseMimeType = ''application/json'',
                           responseSchema = analysisSchema\<rparr>\<rparr>
           = Fulfilled payload"
  shows "JSON_parse payload
           = Some (JObject [(''summary'', JString ''S''),
                            (''actionItems'', JArray [JString ''A1'']),
                            (''highlights'', JArray [JString ''H1''])])
       \<and> conforms analysisSchema
            (JObject [(''summary'', JString ''S''),
                      (''actionItems'', JArray [JString ''A1'']),
                      (''highlights'', JArray [JString ''H1''])])
       \<and> (\<exists>st'. processAudio env audioBlob
             = Some (Returned
                       (JObject [(''summary'', JString ''S''),
                                 (''actionItems'', JArray [JString ''A1'']),
                                 (''highlights'', JArray [JString ''H1'']),
                                 (''rawTranscript'', JString rawTranscript)]),
                     st'))"
proof -
  have payload: "payload = analysis_payload"
    unfolding assms(4) by (simp add: analysis_payload_def)
  have parse: "JSON_parse payload = Some analysis_object"
    unfolding payload by (rule JSON_parse_analysis_payload)
  have reply: "generateContent env (length (calls st)) (analysis_request rawTranscript)
                 = Fulfilled payload"
    using assms(5) by (simp add: analysis_request_def)
  have "\<exists>st'. analyse env rawTranscript st
          = (Returned (JObject (set_prop ''rawTranscript'' (JString rawTranscript)
                         (spread analysis_object))), st')"
    using assms(3) reply parse by (simp add: analyse_unfold Let_def)
  then have "\<exists>st'. processAudio env audioBlob
          = Some (Returned (JObject (set_prop ''rawTranscript'' (JString rawTranscript)
                         (spread analysis_object))), st')"
    using assms(2) by (auto simp: processAudio_probed [OF assms(1)])
  moreover have "set_prop ''rawTranscript'' (JString rawTranscript) (spread analysis_object)
      = [(''summary'', JString ''S''),
         (''actionItems'', JArray [JString ''A1'']),
         (''highlights'', JArray [JString ''H1'']),
         (''rawTranscript'', JString rawTranscript)]"
    by (simp add: analysis_object_def)
  ultimately show ?thesis
    using parse analysis_object_conforms unfolding analysis_object_def by simp
qed

theorem analysis_round_trip_witness:
  "getAudioDuration (media_events short_clip_env example_clip) = Fulfilled (Num 0)
   \<and> transcribe short_clip_env example_clip (mime_type_of example_clip) (Num 0)
        MAX_CHUNK_SECONDS started
      = Some (Inr ''hello'',
              \<lparr>progress_log = [(AnalyzingAudioFile, Num 5), (TranscribingAudio, Num 20)],
               reads = [example_clip],
               calls = [clip_request ''audio/webm'' (Some ''abcde'')]\<rparr>)
   \<and> trim ''hello'' \<noteq> []
   \<and> generateContent short_clip_env 1
        \<lparr>model = ''gemini-2.5-flash'',
         contents = Prompt (analysis_prompt ''hello''),
         config = Some \<lparr>responseMimeType = ''application/json'',
                        responseSchema = analysisSchema\<rparr>\<rparr>
      = Fulfilled
          (''{'' @ [CHR 0x22] @ ''summary'' @ [CHR 0x22] @ '':'' @ [CHR 0x22] @ ''S'' @ [CHR 0x22]
           @ '','' @ [CHR 0x22] @ ''actionItems'' @ [CHR 0x22] @ '':[''
           @ [CHR 0x22] @ ''A1'' @ [CHR 0x22] @ '']''
           @ '','' @ [CHR 0x22] @ ''highlights'' @ [CHR 0x22] @ '':[''
           @ [CHR 0x22] @ ''H1'' @ [CHR 0x22] @ '']}'')
   \<and> JSON_parse
        (''{'' @ [CHR 0x22] @ ''summary'' @ [CHR 0x22] @ '':'' @ [CHR 0x22] @ ''S'' @ [CHR 0x22]
         @ '','' @ [CHR 0x22] @ ''actionItems'' @ [CHR 0x22] @ '':[''
         @ [CHR 0x22] @ ''A1'' @ [CHR 0x22] @ '']''
         @ '','' @ [CHR 0x22] @ ''highlights'' @ [CHR 0x22] @ '':[''
         @ [CHR 0x22] @ ''H1'' @ [CHR 0x22] @ '']}'')
      = Some (JObject [(''summary'', JString ''S''),
                       (''actionItems'', JArray [JString ''A1'']),
                       (''highlights'', JArray [JString ''H1''])])
   \<and> (\<exists>st'. processAudio short_clip_env example_clip
         = Some (Returned
                   (JObject [(''summary'', JString ''S''),
                             (''actionItems'', JArray [JString ''A1'']),
                             (''highlights'', JArray [JString ''H1'']),
                             (''rawTranscript'', JString ''hello'')]),
                 st'))"
proof -
  let ?st = "\<lparr>progress_log = [(AnalyzingAudioFile, Num 5), (TranscribingAudio, Num 20)],
               reads = [example_clip],
               calls = [clip_request ''audio/webm'' (Some ''abcde'')]\<rparr>"
  let ?payload =
    "''{'' @ [CHR 0x22] @ ''summary'' @ [CHR 0x22] @ '':'' @ [CHR 0x22] @ ''S'' @ [CHR 0x22]
     @ '','' @ [CHR 0x22] @ ''actionItems'' @ [CHR 0x22] @ '':[''
     @ [CHR 0x22] @ ''A1'' @ [CHR 0x22] @ '']''
     @ '','' @ [CHR 0x22] @ ''highlights'' @ [CHR 0x22] @ '':[''
     @ [CHR 0x22] @ ''H1'' @ [CHR 0x22] @ '']}''"
  let ?req = "\<lparr>model = ''gemini-2.5-flash'',
         contents = Prompt (analysis_prompt ''hello''),
         config = Some \<lparr>responseMimeType = ''application/json'',
                        responseSchema = analysisSchema\<rparr>\<rparr>"
  have a1: "getAudioDuration (media_events short_clip_env example_clip) = Fulfilled (Num 0)"
    by code_simp
  have a2: "transcribe short_clip_env example_clip (mime_type_of example_clip) (Num 0)
        MAX_CHUNK_SECONDS started = Some (Inr ''hello'', ?st)"
    by code_simp
  have a3: "trim ''hello'' \<noteq> []" by code_simp
  have a4: "generateContent short_clip_env 1 ?req = Fulfilled ?payload"
    by code_simp
  have a4': "generateContent short_clip_env (length (calls ?st)) ?req = Fulfilled ?payload"
    using a4 by simp
  note result = analysis_round_trip [OF a1 a2 a3 refl a4']
  from a1 a2 a3 a4 result [THEN conjunct1] result [THEN conjunct2, THEN conjunct2]
  show ?thesis by (intro conjI)
qed

section \<open>Progress reports\<close>
lemma chunk_progress_finite:
  assumes "0 < N"
  shows "chunk_progress (js_nat N) i = Num (of_int (20 + progress_step N i))"
  using assms by (simp add: chunk_progress_def progress_step_def)

lemma progress_step_mono:
  assumes "i \<le> j"
  shows "progress_step N i \<le> progress_step N j"
proof -
  have "(of_nat i :: rat) / of_nat N \<le> of_nat j / of_nat N"
    using assms by (simp add: divide_right_mono)
  then have "(of_nat i :: rat) / of_nat N * 60 \<le> of_nat j / of_nat N * 60"
    by (rule mult_right_mono) simp
  then have "(of_nat i :: rat) / of_nat N * 60 + 1 / 2 \<le> of_nat j / of_nat N * 60 + 1 / 2"
    by (rule add_right_mono)
  then show ?thesis unfolding progress_step_def by (rule floor_mono)
qed

lemma progress_step_bounds:
  assumes "i < N"
  shows "0 \<le> progress_step N i" and "progress_step N i \<le> 60"
proof -
  have pos: "(0 :: rat) < of_nat N" using assms by simp
  have "(0 :: rat) \<le> of_nat i / of_nat N * 60 + 1 / 2" by simp
  then show "0 \<le> progress_step N i" unfolding progress_step_def by linarith
  have "(of_nat i :: rat) / of_nat N < 1" using assms pos by simp
  then have "(of_nat i :: rat) / of_nat N * 60 + 1 / 2 < 61" by simp
  then show "progress_step N i \<le> 60" unfolding progress_step_def by linarith
qed

lemma chunk_progress_bounds:
  assumes "i < N"
  shows "js_le (Num 20) (chunk_progress (js_nat N) i)"
    and "js_le (chunk_progress (js_nat N) i) (Num 80)"
proof -
  have N: "0 < N" using assms by simp
  have "(0 :: rat) \<le> of_int (progress_step N i)" "(of_int (progress_step N i) :: rat) \<le> 60"
    using progress_step_bounds [OF assms] by simp_all
  then show "js_le (Num 20) (chunk_progress (js_nat N) i)"
    and "js_le (chunk_progress (js_nat N) i) (Num 80)"
    by (simp_all add: chunk_progress_finite [OF N])
qed

lemma chunk_progress_mono:
  assumes "0 < N" and "i \<le> j"
  shows "js_le (chunk_progress (js_nat N) i) (chunk_progress (js_nat N) j)"
  using progress_step_mono [OF assms(2), of N] by (simp add: chunk_progress_finite [OF assms(1)])

lemma sorted_chunk_progress:
  assumes "0 < N"
  shows "sorted_wrt js_le (map (chunk_progress (js_nat N)) [0..<N])"
proof -
  have "sorted_wrt (\<lambda>i j. js_le (chunk_progress (js_nat N) i) (chunk_progress (js_nat N) j)) [0..<N]"
    by (rule sorted_wrt_mono_rel [OF _ sorted_wrt_upt]) (simp add: chunk_progress_mono [OF assms])
  then show ?thesis by (simp add: sorted_wrt_map)
qed

lemma sorted_progress_values:
  assumes "0 < N"
  shows "sorted_wrt js_le (Num 5 # map (chunk_progress (js_nat N)) [0..<N] @ [Num 85, Num 100])"
proof -
  have lo: "\<And>i. i < N \<Longrightarrow> js_le (Num 5) (chunk_progress (js_nat N) i)"
    using progress_step_bounds(1) by (simp add: chunk_progress_finite [OF assms])
  have hi: "js_le (chunk_progress (js_nat N) i) (Num 85)"
    "js_le (chunk_progress (js_nat N) i) (Num 100)" if "i < N" for i
  proof -
    have "(of_int (progress_step N i) :: rat) \<le> 60"
      using progress_step_bounds(2) [OF that] by simp
    then show "js_le (chunk_progress (js_nat N) i) (Num 85)"
      "js_le (chunk_progress (js_nat N) i) (Num 100)"
      by (simp_all add: chunk_progress_finite [OF assms])
  qed
  show ?thesis
    using lo hi sorted_chunk_progress [OF assms] by (auto simp: sorted_wrt_append)
qed

lemma chunk_loop_never_returns:
  assumes "chunk_loop env b m n c i parts st = Some y"
  shows "fst y \<noteq> Inl (Returned data)"
proof (rule chunk_loop.raw_induct
    [where P = "\<lambda>env b m n c i parts st y. fst y \<noteq> Inl (Returned data)", OF _ assms],
    goal_cases)
  case (1 loop env b m n c i parts st y)
  show ?case
  proof (cases "js_lt (js_nat i) n")
    case False
    with 1(2) show ?thesis by auto
  next
    case True
    show ?thesis
    proof (cases "chunk_iteration env b m n c i parts st")
      case (Abort failure st1)
      then have "failure \<noteq> Returned data"
        by (auto simp: chunk_iteration_unfold split: promise.splits)
      with 1(2) True Abort show ?thesis by auto
    next
      case (Continue parts1 st1)
      with 1(2) True have "loop env b m n c (i + 1) parts1 st1 = Some y" by simp
      from 1(1) [OF this] show ?thesis .
    qed
  qed
qed

lemma transcribe_never_returns:
  "transcribe env b m duration limit st \<noteq> Some (Inl (Returned data), st')"
proof (cases "js_le duration limit")
  case True
  then show ?thesis
    by (auto simp: transcribe_def single_pass_unfold Let_def split: promise.splits)
next
  case False
  show ?thesis
  proof
    assume a: "transcribe env b m duration limit st = Some (Inl (Returned data), st')"
    then obtain y where "chunk_loop env b m (num_chunks duration limit)
        (chunk_size b (num_chunks duration limit)) 0 [] st = Some y" and "fst y = Inl (Returned data)"
      using False
      by (auto simp: transcribe_def Let_def split: option.splits prod.splits sum.splits)
    with chunk_loop_never_returns show False by blast
  qed
qed

lemma analyse_Returned:
  assumes "analyse env raw st = (Returned data, st')"
  shows "trim raw \<noteq> []"
    and "progress_log st' = progress_log st @ [(AnalyzingFullTranscript, Num 85), (Finalizing, Num 100)]"
proof -
  show nb: "trim raw \<noteq> []" using assms by (auto simp: analyse_blank)
  show "progress_log st' = progress_log st @ [(AnalyzingFullTranscript, Num 85), (Finalizing, Num 100)]"
    using assms by (auto simp: analyse_unfold [OF nb] Let_def split: promise.splits option.splits)
qed

lemma single_pass_progress:
  assumes "single_pass env b m st = (r, st')"
  shows "progress_log st' = progress_log st @ [(TranscribingAudio, Num 20)]"
  using assms by (auto simp: single_pass_unfold Let_def split: promise.splits)

lemma transcribe_progress:
  assumes "transcribe env b m duration MAX_CHUNK_SECONDS st = Some (Inr raw, st')"
    and "trim raw \<noteq> []"
  shows "map snd (progress_log st') = map snd (progress_log st) @ [Num 20]
       \<or> (\<exists>N \<ge> 2. num_chunks duration MAX_CHUNK_SECONDS = js_nat N
             \<and> map snd (progress_log st')
                 = map snd (progress_log st) @ map (chunk_progress (js_nat N)) [0..<N])"
proof (cases "js_le duration MAX_CHUNK_SECONDS")
  case True
  then have "single_pass env b m st = (Inr raw, st')"
    using assms(1) by (simp add: transcribe_def)
  from single_pass_progress [OF this] show ?thesis by simp
next
  case False
  let ?n = "num_chunks duration MAX_CHUNK_SECONDS"
  obtain parts where loop: "chunk_loop env b m ?n (chunk_size b ?n) 0 [] st = Some (Inr parts, st')"
    and raw: "raw = join '' '' parts"
    using assms(1) False
    by (auto simp: transcribe_def Let_def split: option.splits prod.splits sum.splits)
  show ?thesis
  proof (cases duration)
    case (Num d)
    with False have long: "540 < d" by (simp add: MAX_CHUNK_SECONDS_eq)
    let ?N = "nat \<lceil>d / 540\<rceil>"
    have n: "?n = js_nat ?N" and N: "2 \<le> ?N"
      using num_chunks_long [OF long] Num by simp_all
    have "progress_log st' = progress_log st
           @ map (\<lambda>j. (TranscribingChunk (js_nat (j + 1)) (js_nat ?N), chunk_progress (js_nat ?N) j)) [0..<?N]"
      using loop unfolding n by (rule chunk_loop_progress) simp
    then have "map snd (progress_log st')
                 = map snd (progress_log st) @ map (chunk_progress (js_nat ?N)) [0..<?N]"
      by (simp add: comp_def)
    with n N show ?thesis by blast
  next
    case PosInf
    then have "?n = PosInf" by (simp add: num_chunks_def MAX_CHUNK_SECONDS_eq signed_inf_def)
    with chunk_loop_infinite [OF loop] show ?thesis by simp
  next
    case NegInf
    with False show ?thesis by (simp add: MAX_CHUNK_SECONDS_eq)
  next
    case NaN
    then have "?n = NaN" by (simp add: num_chunks_def)
    then have "parts = []" using loop by (simp add: chunk_loop_exit)
    with raw assms(2) show ?thesis by (simp add: trim_def)
  qed
qed

text \<open>
  Claim C5. In every run in which \<^verbatim>\<open>processAudio\<close> returns, the progress values passed
  to \<^verbatim>\<open>onProgress\<close> never decrease and the last one is 100. They are 5, 20, 85, 100 in
  single-pass mode, and in chunked mode 5, then for each chunk \<open>i\<close> of \<open>N\<close> the value
  \<open>20 + round (i / N * 60)\<close>, which lies between 20 and 80, then 85 and 100.
\<close>

theorem progress_is_monotone:
  assumes "processAudio env audioBlob = Some (Returned data, st)"
  shows "sorted_wrt js_le (map snd (progress_log st))
       \<and> last (map snd (progress_log st)) = Num 100
       \<and> (map snd (progress_log st) = [Num 5, Num 20, Num 85, Num 100]
          \<or> (\<exists>N \<ge> 2. map snd (progress_log st)
                        = Num 5 # map (chunk_progress (js_nat N)) [0..<N] @ [Num 85, Num 100]
                \<and> (\<forall>i < N. chunk_progress (js_nat N) i
                               = Num (of_int (20 + \<lfloor>(of_nat i :: rat) / of_nat N * 60 + 1 / 2\<rfloor>))
                           \<and> js_le (Num 20) (chunk_progress (js_nat N) i)
                           \<and> js_le (chunk_progress (js_nat N) i) (Num 80))))"
proof -
  obtain duration where probe: "getAudioDuration (media_events env audioBlob) = Fulfilled duration"
    using assms by (cases "getAudioDuration (media_events env audioBlob)")
      (simp_all add: processAudio_def Let_def)
  obtain raw st1 where tr: "transcribe env audioBlob (mime_type_of audioBlob) duration
        MAX_CHUNK_SECONDS started = Some (Inr raw, st1)"
    and an: "analyse env raw st1 = (Returned data, st)"
    using assms transcribe_never_returns unfolding processAudio_probed [OF probe]
    by (auto split: option.splits prod.splits sum.splits)
  note fin = analyse_Returned [OF an]
  from transcribe_progress [OF tr fin(1)] show ?thesis
  proof
    assume "map snd (progress_log st1) = map snd (progress_log started) @ [Num 20]"
    then have "map snd (progress_log st) = [Num 5, Num 20, Num 85, Num 100]"
      using fin(2) by (simp add: started_simps)
    then show ?thesis by simp
  next
    assume "\<exists>N \<ge> 2. num_chunks duration MAX_CHUNK_SECONDS = js_nat N
             \<and> map snd (progress_log st1)
                 = map snd (progress_log started) @ map (chunk_progress (js_nat N)) [0..<N]"
    then obtain N where N: "2 \<le> N"
      and "map snd (progress_log st1)
                 = map snd (progress_log started) @ map (chunk_progress (js_nat N)) [0..<N]"
      by blast
    then have log: "map snd (progress_log st)
                        = Num 5 # map (chunk_progress (js_nat N)) [0..<N] @ [Num 85, Num 100]"
      using fin(2) by (simp add: started_simps)
    have pos: "0 < N" using N by simp
    have vals: "\<forall>i < N. chunk_progress (js_nat N) i
                               = Num (of_int (20 + \<lfloor>(of_nat i :: rat) / of_nat N * 60 + 1 / 2\<rfloor>))
                           \<and> js_le (Num 20) (chunk_progress (js_nat N) i)
                           \<and> js_le (chunk_progress (js_nat N) i) (Num 80)"
    proof (intro allI impI conjI)
      fix i assume i: "i < N"
      show "chunk_progress (js_nat N) i
              = Num (of_int (20 + \<lfloor>(of_nat i :: rat) / of_nat N * 60 + 1 / 2\<rfloor>))"
        using chunk_progress_finite [OF pos, of i] unfolding progress_step_def .
      show "js_le (Num 20) (chunk_progress (js_nat N) i)"
        by (rule chunk_progress_bounds(1) [OF i])
      show "js_le (chunk_progress (js_nat N) i) (Num 80)"
        by (rule chunk_progress_bounds(2) [OF i])
    qed
    have srt: "sorted_wrt js_le (map snd (progress_log st))"
      unfolding log by (rule sorted_progress_values [OF pos])
    have lst: "last (map snd (progress_log st)) = Num 100"
      unfolding log by simp
    have "\<exists>N \<ge> 2. map snd (progress_log st)
                        = Num 5 # map (chunk_progress (js_nat N)) [0..<N] @ [Num 85, Num 100]
                \<and> (\<forall>i < N. chunk_progress (js_nat N) i
                               = Num (of_int (20 + \<lfloor>(of_nat i :: rat) / of_nat N * 60 + 1 / 2\<rfloor>))
                           \<and> js_le (Num 20) (chunk_progress (js_nat N) i)
                           \<and> js_le (chunk_progress (js_nat N) i) (Num 80))"
      by (rule exI [of _ N], intro conjI) (rule N, rule log, rule vals)
    with srt lst show ?thesis by (intro conjI disjI2)
  qed
qed

theorem progress_is_monotone_witness:
  "processAudio long_clip_env example_clip = Some (Returned long_clip_result, long_clip_trace)
   \<and> sorted_wrt js_le (map snd (progress_log long_clip_trace))
   \<and> last (map snd (progress_log long_clip_trace)) = Num 100
   \<and> map snd (progress_log long_clip_trace) = [Num 5, Num 20, Num 40, Num 60, Num 85, Num 100]"
proof -
  have run: "processAudio long_clip_env example_clip = Some (Returned long_clip_result, long_clip_trace)"
    by code_simp
  have vals: "map snd (progress_log long_clip_trace) = [Num 5, Num 20, Num 40, Num 60, Num 85, Num 100]"
    by (simp add: long_clip_trace_def)
  from progress_is_monotone [OF run] run vals show ?thesis by blast
qed

section \<open>The plan covers the clip\<close>

lemma chunk_ranges_consecutive:
  "fst (chunk_range b (js_nat k) 0) = 0"
  "snd (chunk_range b (js_nat k) i) = fst (chunk_range b (js_nat k) (i + 1))"
  "fst (chunk_range b (js_nat k) i) \<le> snd (chunk_range b (js_nat k) i)"
  by (simp_all add: chunk_range_nat)

lemma blob_type_chunk_at: "blob_type (chunk_at b m c i) = m"
  by (simp add: chunk_at_def slice_def split: prod.splits)

lemma reads_after_chunks:
  "reads (after_chunks env b m n c N started) = map (chunk_at b m c) [0..<N]"
  by (simp add: after_chunks_def started_simps)

text \<open>
  Claim C1, amended. For a clip of finite duration \<open>d > 540\<close> and of \<open>S\<close> bytes:
  \<open>numChunks\<close> is \<open>N = ceil (d / 540)\<close>, \<open>chunkSize\<close> is \<open>k = ceil (S / N)\<close>, chunk \<open>i\<close>
  is the bytes in \<open>[min (i * k) S, min ((i + 1) * k) S)\<close>, both ends clipped to \<open>S\<close> for
  every chunk. The ranges start at 0, each begins where the one before ends, and the
  last ends at \<open>S\<close>: put end to end the chunks are the bytes of the clip. A run in which
  every chunk is read and answered reads exactly these chunks, in order.
\<close>

theorem chunk_plan_covers_clip:
  assumes "540 < d"
    and "N = nat \<lceil>d / 540\<rceil>"
    and "S = blob_size audioBlob"
    and "k = nat \<lceil>(of_nat S :: rat) / of_nat N\<rceil>"
  shows "num_chunks (Num d) MAX_CHUNK_SECONDS = js_nat N
       \<and> chunk_size audioBlob (js_nat N) = js_nat k
       \<and> (\<forall>i < N. chunk_range audioBlob (js_nat k) i = (min (i * k) S, min ((i + 1) * k) S)
               \<and> bytes (chunk_at audioBlob m (js_nat k) i)
                   = take (min ((i + 1) * k) S - min (i * k) S) (drop (min (i * k) S) (bytes audioBlob))
               \<and> blob_type (chunk_at audioBlob m (js_nat k) i) = m)
       \<and> fst (chunk_range audioBlob (js_nat k) 0) = 0
       \<and> (\<forall>i. i + 1 < N \<longrightarrow> snd (chunk_range audioBlob (js_nat k) i)
                                 = fst (chunk_range audioBlob (js_nat k) (i + 1)))
       \<and> snd (chunk_range audioBlob (js_nat k) (N - 1)) = S
       \<and> concat (map (\<lambda>i. bytes (chunk_at audioBlob m (js_nat k) i)) [0..<N]) = bytes audioBlob
       \<and> (getAudioDuration (media_events env audioBlob) = Fulfilled (Num d)
            \<and> all_chunks_answered env audioBlob (mime_type_of audioBlob) (js_nat k) N
          \<longrightarrow> (\<exists>result st. processAudio env audioBlob = Some (result, st)
                 \<and> reads st = map (chunk_at audioBlob (mime_type_of audioBlob) (js_nat k)) [0..<N]))"
proof -
  have n: "num_chunks (Num d) MAX_CHUNK_SECONDS = js_nat N" and N2: "2 \<le> N"
    using num_chunks_long [OF assms(1)] assms(2) by simp_all
  then have pos: "0 < N" by simp
  have c: "chunk_size audioBlob (js_nat N) = js_nat k"
    using chunk_size_finite [OF pos] assms(3,4) by simp
  have reach: "S \<le> N * k"
    using chunks_reach_end [OF pos, of audioBlob] assms(3,4) by simp
  have ranges: "\<forall>i < N. chunk_range audioBlob (js_nat k) i = (min (i * k) S, min ((i + 1) * k) S)
               \<and> bytes (chunk_at audioBlob m (js_nat k) i)
                   = take (min ((i + 1) * k) S - min (i * k) S) (drop (min (i * k) S) (bytes audioBlob))
               \<and> blob_type (chunk_at audioBlob m (js_nat k) i) = m"
    by (simp add: chunk_range_nat bytes_chunk_at_nat blob_type_chunk_at assms(3) add.commute)
  have first: "fst (chunk_range audioBlob (js_nat k) 0) = 0"
    by (rule chunk_ranges_consecutive(1))
  have consec: "\<forall>i. i + 1 < N \<longrightarrow> snd (chunk_range audioBlob (js_nat k) i)
                                 = fst (chunk_range audioBlob (js_nat k) (i + 1))"
    using chunk_ranges_consecutive(2) by blast
  have "(N - 1) * k + k = N * k"
    using pos by (metis Suc_diff_1 add.commute mult_Suc)
  then have last: "snd (chunk_range audioBlob (js_nat k) (N - 1)) = S"
    using reach by (simp add: chunk_range_nat assms(3) [symmetric])
  have cover: "concat (map (\<lambda>i. bytes (chunk_at audioBlob m (js_nat k) i)) [0..<N]) = bytes audioBlob"
    using reach by (simp add: concat_chunks assms(3) blob_size_def)
  have run: "\<exists>result st. processAudio env audioBlob = Some (result, st)
                 \<and> reads st = map (chunk_at audioBlob (mime_type_of audioBlob) (js_nat k)) [0..<N]"
    if probe: "getAudioDuration (media_events env audioBlob) = Fulfilled (Num d)"
      and ans: "all_chunks_answered env audioBlob (mime_type_of audioBlob) (js_nat k) N"
  proof -
    let ?m = "mime_type_of audioBlob"
    let ?raw = "join '' '' (segments env audioBlob ?m (js_nat k) N)"
    let ?st = "after_chunks env audioBlob ?m (js_nat N) (js_nat k) N started"
    have nle: "\<not> js_le (Num d) MAX_CHUNK_SECONDS"
      using assms(1) by (simp add: MAX_CHUNK_SECONDS_eq)
    have pa: "processAudio env audioBlob = Some (analyse env ?raw ?st)"
      using processAudio_chunked_run(2) [OF probe nle n] ans unfolding c by simp
    obtain result st where an: "analyse env ?raw ?st = (result, st)"
      by (cases "analyse env ?raw ?st")
    have "reads st = map (chunk_at audioBlob ?m (js_nat k)) [0..<N]"
      using analyse_reads [OF an] by (simp add: reads_after_chunks)
    with pa an show ?thesis by simp
  qed
  from n c ranges first consec last cover run show ?thesis by blast
qed

theorem chunk_plan_covers_clip_witness:
  "(540 :: rat) < 2000
   \<and> (4 :: nat) = nat \<lceil>(2000 :: rat) / 540\<rceil>
   \<and> (5 :: nat) = blob_size example_clip
   \<and> (2 :: nat) = nat \<lceil>(of_nat 5 :: rat) / of_nat 4\<rceil>
   \<and> getAudioDuration (media_events tiny_clip_env example_clip) = Fulfilled (Num 2000)
   \<and> all_chunks_answered tiny_clip_env example_clip (mime_type_of example_clip) (js_nat 2) 4
   \<and> num_chunks (Num 2000) MAX_CHUNK_SECONDS = js_nat 4
   \<and> chunk_size example_clip (js_nat 4) = js_nat 2
   \<and> (2 :: nat) < 4
   \<and> chunk_range example_clip (js_nat 2) 2 = (min (2 * 2) 5, min ((2 + 1) * 2) 5)
   \<and> bytes (chunk_at example_clip ''audio/webm'' (js_nat 2) 2)
        = take (min ((2 + 1) * 2) 5 - min (2 * 2) 5) (drop (min (2 * 2) 5) (bytes example_clip))
   \<and> snd (chunk_range example_clip (js_nat 2) (4 - 1)) = 5
   \<and> concat (map (\<lambda>i. bytes (chunk_at example_clip ''audio/webm'' (js_nat 2) i)) [0..<4])
        = bytes example_clip
   \<and> (\<exists>result st. processAudio tiny_clip_env example_clip = Some (result, st)
          \<and> reads st = map (chunk_at example_clip (mime_type_of example_clip) (js_nat 2)) [0..<4])"
proof -
  have a1: "(540 :: rat) < 2000" by simp
  have a2: "(4 :: nat) = nat \<lceil>(2000 :: rat) / 540\<rceil>" by code_simp
  have a3: "(5 :: nat) = blob_size example_clip" by code_simp
  have a4: "(2 :: nat) = nat \<lceil>(of_nat 5 :: rat) / of_nat 4\<rceil>" by code_simp
  have b1: "getAudioDuration (media_events tiny_clip_env example_clip) = Fulfilled (Num 2000)"
    by code_simp
  have b2: "all_chunks_answered tiny_clip_env example_clip (mime_type_of example_clip) (js_nat 2) 4"
    by code_simp
  note t = chunk_plan_covers_clip [OF a1 a2 a3 a4, where m = "''audio/webm''" and env = tiny_clip_env]
  have lt: "(2 :: nat) < 4" by simp
  have c2: "chunk_range example_clip (js_nat 2) 2 = (min (2 * 2) 5, min ((2 + 1) * 2) 5)"
    "bytes (chunk_at example_clip ''audio/webm'' (js_nat 2) 2)
        = take (min ((2 + 1) * 2) 5 - min (2 * 2) 5) (drop (min (2 * 2) 5) (bytes example_clip))"
    using t lt by blast+
  from t a1 a2 a3 a4 b1 b2 lt c2 show ?thesis by blast
qed

text \<open>
  The claim as stated fails: over five bytes and 2000 seconds the plan is four chunks of
  two bytes; chunk 2 is not the last one and yet is clipped, to the range \<open>[4, 5)\<close> and
  the one byte \<open>e\<close>, not \<open>[4, 6)\<close>; the last chunk is the empty range \<open>[5, 5)\<close>.
\<close>

theorem nonfinal_chunk_is_clipped:
  "num_chunks (Num 2000) MAX_CHUNK_SECONDS = Num 4
   \<and> chunk_size example_clip (Num 4) = Num 2
   \<and> chunk_range example_clip (Num 2) 2 = (4, 5)
   \<and> chunk_range example_clip (Num 2) 2 \<noteq> (2 * 2, (2 + 1) * 2)
   \<and> bytes (chunk_at example_clip ''audio/webm'' (Num 2) 2) = ''e''
   \<and> chunk_range example_clip (Num 2) 3 = (5, 5)
   \<and> map_option (map bytes \<circ> reads \<circ> snd) (processAudio tiny_clip_env example_clip)
        = Some [''ab'', ''cd'', ''e'', []]"
  by code_simp

section \<open>Properties of the listing of recordings\<close>

lemma mset_insert_sorted: "mset (insert_sorted cmp x ys) = add_mset x (mset ys)"
  by (induction ys) simp_all

lemma mset_foldr_insert_sorted: "mset (foldr (insert_sorted cmp) xs []) = mset xs"
  by (induction xs) (simp_all add: mset_insert_sorted)

lemma elements_of_array_sort: "elements_of (array_sort cmp xs) = mset xs"
  by (simp add: array_sort_def mset_foldr_insert_sorted)

lemma set_insert_sorted: "set (insert_sorted cmp x ys) = insert x (set ys)"
  using mset_insert_sorted [of cmp x ys, THEN arg_cong, of set_mset] by simp

lemma set_foldr_insert_sorted: "set (foldr (insert_sorted cmp) xs []) = set xs"
  using mset_foldr_insert_sorted [of cmp xs, THEN arg_cong, of set_mset] by simp

lemma by_date_desc_dated:
  assumes "date_getTime env (rec_date x) = Num tx" and "date_getTime env (rec_date y) = Num ty"
  shows "js_lt (Num 0) (sort_compare (by_date_desc env) x y) \<longleftrightarrow> tx < ty"
    and "not_older env x y \<longleftrightarrow> ty \<le> tx"
    and "by_date_desc env x y = Num (ty - tx)"
  using assms by (simp_all add: sort_compare_def by_date_desc_def js_sub_def not_older_def)

lemma not_older_trans:
  assumes "dated env x" and "dated env y" and "dated env z"
    and "not_older env x y" and "not_older env y z"
  shows "not_older env x z"
  using assms by (auto simp: dated_def not_older_def)

lemma sorted_insert_sorted:
  assumes "dated env x" and "\<forall>y \<in> set ys. dated env y" and "sorted_wrt (not_older env) ys"
  shows "sorted_wrt (not_older env) (insert_sorted (by_date_desc env) x ys)"
  using assms
proof (induction ys)
  case Nil
  then show ?case by simp
next
  case (Cons y ys)
  obtain tx ty where tx: "date_getTime env (rec_date x) = Num tx"
    and ty: "date_getTime env (rec_date y) = Num ty"
    using Cons.prems(1,2) by (auto simp: dated_def)
  note cmp = by_date_desc_dated(1,2) [OF tx ty] by_date_desc_dated(1,2) [OF ty tx]
  show ?case
  proof (cases "tx < ty")
    case True
    then have "not_older env y x" using cmp by simp
    moreover have "sorted_wrt (not_older env) (insert_sorted (by_date_desc env) x ys)"
      using Cons by simp
    ultimately show ?thesis
      using True cmp Cons.prems(3) by (simp add: set_insert_sorted)
  next
    case False
    then have xy: "not_older env x y" using cmp by simp
    have "not_older env x z" if "z \<in> set ys" for z
    proof -
      have "not_older env y z" using Cons.prems(3) that by simp
      moreover have "dated env y" "dated env z" using Cons.prems(2) that by simp_all
      ultimately show ?thesis using not_older_trans [OF Cons.prems(1)] xy by blast
    qed
    then show ?thesis
      using False cmp xy Cons.prems(3) by simp
  qed
qed

lemma sorted_foldr_insert_sorted:
  assumes "\<forall>x \<in> set xs. dated env x"
  shows "sorted_wrt (not_older env) (foldr (insert_sorted (by_date_desc env)) xs [])"
  using assms
proof (induction xs)
  case Nil
  then show ?case by simp
next
  case (Cons x xs)
  have "sorted_wrt (not_older env)
          (insert_sorted (by_date_desc env) x (foldr (insert_sorted (by_date_desc env)) xs []))"
    using Cons by (intro sorted_insert_sorted) (simp_all add: set_foldr_insert_sorted)
  then show ?case by simp
qed

lemma consistent_by_date_desc:
  assumes "\<forall>x \<in> set xs. dated env x"
  shows "consistent_comparator (by_date_desc env) xs"
proof -
  have num: "\<exists>t. date_getTime env (rec_date x) = Num t" if "x \<in> set xs" for x
    using assms that by (simp add: dated_def)
  have cmp: "by_date_desc env a b \<noteq> NaN \<and> by_date_desc env a a = Num 0
               \<and> (by_date_desc env a b = Num 0 \<longrightarrow> by_date_desc env b a = Num 0)"
    if a: "a \<in> set xs" and b: "b \<in> set xs" for a b
  proof -
    obtain ta tb where "date_getTime env (rec_date a) = Num ta"
      "date_getTime env (rec_date b) = Num tb"
      using num [OF a] num [OF b] by blast
    then show ?thesis by (simp add: by_date_desc_def js_sub_def)
  qed
  have trans: "(by_date_desc env a b = Num 0 \<and> by_date_desc env b c = Num 0
                  \<longrightarrow> by_date_desc env a c = Num 0)
             \<and> (js_lt (by_date_desc env a b) (Num 0) \<and> js_lt (by_date_desc env b c) (Num 0)
                  \<longrightarrow> js_lt (by_date_desc env a c) (Num 0))
             \<and> (js_lt (Num 0) (by_date_desc env a b) \<and> js_lt (Num 0) (by_date_desc env b c)
                  \<longrightarrow> js_lt (Num 0) (by_date_desc env a c))"
    if a: "a \<in> set xs" and b: "b \<in> set xs" and c: "c \<in> set xs" for a b c
  proof -
    obtain ta tb tc where "date_getTime env (rec_date a) = Num ta"
      "date_getTime env (rec_date b) = Num tb" "date_getTime env (rec_date c) = Num tc"
      using num [OF a] num [OF b] num [OF c] by blast
    then show ?thesis by (simp add: by_date_desc_def js_sub_def)
  qed
  have never_nan: "list_all (\<lambda>a. list_all (\<lambda>b. by_date_desc env a b \<noteq> NaN) xs) xs"
    unfolding list_all_iff using cmp by blast
  have reflexive: "list_all (\<lambda>a. by_date_desc env a a = Num 0) xs"
    unfolding list_all_iff using cmp by blast
  have symmetric: "list_all (\<lambda>a. list_all (\<lambda>b. by_date_desc env a b = Num 0
                      \<longrightarrow> by_date_desc env b a = Num 0) xs) xs"
    unfolding list_all_iff using cmp by blast
  have transitive: "list_all (\<lambda>a. list_all (\<lambda>b. list_all (\<lambda>c.
            (by_date_desc env a b = Num 0 \<and> by_date_desc env b c = Num 0
               \<longrightarrow> by_date_desc env a c = Num 0)
          \<and> (js_lt (by_date_desc env a b) (Num 0) \<and> js_lt (by_date_desc env b c) (Num 0)
               \<longrightarrow> js_lt (by_date_desc env a c) (Num 0))
          \<and> (js_lt (Num 0) (by_date_desc env a b) \<and> js_lt (Num 0) (by_date_desc env b c)
               \<longrightarrow> js_lt (Num 0) (by_date_desc env a c))) xs) xs) xs"
    unfolding list_all_iff using trans by (intro ballI) blast
  from never_nan reflexive symmetric transitive show ?thesis
    unfolding consistent_comparator_def by (intro conjI)
qed

lemma array_sort_dated:
  assumes "\<forall>x \<in> set xs. dated env x"
  shows "\<exists>listing. array_sort (by_date_desc env) xs = InOrder listing
           \<and> sorted_wrt (not_older env) listing \<and> set listing = set xs"
  using consistent_by_date_desc [OF assms] sorted_foldr_insert_sorted [OF assms]
  by (simp add: array_sort_def set_foldr_insert_sorted)

lemma initDB_contents: "initDB env s = (p, s') \<Longrightarrow> store_contents s' = store_contents s"
  by (auto simp: initDB_def store_contents_def Let_def
      split: if_splits request_outcome.splits option.splits)

lemma initDB_object_store:
  "initDB env s = (Fulfilled u, s') \<Longrightarrow> object_store s' = Some recs \<Longrightarrow> store_contents s = recs"
  by (auto simp: initDB_def store_contents_def Let_def
      split: if_splits request_outcome.splits option.splits)

lemma dated_omit_audioBlob: "dated env (omit_audioBlob r) = dated env r"
  by (simp add: dated_def omit_audioBlob_def)

text \<open>
  Claim C10, amended. Whatever the state of the store, \<^verbatim>\<open>getRecordingsFromDB\<close> leaves
  its records as they are, and when it resolves, what it resolves with has exactly the
  stored records, each without \<^verbatim>\<open>audioBlob\<close> and with its \<open>id\<close>, \<open>name\<close>, \<open>date\<close>,
  \<open>audioUrl\<close> and \<open>transcription\<close> as stored. When the date of every stored record is a
  date, it is a list in a determined order, by date, most recent first: the time value of
  an element is at least that of every later element.
\<close>

theorem getRecordingsFromDB_lists_metadata:
  assumes "getRecordingsFromDB env s = (p, s')"
  shows "store_contents s' = store_contents s
       \<and> (\<forall>recordings. p = Fulfilled recordings \<longrightarrow>
             image_mset (\<lambda>r. (rec_id r, rec_name r, rec_date r, rec_audioUrl r,
                               rec_transcription r)) (elements_of recordings)
               = image_mset (\<lambda>r. (rec_id r, rec_name r, rec_date r, rec_audioUrl r,
                                   rec_transcription r)) (mset (store_contents s))
             \<and> ((\<forall>r \<in> set (store_contents s). \<exists>t. date_getTime env (rec_date r) = Num t)
                  \<longrightarrow> (\<exists>listing. recordings = InOrder listing
                         \<and> (\<forall>i j. i < j \<and> j < length listing \<longrightarrow>
                               (\<exists>ti tj. date_getTime env (rec_date (listing ! i)) = Num ti
                                  \<and> date_getTime env (rec_date (listing ! j)) = Num tj
                                  \<and> tj \<le> ti)))))"
proof -
  obtain q s1 where init: "initDB env s = (q, s1)"
    by (cases "initDB env s")
  have same: "store_contents s1 = store_contents s"
    by (rule initDB_contents [OF init])
  have s': "s' = s1"
    using assms init
    by (auto simp: getRecordingsFromDB_def Let_def
        split: promise.splits option.splits request_outcome.splits)
  have listing: "image_mset (\<lambda>r. (rec_id r, rec_name r, rec_date r, rec_audioUrl r,
                               rec_transcription r)) (elements_of recordings)
               = image_mset (\<lambda>r. (rec_id r, rec_name r, rec_date r, rec_audioUrl r,
                                   rec_transcription r)) (mset (store_contents s))
             \<and> ((\<forall>r \<in> set (store_contents s). \<exists>t. date_getTime env (rec_date r) = Num t)
                  \<longrightarrow> (\<exists>listing. recordings = InOrder listing
                         \<and> (\<forall>i j. i < j \<and> j < length listing \<longrightarrow>
                               (\<exists>ti tj. date_getTime env (rec_date (listing ! i)) = Num ti
                                  \<and> date_getTime env (rec_date (listing ! j)) = Num tj
                                  \<and> tj \<le> ti))))"
    if "p = Fulfilled recordings" for recordings
  proof -
    have "\<exists>u recs. q = Fulfilled u \<and> object_store s1 = Some recs
             \<and> recordings = array_sort (by_date_desc env) (map omit_audioBlob recs)"
      using assms init that
      by (auto simp: getRecordingsFromDB_def Let_def
          split: promise.splits option.splits request_outcome.splits)
    then obtain u recs where q: "q = Fulfilled u" and recs: "object_store s1 = Some recs"
      and l: "recordings = array_sort (by_date_desc env) (map omit_audioBlob recs)"
      by blast
    have stored: "store_contents s = recs"
      using initDB_object_store init q recs by blast
    have elems: "image_mset (\<lambda>r. (rec_id r, rec_name r, rec_date r, rec_audioUrl r,
                               rec_transcription r)) (elements_of recordings)
               = image_mset (\<lambda>r. (rec_id r, rec_name r, rec_date r, rec_audioUrl r,
                                   rec_transcription r)) (mset (store_contents s))"
      unfolding l stored elements_of_array_sort
      by (simp add: multiset.map_comp comp_def omit_audioBlob_def)
    have order: "\<exists>listing. recordings = InOrder listing
                         \<and> (\<forall>i j. i < j \<and> j < length listing \<longrightarrow>
                               (\<exists>ti tj. date_getTime env (rec_date (listing ! i)) = Num ti
                                  \<and> date_getTime env (rec_date (listing ! j)) = Num tj
                                  \<and> tj \<le> ti))"
      if all: "\<forall>r \<in> set (store_contents s). \<exists>t. date_getTime env (rec_date r) = Num t"
    proof -
      have d: "\<forall>x \<in> set (map omit_audioBlob recs). dated env x"
        using all unfolding stored by (simp add: dated_omit_audioBlob) (simp add: dated_def)
      obtain listing where lst: "recordings = InOrder listing"
        and srt: "sorted_wrt (not_older env) listing"
        and els: "set listing = set (map omit_audioBlob recs)"
        using array_sort_dated [OF d] unfolding l by blast
      have "\<exists>ti tj. date_getTime env (rec_date (listing ! i)) = Num ti
                 \<and> date_getTime env (rec_date (listing ! j)) = Num tj \<and> tj \<le> ti"
        if "i < j" and "j < length listing" for i j
      proof -
        have "listing ! i \<in> set listing" "listing ! j \<in> set listing"
          using that by simp_all
        then have "dated env (listing ! i)" "dated env (listing ! j)"
          using d els by blast+
        then obtain ti tj where t: "date_getTime env (rec_date (listing ! i)) = Num ti"
          "date_getTime env (rec_date (listing ! j)) = Num tj"
          by (auto simp: dated_def)
        have "not_older env (listing ! i) (listing ! j)"
          using srt that by (simp add: sorted_wrt_iff_nth_less)
        then have "tj \<le> ti" using by_date_desc_dated(2) [OF t] by simp
        with t show ?thesis by blast
      qed
      with lst show ?thesis by blast
    qed
    from elems order show ?thesis by blast
  qed
  from same s' listing show ?thesis by blast
qed

theorem getRecordingsFromDB_lists_metadata_witness:
  "getRecordingsFromDB example_db_env example_database
     = (Fulfilled (InOrder
          [\<lparr>rec_id = ''2'', rec_name = ''Recording'', rec_date = ''2024-01-03T00:00:00.000Z'',
            rec_audioUrl = None, rec_transcription = None\<rparr>,
           \<lparr>rec_id = ''1'', rec_name = ''Recording'', rec_date = ''2024-01-02T00:00:00.000Z'',
            rec_audioUrl = None, rec_transcription = None\<rparr>,
           \<lparr>rec_id = ''3'', rec_name = ''Recording'', rec_date = ''2024-01-01T00:00:00.000Z'',
            rec_audioUrl = None, rec_transcription = None\<rparr>]),
        example_database\<lparr>db := True\<rparr>)
   \<and> list_all (\<lambda>r. \<exists>t. date_getTime example_db_env (rec_date r) = Num t)
        (store_contents example_database)
   \<and> store_contents (example_database\<lparr>db := True\<rparr>) = store_contents example_database
   \<and> image_mset (\<lambda>r. (rec_id r, rec_name r, rec_date r, rec_audioUrl r, rec_transcription r))
        (elements_of (InOrder example_listing))
       = image_mset (\<lambda>r. (rec_id r, rec_name r, rec_date r, rec_audioUrl r, rec_transcription r))
           (mset (store_contents example_database))
   \<and> (\<exists>t0 t1 t2. date_getTime example_db_env (rec_date (example_listing ! 0)) = Num t0
          \<and> date_getTime example_db_env (rec_date (example_listing ! 1)) = Num t1
          \<and> date_getTime example_db_env (rec_date (example_listing ! 2)) = Num t2
          \<and> t1 \<le> t0 \<and> t2 \<le> t1 \<and> t2 \<le> t0)"
proof -
  have run: "getRecordingsFromDB example_db_env example_database
     = (Fulfilled (InOrder example_listing), example_database\<lparr>db := True\<rparr>)"
    by code_simp
  have run': "getRecordingsFromDB example_db_env example_database
     = (Fulfilled (InOrder
          [\<lparr>rec_id = ''2'', rec_name = ''Recording'', rec_date = ''2024-01-03T00:00:00.000Z'',
            rec_audioUrl = None, rec_transcription = None\<rparr>,
           \<lparr>rec_id = ''1'', rec_name = ''Recording'', rec_date = ''2024-01-02T00:00:00.000Z'',
            rec_audioUrl = None, rec_transcription = None\<rparr>,
           \<lparr>rec_id = ''3'', rec_name = ''Recording'', rec_date = ''2024-01-01T00:00:00.000Z'',
            rec_audioUrl = None, rec_transcription = None\<rparr>]),
        example_database\<lparr>db := True\<rparr>)"
    using run by (simp add: example_listing_def example_meta_def)
  have dts: "\<forall>r \<in> set (store_contents example_database).
               \<exists>t. date_getTime example_db_env (rec_date r) = Num t"
    by (simp add: store_contents_def example_database_def example_store_def
        example_db_env_def example_date_getTime_def example_recording_def)
  then have dts': "list_all (\<lambda>r. \<exists>t. date_getTime example_db_env (rec_date r) = Num t)
        (store_contents example_database)"
    by (simp add: list_all_iff)
  note listed = getRecordingsFromDB_lists_metadata [OF run]
  have same: "store_contents (example_database\<lparr>db := True\<rparr>) = store_contents example_database"
    using listed by blast
  have elems: "image_mset (\<lambda>r. (rec_id r, rec_name r, rec_date r, rec_audioUrl r, rec_transcription r))
        (elements_of (InOrder example_listing))
       = image_mset (\<lambda>r. (rec_id r, rec_name r, rec_date r, rec_audioUrl r, rec_transcription r))
           (mset (store_contents example_database))"
    using listed by blast
  have ord: "\<forall>i j. i < j \<and> j < length example_listing \<longrightarrow>
               (\<exists>ti tj. date_getTime example_db_env (rec_date (example_listing ! i)) = Num ti
                  \<and> date_getTime example_db_env (rec_date (example_listing ! j)) = Num tj
                  \<and> tj \<le> ti)"
    using listed dts by blast
  have len: "length example_listing = 3" by (simp add: example_listing_def)
  obtain t0 t1 where o01: "date_getTime example_db_env (rec_date (example_listing ! 0)) = Num t0"
    "date_getTime example_db_env (rec_date (example_listing ! 1)) = Num t1" "t1 \<le> t0"
    using ord [rule_format, of 0 1] len by auto
  obtain t1' t2 where o12: "date_getTime example_db_env (rec_date (example_listing ! 1)) = Num t1'"
    "date_getTime example_db_env (rec_date (example_listing ! 2)) = Num t2" "t2 \<le> t1'"
    using ord [rule_format, of 1 2] len by auto
  have "t1' = t1" using o01(2) o12(1) by simp
  then have order: "\<exists>t0 t1 t2. date_getTime example_db_env (rec_date (example_listing ! 0)) = Num t0
          \<and> date_getTime example_db_env (rec_date (example_listing ! 1)) = Num t1
          \<and> date_getTime example_db_env (rec_date (example_listing ! 2)) = Num t2
          \<and> t1 \<le> t0 \<and> t2 \<le> t1 \<and> t2 \<le> t0"
    using o01 o12 by (intro exI [of _ t0] exI [of _ t1] exI [of _ t2]) simp
  from run' dts' same elems order show ?thesis by (intro conjI)
qed

text \<open>
  Claim C10 as it was stated: for every store state the list is ordered by date, most
  recent first. A store whose second recording has a date that is no date is a
  counterexample: the comparator yields NaN, the order of the result is the
  implementation's, and no order of the three records is by date, since the record
  without a time value is neither before nor after the others.
\<close>

theorem undated_store_is_not_ordered:
  "getRecordingsFromDB example_db_env undated_database
     = (Fulfilled (InSomeOrder (mset
          [example_meta ''1'' ''2024-01-01T00:00:00.000Z'',
           example_meta ''2'' ''yesterday'',
           example_meta ''3'' ''2024-01-03T00:00:00.000Z''])),
        undated_database\<lparr>db := True\<rparr>)
   \<and> date_getTime example_db_env ''yesterday'' = NaN
   \<and> by_date_desc example_db_env (example_meta ''1'' ''2024-01-01T00:00:00.000Z'')
        (example_meta ''2'' ''yesterday'') = NaN
   \<and> \<not> sorted_wrt (not_older example_db_env)
        [example_meta ''1'' ''2024-01-01T00:00:00.000Z'', example_meta ''2'' ''yesterday'',
         example_meta ''3'' ''2024-01-03T00:00:00.000Z'']
   \<and> \<not> sorted_wrt (not_older example_db_env)
        [example_meta ''1'' ''2024-01-01T00:00:00.000Z'',
         example_meta ''3'' ''2024-01-03T00:00:00.000Z'', example_meta ''2'' ''yesterday'']
   \<and> \<not> sorted_wrt (not_older example_db_env)
        [example_meta ''2'' ''yesterday'', example_meta ''1'' ''2024-01-01T00:00:00.000Z'',
         example_meta ''3'' ''2024-01-03T00:00:00.000Z'']
   \<and> \<not> sorted_wrt (not_older example_db_env)
        [example_meta ''2'' ''yesterday'', example_meta ''3'' ''2024-01-03T00:00:00.000Z'',
         example_meta ''1'' ''2024-01-01T00:00:00.000Z'']
   \<and> \<not> sorted_wrt (not_older example_db_env)
        [example_meta ''3'' ''2024-01-03T00:00:00.000Z'',
         example_meta ''1'' ''2024-01-01T00:00:00.000Z'', example_meta ''2'' ''yesterday'']
   \<and> \<not> sorted_wrt (not_older example_db_env)
        [example_meta ''3'' ''2024-01-03T00:00:00.000Z'', example_meta ''2'' ''yesterday'',
         example_meta ''1'' ''2024-01-01T00:00:00.000Z'']"
proof -
  have run: "getRecordingsFromDB example_db_env undated_database
     = (Fulfilled (InSomeOrder (mset
          [example_meta ''1'' ''2024-01-01T00:00:00.000Z'',
           example_meta ''2'' ''yesterday'',
           example_meta ''3'' ''2024-01-03T00:00:00.000Z''])),
        undated_database\<lparr>db := True\<rparr>)"
    by code_simp
  have nan: "date_getTime example_db_env ''yesterday'' = NaN"
    by code_simp
  have cmp: "by_date_desc example_db_env (example_meta ''1'' ''2024-01-01T00:00:00.000Z'')
        (example_meta ''2'' ''yesterday'') = NaN"
    by code_simp
  have no: "\<not> not_older example_db_env (example_meta ''2'' ''yesterday'') r"
    "\<not> not_older example_db_env r (example_meta ''2'' ''yesterday'')" for r
    using nan
    by (cases "date_getTime example_db_env (rec_date r)"; simp add: not_older_def example_meta_def)+
  from run nan cmp no show ?thesis by auto
qed

section \<open>Clips of infinite duration\<close>
text \<open>
  A duration reported as infinite puts the run in chunked mode with infinitely many
  chunks of no bytes: the loop has no normal exit, so the run never returns, and when
  every read is fulfilled and every call settles it never ends at all.
\<close>

lemma chunk_loop_endless:
  assumes "chunk_loop env b m n c i parts st = Some y"
  shows "\<not> (n = PosInf
            \<and> (\<forall>k blob. \<exists>enc. blobToBase64 (file_reader env k blob) = Fulfilled enc)
            \<and> (\<forall>k req. generateContent env k req \<noteq> Pending))"
proof (rule chunk_loop.raw_induct
    [where P = "\<lambda>env b m n c i parts st y.
        \<not> (n = PosInf
            \<and> (\<forall>k blob. \<exists>enc. blobToBase64 (file_reader env k blob) = Fulfilled enc)
            \<and> (\<forall>k req. generateContent env k req \<noteq> Pending))", OF _ assms], goal_cases)
  case (1 loop env b m n c i parts st y)
  show ?case
  proof
    assume h: "n = PosInf
            \<and> (\<forall>k blob. \<exists>enc. blobToBase64 (file_reader env k blob) = Fulfilled enc)
            \<and> (\<forall>k req. generateContent env k req \<noteq> Pending)"
    obtain enc where enc: "blobToBase64 (file_reader env (length (reads st)) (chunk_at b m c i))
        = Fulfilled enc"
      using h by blast
    have "generateContent env (length (calls st)) (chunk_request m enc) \<noteq> Pending"
      using h by blast
    then have "\<exists>parts1 st1. chunk_iteration env b m n c i parts st = Continue parts1 st1"
      using enc
      by (cases "generateContent env (length (calls st)) (chunk_request m enc)")
         (simp_all add: chunk_iteration_unfold)
    then obtain parts1 st1 where "chunk_iteration env b m n c i parts st = Continue parts1 st1"
      by blast
    with 1(2) h have "loop env b m n c (i + 1) parts1 st1 = Some y" by simp
    from 1(1) [OF this] h show False by simp
  qed
qed

lemma infinite_duration_never_returns:
  assumes "getAudioDuration (media_events env audioBlob) = Fulfilled PosInf"
  shows "processAudio env audioBlob \<noteq> Some (Returned data, st)"
proof
  assume ret: "processAudio env audioBlob = Some (Returned data, st)"
  let ?m = "mime_type_of audioBlob"
  obtain raw st1 where tr: "transcribe env audioBlob ?m PosInf MAX_CHUNK_SECONDS started
      = Some (Inr raw, st1)"
    using ret transcribe_never_returns unfolding processAudio_probed [OF assms]
    by (auto split: option.splits prod.splits sum.splits)
  have n: "num_chunks PosInf MAX_CHUNK_SECONDS = PosInf"
    by (simp add: num_chunks_def MAX_CHUNK_SECONDS_eq)
  have nle: "\<not> js_le PosInf MAX_CHUNK_SECONDS"
    by (simp add: MAX_CHUNK_SECONDS_eq)
  have "\<exists>parts. chunk_loop env audioBlob ?m PosInf (chunk_size audioBlob PosInf) 0 [] started
      = Some (Inr parts, st1)"
    using tr
    by (auto simp: transcribe_def Let_def n nle split: option.splits prod.splits sum.splits)
  then obtain parts where "chunk_loop env audioBlob ?m PosInf (chunk_size audioBlob PosInf) 0 [] started
      = Some (Inr parts, st1)"
    by blast
  from chunk_loop_infinite [OF this] show False by simp
qed

lemma endless_clip_never_ends: "processAudio endless_clip_env example_clip = None"
proof -
  have probe: "getAudioDuration (media_events endless_clip_env example_clip) = Fulfilled PosInf"
    by code_simp
  have reads: "\<forall>k blob. \<exists>enc. blobToBase64 (file_reader endless_clip_env k blob) = Fulfilled enc"
    by (simp add: endless_clip_env_def data_url_reader_def blobToBase64_def resolve_simps)
  have calls: "\<forall>k req. generateContent endless_clip_env k req \<noteq> Pending"
    by (simp add: endless_clip_env_def)
  have n: "num_chunks PosInf MAX_CHUNK_SECONDS = PosInf"
    by (simp add: num_chunks_def MAX_CHUNK_SECONDS_eq)
  have "chunk_loop endless_clip_env example_clip (mime_type_of example_clip) PosInf
          (chunk_size example_clip PosInf) 0 [] started = None"
  proof (cases "chunk_loop endless_clip_env example_clip (mime_type_of example_clip) PosInf
          (chunk_size example_clip PosInf) 0 [] started")
    case None
    then show ?thesis .
  next
    case (Some y)
    from chunk_loop_endless [OF Some] reads calls show ?thesis by blast
  qed
  moreover have "\<not> js_le PosInf MAX_CHUNK_SECONDS"
    by (simp add: MAX_CHUNK_SECONDS_eq)
  ultimately have "transcribe endless_clip_env example_clip (mime_type_of example_clip) PosInf
          MAX_CHUNK_SECONDS started = None"
    by (simp add: transcribe_def Let_def n)
  then show ?thesis by (simp add: processAudio_probed [OF probe])
qed

end
